theory Spec2Isabelle
  imports Complex_Main "HOL-Library.Sublist"
begin

section \<open>Primitive codecs: column letters and cell references\<close>

text \<open>
  Strings are \<open>char list\<close>; column and row numbers are the non-negative integers the
  source passes around as JavaScript numbers (exact below \<open>2^53\<close>).
\<close>

subsection \<open>xlColumn\<close>

text \<open>
  The body of \<open>xlColumn\<close>'s \<open>while (col > 0)\<close> loop: decrement, prepend
  \<open>String.fromCharCode(65 + col % 26)\<close>, divide by 26.
\<close>

function xlColumn_loop :: "nat \<Rightarrow> string \<Rightarrow> string" where
  "xlColumn_loop col result =
     (if col > 0
      then xlColumn_loop ((col - 1) div 26) (char_of (65 + (col - 1) mod 26) # result)
      else result)"
  by pat_completeness auto
termination
  by (relation "measure (\<lambda>(col, result). col)") auto

declare xlColumn_loop.simps [simp del]

text \<open>
  \<open>XL_COLUMN_CACHE\<close> is a module-level object from column number to letters. A cached
  entry is returned when it is truthy (a non-empty string); a computed result is stored
  for columns up to 702.
\<close>

type_synonym column_cache = "nat \<rightharpoonup> string"

definition xlColumn :: "column_cache \<Rightarrow> nat \<Rightarrow> string \<times> column_cache" where
  "xlColumn cache column =
     (case cache column of
        Some r \<Rightarrow>
          if r \<noteq> [] then (r, cache)
          else (let result = xlColumn_loop column []
                in (result, if column \<le> 702 then cache(column \<mapsto> result) else cache))
      | None \<Rightarrow>
          (let result = xlColumn_loop column []
           in (result, if column \<le> 702 then cache(column \<mapsto> result) else cache)))"

text \<open>The cache only ever holds results of the loop.\<close>

definition cache_ok :: "column_cache \<Rightarrow> bool" where
  "cache_ok cache = (\<forall>k r. cache k = Some r \<longrightarrow> r = xlColumn_loop k [])"

subsection \<open>xlCell2Ind\<close>

definition isLetter :: "char \<Rightarrow> bool" where
  "isLetter c = ((65 \<le> (of_char c :: nat) \<and> (of_char c :: nat) \<le> 90) \<or>
                 (97 \<le> (of_char c :: nat) \<and> (of_char c :: nat) \<le> 122))"

definition isDigit :: "char \<Rightarrow> bool" where
  "isDigit c = (48 \<le> (of_char c :: nat) \<and> (of_char c :: nat) \<le> 57)"

text \<open>
  \<open>xlCell.match(/^([A-Z]+)(\d+)$/i)\<close>: one or more ASCII letters of either case followed
  by one or more ASCII digits, and nothing else. The two groups are returned.
\<close>

definition match_cellref :: "string \<Rightarrow> (string \<times> string) option" where
  "match_cellref s =
     (let letters = takeWhile isLetter s; digits = dropWhile isLetter s
      in if letters \<noteq> [] \<and> digits \<noteq> [] \<and> list_all isDigit digits
         then Some (letters, digits) else None)"

definition toUpperCase_char :: "char \<Rightarrow> char" where
  "toUpperCase_char c =
     (if 97 \<le> (of_char c :: nat) \<and> (of_char c :: nat) \<le> 122
      then char_of ((of_char c :: nat) - 32) else c)"

definition toUpperCase :: "string \<Rightarrow> string" where
  "toUpperCase s = map toUpperCase_char s"

text \<open>\<open>parseInt(digits, 10)\<close> on a string of decimal digits.\<close>

definition parseInt10 :: "string \<Rightarrow> nat" where
  "parseInt10 ds = foldl (\<lambda>acc d. acc * 10 + ((of_char d :: nat) - 48)) 0 ds"

text \<open>
  The \<open>for\<close> loop over the letters:
  \<open>column = column * 26 + (letters.charCodeAt(i) - 64)\<close>.
\<close>

definition letters2column :: "string \<Rightarrow> nat" where
  "letters2column letters = foldl (\<lambda>column ch. column * 26 + ((of_char ch :: nat) - 64)) 0 letters"

record cell_index =
  row :: nat
  column :: nat

text \<open>
  The argument of \<open>xlCell2Ind\<close> is a string, an array or a number; anything else
  gives row 1, column 1. An array element that is missing or falsy (0) defaults to 1.
\<close>

datatype cell_arg = RefString string | RefArray "nat list" | RefNumber nat | RefOther

fun xlCell2Ind :: "cell_arg \<Rightarrow> cell_index" where
  "xlCell2Ind (RefString xlCell) =
     (case match_cellref xlCell of
        None \<Rightarrow> \<lparr>row = 1, column = 1\<rparr>
      | Some (letters, digits) \<Rightarrow>
          \<lparr>row = parseInt10 digits, column = letters2column (toUpperCase letters)\<rparr>)"
| "xlCell2Ind (RefArray xs) =
     \<lparr>row = (if 0 < length xs \<and> xs ! 0 \<noteq> 0 then xs ! 0 else 1),
      column = (if 1 < length xs \<and> xs ! 1 \<noteq> 0 then xs ! 1 else 1)\<rparr>"
| "xlCell2Ind (RefNumber n) = \<lparr>row = n, column = 1\<rparr>"
| "xlCell2Ind RefOther = \<lparr>row = 1, column = 1\<rparr>"

definition isUpper :: "char \<Rightarrow> bool" where
  "isUpper c = (65 \<le> (of_char c :: nat) \<and> (of_char c :: nat) \<le> 90)"

section \<open>JavaScript values\<close>

text \<open>
  The dynamically typed values the writer receives. A finite number is the rational it
  denotes; the three non-finite doubles are constructors of their own. An object is the
  list of its own enumerable properties in insertion order, each key once. \<open>JFun\<close> is a
  built-in function value, identified by its name.
\<close>

datatype jsnum = NaN | PosInf | NegInf | Fin rat

datatype jsval =
    JUndef
  | JNull
  | JBool bool
  | JNum jsnum
  | JStr string
  | JArr "jsval list"
  | JObj "(string \<times> jsval) list"
  | JFun string

text \<open>Truthiness: what \<open>if (v)\<close>, \<open>v && \<dots>\<close> and \<open>v || \<dots>\<close> test.\<close>

fun truthy :: "jsval \<Rightarrow> bool" where
  "truthy JUndef = False"
| "truthy JNull = False"
| "truthy (JBool b) = b"
| "truthy (JNum NaN) = False"
| "truthy (JNum (Fin x)) = (x \<noteq> 0)"
| "truthy (JNum _) = True"
| "truthy (JStr s) = (s \<noteq> [])"
| "truthy (JArr _) = True"
| "truthy (JObj _) = True"
| "truthy (JFun _) = True"

text \<open>Decimal rendering of a non-negative integer, as in \<open>String(i)\<close> for an index.\<close>

fun natToString :: "nat \<Rightarrow> string" where
  "natToString n =
     (if n < 10 then [char_of (48 + n)]
      else natToString (n div 10) @ [char_of (48 + n mod 10)])"

declare natToString.simps [simp del]

text \<open>
  The own enumerable properties of a value, as \<open>Object.keys\<close> lists them and as the
  spread \<open>{ ...v }\<close> copies them: the entries of an object, the indices of an array or of
  a string, nothing for the other primitives and for functions.
\<close>

fun ownEntries :: "jsval \<Rightarrow> (string \<times> jsval) list" where
  "ownEntries (JObj es) = es"
| "ownEntries (JArr xs) = zip (map natToString [0..<length xs]) xs"
| "ownEntries (JStr s) = zip (map natToString [0..<length s]) (map (\<lambda>c. JStr [c]) s)"
| "ownEntries _ = []"

text \<open>
  The members every plain object inherits from \<open>Object.prototype\<close>. A property read
  \<open>obj[key]\<close> finds an own property first and an inherited member next, and is
  \<open>undefined\<close> otherwise.
\<close>

definition objectPrototype :: "(string \<times> jsval) list" where
  "objectPrototype =
     [(''constructor'', JFun ''Object''),
      (''__proto__'', JObj []),
      (''hasOwnProperty'', JFun ''hasOwnProperty''),
      (''isPrototypeOf'', JFun ''isPrototypeOf''),
      (''propertyIsEnumerable'', JFun ''propertyIsEnumerable''),
      (''toLocaleString'', JFun ''toLocaleString''),
      (''toString'', JFun ''toString''),
      (''valueOf'', JFun ''valueOf''),
      (''__defineGetter__'', JFun ''__defineGetter__''),
      (''__defineSetter__'', JFun ''__defineSetter__''),
      (''__lookupGetter__'', JFun ''__lookupGetter__''),
      (''__lookupSetter__'', JFun ''__lookupSetter__'')]"

definition getProp :: "(string \<times> jsval) list \<Rightarrow> string \<Rightarrow> jsval" where
  "getProp es key =
     (case map_of es key of
        Some v \<Rightarrow> v
      | None \<Rightarrow> (case map_of objectPrototype key of Some v \<Rightarrow> v | None \<Rightarrow> JUndef))"

text \<open>
  The assignment \<open>result[key] = v\<close> on a plain object: an existing own property keeps its
  place, a new one is appended.
\<close>

fun setProp :: "(string \<times> jsval) list \<Rightarrow> string \<Rightarrow> jsval \<Rightarrow> (string \<times> jsval) list" where
  "setProp [] key v = [(key, v)]"
| "setProp ((k, w) # es) key v = (if k = key then (k, v) # es else (k, w) # setProp es key v)"

section \<open>deepMerge\<close>

datatype js_error = TypeError | SecurityError string

definition forbiddenKey :: "string \<Rightarrow> bool" where
  "forbiddenKey key = (key = ''__proto__'' \<or> key = ''constructor'' \<or> key = ''prototype'')"

fun isPlainObject :: "jsval \<Rightarrow> bool" where
  "isPlainObject (JObj _) = True"
| "isPlainObject _ = False"

text \<open>
  \<open>deepMerge_loop result entries\<close> is the \<open>for (const key of Object.keys(source))\<close>
  loop over the remaining entries of the source. A value that is truthy, of type
  \<open>object\<close> and not an array is a plain object \<open>JObj es\<close>; for it the loop calls
  \<open>deepMerge(result[key] || {}, source[key])\<close>, whose body (spread the target, loop over
  the keys of \<open>es\<close>) is written in place here so that the recursion follows the structure
  of the source value. \<open>deepMerge\<close> itself is defined from the loop just below, and
  \<open>deepMerge_loop_object\<close> shows that the object case is the recursive call of the source.
\<close>

fun deepMerge_loop ::
  "(string \<times> jsval) list \<Rightarrow> (string \<times> jsval) list \<Rightarrow> (string \<times> jsval) list"
where
  "deepMerge_loop result [] = result"
| "deepMerge_loop result ((key, v) # rest) =
     (if forbiddenKey key then deepMerge_loop result rest
      else (case v of
              JObj es \<Rightarrow>
                deepMerge_loop
                  (setProp result key
                     (JObj (deepMerge_loop
                              (ownEntries (if truthy (getProp result key)
                                           then getProp result key else JObj []))
                              es)))
                  rest
            | _ \<Rightarrow> deepMerge_loop (setProp result key v) rest))"

definition deepMerge :: "jsval \<Rightarrow> jsval \<Rightarrow> jsval" where
  "deepMerge target source = JObj (deepMerge_loop (ownEntries target) (ownEntries source))"

text \<open>
  \<open>Object.keys(source)\<close> raises a \<open>TypeError\<close> when the source is \<open>null\<close> or
  \<open>undefined\<close>; this can only happen at the outermost call.
\<close>

definition deepMerge_checked :: "jsval \<Rightarrow> jsval \<Rightarrow> js_error + jsval" where
  "deepMerge_checked target source =
     (if source = JNull \<or> source = JUndef then Inl TypeError
      else Inr (deepMerge target source))"

text \<open>
  Removing the entries under the three guarded keys from an object and from the plain
  objects nested in it (arrays are copied by reference and are left as they are).
\<close>

fun stripForbidden :: "jsval \<Rightarrow> jsval"
  and stripForbidden_entries :: "(string \<times> jsval) list \<Rightarrow> (string \<times> jsval) list"
where
  "stripForbidden (JObj es) = JObj (stripForbidden_entries es)"
| "stripForbidden JUndef = JUndef"
| "stripForbidden JNull = JNull"
| "stripForbidden (JBool b) = JBool b"
| "stripForbidden (JNum n) = JNum n"
| "stripForbidden (JStr s) = JStr s"
| "stripForbidden (JArr xs) = JArr xs"
| "stripForbidden (JFun f) = JFun f"
| "stripForbidden_entries [] = []"
| "stripForbidden_entries ((key, v) # rest) =
     (if forbiddenKey key then stripForbidden_entries rest
      else (key, stripForbidden v) # stripForbidden_entries rest)"

section \<open>The Format class\<close>

text \<open>
  The properties object handed to \<open>new Format(properties)\<close>, each property with the type
  its comment in the constructor gives it; \<open>None\<close> is an absent property. Every property
  is read in snake case and, where the constructor does so, in camel case.
\<close>

record properties =
  prop_font_name :: "string option"
  prop_fontName :: "string option"
  prop_font_size :: "rat option"
  prop_fontSize :: "rat option"
  prop_font_color :: "string option"
  prop_fontColor :: "string option"
  prop_bold :: "bool option"
  prop_italic :: "bool option"
  prop_underline :: "nat option"
  prop_font_strikeout :: "bool option"
  prop_fontStrikeout :: "bool option"
  prop_font_script :: "nat option"
  prop_fontScript :: "nat option"
  prop_num_format :: "string option"
  prop_numFormat :: "string option"
  prop_num_format_index :: "nat option"
  prop_numFormatIndex :: "nat option"
  prop_align :: "string option"
  prop_valign :: "string option"
  prop_rotation :: "int option"
  prop_text_wrap :: "bool option"
  prop_textWrap :: "bool option"
  prop_shrink :: "bool option"
  prop_indent :: "nat option"
  prop_border :: "nat option"
  prop_border_color :: "string option"
  prop_borderColor :: "string option"
  prop_left :: "nat option"
  prop_left_color :: "string option"
  prop_leftColor :: "string option"
  prop_right :: "nat option"
  prop_right_color :: "string option"
  prop_rightColor :: "string option"
  prop_top :: "nat option"
  prop_top_color :: "string option"
  prop_topColor :: "string option"
  prop_bottom :: "nat option"
  prop_bottom_color :: "string option"
  prop_bottomColor :: "string option"
  prop_diagonal_type :: "nat option"
  prop_diagonalType :: "nat option"
  prop_diagonal_border :: "nat option"
  prop_diagonalBorder :: "nat option"
  prop_diagonal_color :: "string option"
  prop_diagonalColor :: "string option"
  prop_pattern :: "nat option"
  prop_bg_color :: "string option"
  prop_bgColor :: "string option"
  prop_fg_color :: "string option"
  prop_fgColor :: "string option"
  prop_locked :: "bool option"
  prop_hidden :: "bool option"

text \<open>The empty properties object \<open>{}\<close>.\<close>

definition noProperties :: properties where
  "noProperties =
     \<lparr>prop_font_name = None, prop_fontName = None, prop_font_size = None, prop_fontSize = None,
      prop_font_color = None, prop_fontColor = None, prop_bold = None, prop_italic = None,
      prop_underline = None, prop_font_strikeout = None, prop_fontStrikeout = None,
      prop_font_script = None, prop_fontScript = None, prop_num_format = None,
      prop_numFormat = None, prop_num_format_index = None, prop_numFormatIndex = None,
      prop_align = None, prop_valign = None, prop_rotation = None, prop_text_wrap = None,
      prop_textWrap = None, prop_shrink = None, prop_indent = None, prop_border = None,
      prop_border_color = None, prop_borderColor = None, prop_left = None,
      prop_left_color = None, prop_leftColor = None, prop_right = None,
      prop_right_color = None, prop_rightColor = None, prop_top = None, prop_top_color = None,
      prop_topColor = None, prop_bottom = None, prop_bottom_color = None,
      prop_bottomColor = None, prop_diagonal_type = None, prop_diagonalType = None,
      prop_diagonal_border = None, prop_diagonalBorder = None, prop_diagonal_color = None,
      prop_diagonalColor = None, prop_pattern = None, prop_bg_color = None, prop_bgColor = None,
      prop_fg_color = None, prop_fgColor = None, prop_locked = None, prop_hidden = None\<rparr>"

text \<open>
  \<open>a || b\<close> at each type: the left operand when it is truthy (a non-empty string, a
  non-zero number, \<open>true\<close>), the right operand otherwise.
\<close>

definition orStr :: "string option \<Rightarrow> string option \<Rightarrow> string option" where
  "orStr a b = (case a of Some s \<Rightarrow> if s \<noteq> [] then Some s else b | None \<Rightarrow> b)"

definition orNat :: "nat option \<Rightarrow> nat option \<Rightarrow> nat option" where
  "orNat a b = (case a of Some n \<Rightarrow> if n \<noteq> 0 then Some n else b | None \<Rightarrow> b)"

definition orRat :: "rat option \<Rightarrow> rat option \<Rightarrow> rat option" where
  "orRat a b = (case a of Some n \<Rightarrow> if n \<noteq> 0 then Some n else b | None \<Rightarrow> b)"

definition orInt :: "int option \<Rightarrow> int option \<Rightarrow> int option" where
  "orInt a b = (case a of Some n \<Rightarrow> if n \<noteq> 0 then Some n else b | None \<Rightarrow> b)"

definition orBool :: "bool option \<Rightarrow> bool option \<Rightarrow> bool option" where
  "orBool a b = (case a of Some x \<Rightarrow> if x then Some x else b | None \<Rightarrow> b)"

text \<open>
  A Format instance. A colour, \<open>align\<close> and \<open>valign\<close> are a string or \<open>null\<close>
  (\<open>None\<close>); the indices set by the workbook are a number or \<open>null\<close>.
  \<open>numFormatIndex\<close> holds whatever value \<open>addFormat\<close> stores there.
\<close>

record format =
  fontName :: string
  fontSize :: rat
  fontColor :: "string option"
  bold :: bool
  italic :: bool
  underline :: nat
  fontStrikeout :: bool
  fontScript :: nat
  numFormat :: string
  numFormatIndex :: jsval
  align :: "string option"
  valign :: "string option"
  rotation :: int
  textWrap :: bool
  shrink :: bool
  indent :: nat
  border :: nat
  borderColor :: "string option"
  left :: nat
  leftColor :: "string option"
  right :: nat
  rightColor :: "string option"
  top_style :: nat
  topColor :: "string option"
  bottom :: nat
  bottomColor :: "string option"
  diagonalType :: nat
  diagonalBorder :: nat
  diagonalColor :: "string option"
  pattern :: nat
  bgColor :: "string option"
  fgColor :: "string option"
  locked :: bool
  hidden :: bool
  xfIndex :: "nat option"
  fontIndex :: "nat option"
  fillIndex :: "nat option"
  borderIndex :: "nat option"

text \<open>
  The constructor. The border shorthand is applied last: a side without a style of its
  own takes \<open>border\<close>, a side without a colour of its own takes \<open>borderColor\<close>.
  (\<open>top_style\<close> is the field \<open>top\<close>.)
\<close>

definition newFormat :: "properties \<Rightarrow> format" where
  "newFormat p =
     (let border0 = (case prop_border p of Some n \<Rightarrow> n | None \<Rightarrow> 0);
          borderColor0 = orStr (prop_border_color p) (orStr (prop_borderColor p) None);
          left0 = (case prop_left p of Some n \<Rightarrow> n | None \<Rightarrow> 0);
          leftColor0 = orStr (prop_left_color p) (orStr (prop_leftColor p) None);
          right0 = (case prop_right p of Some n \<Rightarrow> n | None \<Rightarrow> 0);
          rightColor0 = orStr (prop_right_color p) (orStr (prop_rightColor p) None);
          top0 = (case prop_top p of Some n \<Rightarrow> n | None \<Rightarrow> 0);
          topColor0 = orStr (prop_top_color p) (orStr (prop_topColor p) None);
          bottom0 = (case prop_bottom p of Some n \<Rightarrow> n | None \<Rightarrow> 0);
          bottomColor0 = orStr (prop_bottom_color p) (orStr (prop_bottomColor p) None)
      in \<lparr>fontName = (case orStr (prop_font_name p) (prop_fontName p) of
                         Some s \<Rightarrow> if s \<noteq> [] then s else ''Calibri'' | None \<Rightarrow> ''Calibri''),
          fontSize = (case orRat (prop_font_size p) (prop_fontSize p) of
                        Some n \<Rightarrow> if n \<noteq> 0 then n else 11 | None \<Rightarrow> 11),
          fontColor = orStr (prop_font_color p) (orStr (prop_fontColor p) None),
          bold = (case prop_bold p of Some b \<Rightarrow> b | None \<Rightarrow> False),
          italic = (case prop_italic p of Some b \<Rightarrow> b | None \<Rightarrow> False),
          underline = (case prop_underline p of Some n \<Rightarrow> n | None \<Rightarrow> 0),
          fontStrikeout = (case orBool (prop_font_strikeout p) (prop_fontStrikeout p) of
                             Some b \<Rightarrow> b | None \<Rightarrow> False),
          fontScript = (case orNat (prop_font_script p) (prop_fontScript p) of
                          Some n \<Rightarrow> n | None \<Rightarrow> 0),
          numFormat = (case orStr (prop_num_format p) (prop_numFormat p) of
                         Some s \<Rightarrow> if s \<noteq> [] then s else ''General'' | None \<Rightarrow> ''General''),
          numFormatIndex = (case orNat (prop_num_format_index p) (prop_numFormatIndex p) of
                              Some n \<Rightarrow> JNum (Fin (of_nat n)) | None \<Rightarrow> JNum (Fin 0)),
          align = orStr (prop_align p) None,
          valign = orStr (prop_valign p) None,
          rotation = (case prop_rotation p of Some n \<Rightarrow> n | None \<Rightarrow> 0),
          textWrap = (case orBool (prop_text_wrap p) (prop_textWrap p) of
                        Some b \<Rightarrow> b | None \<Rightarrow> False),
          shrink = (case prop_shrink p of Some b \<Rightarrow> b | None \<Rightarrow> False),
          indent = (case prop_indent p of Some n \<Rightarrow> n | None \<Rightarrow> 0),
          border = border0,
          borderColor = borderColor0,
          left = (if border0 \<noteq> 0 then (if left0 \<noteq> 0 then left0 else border0) else left0),
          leftColor = (if borderColor0 \<noteq> None then orStr leftColor0 borderColor0 else leftColor0),
          right = (if border0 \<noteq> 0 then (if right0 \<noteq> 0 then right0 else border0) else right0),
          rightColor = (if borderColor0 \<noteq> None then orStr rightColor0 borderColor0 else rightColor0),
          top_style = (if border0 \<noteq> 0 then (if top0 \<noteq> 0 then top0 else border0) else top0),
          topColor = (if borderColor0 \<noteq> None then orStr topColor0 borderColor0 else topColor0),
          bottom = (if border0 \<noteq> 0 then (if bottom0 \<noteq> 0 then bottom0 else border0) else bottom0),
          bottomColor = (if borderColor0 \<noteq> None then orStr bottomColor0 borderColor0 else bottomColor0),
          diagonalType = (case orNat (prop_diagonal_type p) (prop_diagonalType p) of
                            Some n \<Rightarrow> n | None \<Rightarrow> 0),
          diagonalBorder = (case orNat (prop_diagonal_border p) (prop_diagonalBorder p) of
                              Some n \<Rightarrow> n | None \<Rightarrow> 0),
          diagonalColor = orStr (prop_diagonal_color p) (orStr (prop_diagonalColor p) None),
          pattern = (case prop_pattern p of Some n \<Rightarrow> n | None \<Rightarrow> 0),
          bgColor = orStr (prop_bg_color p) (orStr (prop_bgColor p) None),
          fgColor = orStr (prop_fg_color p) (orStr (prop_fgColor p) None),
          locked = (case prop_locked p of Some b \<Rightarrow> b | None \<Rightarrow> True),
          hidden = (case prop_hidden p of Some b \<Rightarrow> b | None \<Rightarrow> False),
          xfIndex = None,
          fontIndex = None,
          fillIndex = None,
          borderIndex = None\<rparr>)"

text \<open>
  \<open>getKey\<close> is \<open>JSON.stringify\<close> of an object literal with 28 members in a fixed
  order. The key is modelled as that object; \<open>JSON.stringify\<close> is injective on objects
  of this shape, so two keys are the same string exactly when they are the same object
  here. A fresh Format has no cached key, and \<open>addFormat\<close> only asks a fresh Format for
  its key, so the cache \<open>_cachedKey\<close> plays no part.
\<close>

definition jsonStrOpt :: "string option \<Rightarrow> jsval" where
  "jsonStrOpt s = (case s of Some t \<Rightarrow> JStr t | None \<Rightarrow> JNull)"

definition getKey :: "format \<Rightarrow> jsval" where
  "getKey f =
     JObj [(''fn'', JStr (fontName f)), (''fs'', JNum (Fin (fontSize f))),
           (''fc'', jsonStrOpt (fontColor f)),
           (''b'', JBool (bold f)), (''i'', JBool (italic f)),
           (''u'', JNum (Fin (of_nat (underline f)))), (''st'', JBool (fontStrikeout f)),
           (''sc'', JNum (Fin (of_nat (fontScript f)))),
           (''nf'', JStr (numFormat f)),
           (''al'', jsonStrOpt (align f)), (''va'', jsonStrOpt (valign f)),
           (''r'', JNum (Fin (of_int (rotation f)))), (''tw'', JBool (textWrap f)),
           (''sh'', JBool (shrink f)), (''in'', JNum (Fin (of_nat (indent f)))),
           (''l'', JNum (Fin (of_nat (left f)))), (''lc'', jsonStrOpt (leftColor f)),
           (''ri'', JNum (Fin (of_nat (right f)))), (''rc'', jsonStrOpt (rightColor f)),
           (''t'', JNum (Fin (of_nat (top_style f)))), (''tc'', jsonStrOpt (topColor f)),
           (''bo'', JNum (Fin (of_nat (bottom f)))), (''bc'', jsonStrOpt (bottomColor f)),
           (''p'', JNum (Fin (of_nat (pattern f)))), (''bg'', jsonStrOpt (bgColor f)),
           (''fg'', jsonStrOpt (fgColor f)),
           (''lo'', JBool (locked f)), (''hi'', JBool (hidden f))]"

text \<open>The built-in number format codes, an object literal.\<close>

definition NUM_FORMATS :: "(string \<times> jsval) list" where
  "NUM_FORMATS =
     [(''General'', JNum (Fin 0)), (''0'', JNum (Fin 1)), (''0.00'', JNum (Fin 2)),
      (''#,##0'', JNum (Fin 3)), (''#,##0.00'', JNum (Fin 4)), (''0%'', JNum (Fin 9)),
      (''0.00%'', JNum (Fin 10)), (''0.00E+00'', JNum (Fin 11)), (''# ?/?'', JNum (Fin 12)),
      (''# ??/??'', JNum (Fin 13)), (''mm-dd-yy'', JNum (Fin 14)), (''d-mmm-yy'', JNum (Fin 15)),
      (''d-mmm'', JNum (Fin 16)), (''mmm-yy'', JNum (Fin 17)), (''h:mm AM/PM'', JNum (Fin 18)),
      (''h:mm:ss AM/PM'', JNum (Fin 19)), (''h:mm'', JNum (Fin 20)), (''h:mm:ss'', JNum (Fin 21)),
      (''m/d/yy h:mm'', JNum (Fin 22)), (''#,##0 ;(#,##0)'', JNum (Fin 37)),
      (''#,##0 ;[Red](#,##0)'', JNum (Fin 38)), (''#,##0.00;(#,##0.00)'', JNum (Fin 39)),
      (''#,##0.00;[Red](#,##0.00)'', JNum (Fin 40)), (''mm:ss'', JNum (Fin 45)),
      (''[h]:mm:ss'', JNum (Fin 46)), (''mmss.0'', JNum (Fin 47)), (''##0.0E+0'', JNum (Fin 48)),
      (''@'', JNum (Fin 49))]"

section \<open>Chart configuration objects\<close>

text \<open>
  The fields of a chart, its axes and its series that the XML generators read. An
  optional field is \<open>None\<close> when the property is \<open>undefined\<close>. A colour value is an
  \<open>[r, g, b]\<close> array, a string, a packed number or \<open>null\<close>. A data point is a number,
  a string or \<open>null\<close>.
\<close>

datatype colorval = ColorRGB "nat list" | ColorStr string | ColorNum nat | ColorNull

record color =
  color_option :: string
  color_value :: colorval

record line =
  line_color :: "color option"
  line_width :: "rat option"
  line_dashType :: "string option"

record marker =
  marker_option :: string
  marker_type :: "string option"
  marker_size :: "rat option"
  marker_fillColor :: "color option"
  marker_line :: "line option"

record dataLabels =
  showValue :: bool
  showCatName :: bool
  showSerName :: bool
  showPercent :: bool

record trendline =
  trendline_type :: "string option"
  trendline_order :: "rat option"
  trendline_period :: "rat option"
  trendline_forward :: "rat option"
  trendline_backward :: "rat option"
  displayEquation :: bool
  displayRSquared :: bool

datatype pointval = PtNull | PtNum jsnum | PtStr string

record series =
  series_name_text :: string
  series_line :: "line option"
  series_marker :: "marker option"
  series_dataLabels :: "dataLabels option"
  series_trendline :: "trendline option"
  series_x_values :: "pointval list"
  series_y_values :: "pointval list"
  series_smooth :: bool

text \<open>
  \<open>majorGridlines\<close> and \<open>minorGridlines\<close> of an axis: \<open>undefined\<close>, \<open>false\<close>, \<open>true\<close>,
  or an object with an optional colour and width.
\<close>

datatype gridlines = GridUndefined | GridFalse | GridTrue | Grid "string option" "rat option"

record axis =
  axis_id :: nat
  axis_visible :: bool
  axis_logBase :: "jsnum option"
  axis_maximum :: "jsnum option"
  axis_minimum :: "jsnum option"
  axis_majorGridlines :: gridlines
  axis_minorGridlines :: gridlines
  axis_title_text :: string
  axis_numberFormat :: "string option"
  axis_numberFormatCode :: "string option"
  axis_numberLinkedToSource :: "bool option"
  axis_minorTickMark :: "string option"
  axis_tickLabelFontSize :: "rat option"
  axis_fontSize :: "rat option"

record chart =
  chart_type :: "string option"
  chart_subtype :: "string option"
  chart_scatterStyle :: "string option"
  chart_grouping :: "string option"
  chart_gapWidth :: "rat option"
  chart_overlap :: "rat option"
  chart_holeSize :: "rat option"
  chart_height :: "rat option"
  chart_width :: "rat option"
  chart_x :: rat
  chart_y :: rat
  chart_title_text :: string
  chart_xAxis :: axis
  chart_yAxis :: axis
  chart_x2Axis :: axis
  chart_y2Axis :: "axis option"
  chart_legend_position :: "string option"
  chart_legend_fontSize :: "rat option"
  chart_series :: "series list"
  chart_showBorder :: "bool option"
  chart_backgroundColor :: "string option"

text \<open>
  What a chart generator is told about the sheet's data block:
  \<open>{ startRow, startCol, numRows, numCols }\<close>.
\<close>

record dataInfo =
  di_startRow :: nat
  di_startCol :: nat
  di_numRows :: nat
  di_numCols :: nat

text \<open>
  The objects \<open>getDefaultAxis\<close>, \<open>getDefaultSeries\<close> and \<open>newChart('scatter')\<close> build when
  no overrides are given, in the fields above. The axis ids come from \<open>generateId()\<close>,
  a random integer below \<open>10^9\<close>, and are parameters here. \<open>getDefaultColor\<close> has option
  \<open>Automatic\<close> and value \<open>[0, 0, 0]\<close>; the line of a series is solid.
\<close>

definition getDefaultColor :: color where
  "getDefaultColor = \<lparr>color_option = ''Automatic'', color_value = ColorRGB [0, 0, 0]\<rparr>"

definition getDefaultLine :: line where
  "getDefaultLine =
     \<lparr>line_color = Some getDefaultColor, line_width = Some (3 / 2), line_dashType = Some ''solid''\<rparr>"

definition getDefaultMarker :: marker where
  "getDefaultMarker =
     \<lparr>marker_option = ''Automatic'', marker_type = Some ''circle'', marker_size = Some 5,
      marker_fillColor = Some getDefaultColor,
      marker_line = Some (getDefaultLine\<lparr>line_width := Some (3 / 4)\<rparr>)\<rparr>"

definition getDefaultAxis :: "nat \<Rightarrow> axis" where
  "getDefaultAxis idv =
     \<lparr>axis_id = idv, axis_visible = True, axis_logBase = Some NaN, axis_maximum = Some NaN,
      axis_minimum = Some NaN, axis_majorGridlines = GridUndefined,
      axis_minorGridlines = GridUndefined, axis_title_text = [],
      axis_numberFormat = None, axis_numberFormatCode = Some ''General'',
      axis_numberLinkedToSource = Some True, axis_minorTickMark = None,
      axis_tickLabelFontSize = None, axis_fontSize = None\<rparr>"

definition getDefaultSeries :: series where
  "getDefaultSeries =
     \<lparr>series_name_text = [],
      series_line = Some (getDefaultLine\<lparr>line_color := Some (getDefaultColor\<lparr>color_option := ''Solid''\<rparr>)\<rparr>),
      series_marker = Some getDefaultMarker, series_dataLabels = None, series_trendline = None,
      series_x_values = [], series_y_values = [], series_smooth = False\<rparr>"

definition getDefaultChart :: "nat \<Rightarrow> nat \<Rightarrow> nat \<Rightarrow> nat \<Rightarrow> chart" where
  "getDefaultChart xid yid x2id y2id =
     \<lparr>chart_type = Some ''scatter'', chart_subtype = None, chart_scatterStyle = Some ''lineMarker'',
      chart_grouping = Some ''standard'', chart_gapWidth = Some 150, chart_overlap = Some 0,
      chart_holeSize = None, chart_height = Some 288, chart_width = Some 480,
      chart_x = 0, chart_y = 0, chart_title_text = [],
      chart_xAxis = getDefaultAxis xid, chart_yAxis = getDefaultAxis yid,
      chart_x2Axis = (getDefaultAxis x2id)\<lparr>axis_visible := False\<rparr>,
      chart_y2Axis = Some ((getDefaultAxis y2id)\<lparr>axis_visible := False\<rparr>),
      chart_legend_position = Some ''r'', chart_legend_fontSize = None,
      chart_series = [], chart_showBorder = Some True, chart_backgroundColor = Some ''FFFFFF''\<rparr>"

section \<open>The workbook model\<close>

text \<open>
  A stored cell \<open>{ value, type, format, isFormula }\<close>. The value is the empty string, a
  number, the text of a formula, an index into the shared strings, 0 or 1 for a boolean,
  or the value as it was passed in.
\<close>

record cell =
  cell_value :: jsval
  cell_type :: string
  cell_format :: "format option"
  isFormula :: bool

text \<open>A sheet; a missing cell of a row is \<open>null\<close> (\<open>None\<close>).\<close>

record sheet =
  sheet_name :: string
  sheet_data :: "cell option list list"
  startRow :: nat
  startCol :: nat
  sheet_chart :: "chart option"

record columnInfoEntry =
  ci_width :: "rat option"
  ci_format :: "format option"
  ci_hidden :: bool

record rowInfoEntry =
  ri_height :: "rat option"
  ri_format :: "format option"
  ri_hidden :: bool

record mergeCell =
  mc_startRow :: nat
  mc_startCol :: nat
  mc_endRow :: nat
  mc_endCol :: nat

text \<open>
  The state of an \<open>XlsxWriter\<close>. The JavaScript \<open>Map\<close>s are maps (\<open>customNumFormats\<close>,
  whose entries are later listed in insertion order, is an association list); the
  objects \<open>columnInfo\<close>, \<open>rowInfo\<close> and \<open>mergeCells\<close> are keyed by sheet index. The zip
  archive is the list of the paths of its file entries, in the order in which
  \<open>zip.file(path, content)\<close> first added them; the content of an entry plays no part in
  the properties below and is left out.
\<close>

record writer =
  filename :: string
  zip :: "string list"
  sheets :: "sheet list"
  sheetMap :: "string \<rightharpoonup> nat"
  sharedStrings :: "string list"
  sharedStringsMap :: "string \<rightharpoonup> nat"
  formats :: "format list"
  formatMap :: "jsval \<rightharpoonup> nat"
  customNumFormats :: "(string \<times> nat) list"
  nextNumFormatId :: nat
  columnInfo :: "nat \<rightharpoonup> (nat \<rightharpoonup> columnInfoEntry)"
  rowInfo :: "nat \<rightharpoonup> (nat \<rightharpoonup> rowInfoEntry)"
  mergeCells :: "nat \<rightharpoonup> mergeCell list"

subsection \<open>addFormat and the constructor\<close>

text \<open>
  \<open>addFormat\<close>: an equal key seen before returns the registered Format
  (\<open>this.formats[index]\<close>, \<open>undefined\<close> past the end of the array); otherwise the new
  Format gets the next \<open>xfIndex\<close>, is pushed and recorded, and its number format is
  resolved. The Format object pushed on \<open>formats\<close> is the one whose \<open>numFormatIndex\<close> is
  assigned afterwards, so the stored Format carries that index too.
  \<open>NUM_FORMATS[format.numFormat]\<close> is a property read on an object literal.
\<close>

definition addFormat :: "writer \<Rightarrow> properties \<Rightarrow> format option \<times> writer" where
  "addFormat w props =
     (let format0 = newFormat props; key = getKey format0
      in case formatMap w key of
           Some i \<Rightarrow> ((if i < length (formats w) then Some (formats w ! i) else None), w)
         | None \<Rightarrow>
             (let format1 = format0\<lparr>xfIndex := Some (length (formats w))\<rparr>;
                  fmap = (formatMap w)(key \<mapsto> length (formats w))
              in if numFormat format1 \<noteq> [] \<and> numFormat format1 \<noteq> ''General''
                 then (if getProp NUM_FORMATS (numFormat format1) \<noteq> JUndef
                       then (let format2 = format1\<lparr>numFormatIndex := getProp NUM_FORMATS (numFormat format1)\<rparr>
                             in (Some format2,
                                 w\<lparr>formats := formats w @ [format2], formatMap := fmap\<rparr>))
                       else (case map_of (customNumFormats w) (numFormat format1) of
                               None \<Rightarrow>
                                 (let format2 = format1\<lparr>numFormatIndex := JNum (Fin (of_nat (nextNumFormatId w)))\<rparr>
                                  in (Some format2,
                                      w\<lparr>formats := formats w @ [format2], formatMap := fmap,
                                        customNumFormats := customNumFormats w @ [(numFormat format1, nextNumFormatId w)],
                                        nextNumFormatId := nextNumFormatId w + 1\<rparr>))
                             | Some fid \<Rightarrow>
                                 (let format2 = format1\<lparr>numFormatIndex := JNum (Fin (of_nat fid))\<rparr>
                                  in (Some format2,
                                      w\<lparr>formats := formats w @ [format2], formatMap := fmap\<rparr>))))
                 else (Some format1, w\<lparr>formats := formats w @ [format1], formatMap := fmap\<rparr>)))"

text \<open>
  \<open>new XlsxWriter(filename)\<close>: empty tables, \<open>nextNumFormatId = 164\<close>, and the default
  format registered with \<open>addFormat({})\<close>.
\<close>

definition endsWith :: "string \<Rightarrow> string \<Rightarrow> bool" where
  "endsWith s suf = (length suf \<le> length s \<and> drop (length s - length suf) s = suf)"

definition startsWith :: "string \<Rightarrow> string \<Rightarrow> bool" where
  "startsWith s pre = (take (length pre) s = pre)"

definition newWriter :: "string \<Rightarrow> writer" where
  "newWriter fname =
     snd (addFormat
            \<lparr>filename = (if endsWith fname ''.xlsx'' then fname else fname @ ''.xlsx''),
             zip = [], sheets = [], sheetMap = Map.empty,
             sharedStrings = [], sharedStringsMap = Map.empty,
             formats = [], formatMap = Map.empty,
             customNumFormats = [], nextNumFormatId = 164,
             columnInfo = Map.empty, rowInfo = Map.empty, mergeCells = Map.empty\<rparr>
            noProperties)"

subsection \<open>Sheets and cells\<close>

text \<open>A sheet is named by a string or by a number \<open>n\<close>, which stands for \<open>Sheetn\<close>.\<close>

datatype sheet_arg = SheetName string | SheetNum nat

fun sheetNameOf :: "sheet_arg \<Rightarrow> string" where
  "sheetNameOf (SheetName s) = s"
| "sheetNameOf (SheetNum n) = ''Sheet'' @ natToString n"

text \<open>
  \<open>_getOrCreateSheet\<close>: the index comes from \<open>sheetMap\<close>; a name the map does not know
  gets a new sheet pushed on \<open>sheets\<close> and an entry in the map.
\<close>

definition getOrCreateSheet :: "writer \<Rightarrow> sheet_arg \<Rightarrow> (nat \<times> string) \<times> writer" where
  "getOrCreateSheet w sh =
     (let sheetName = sheetNameOf sh
      in case sheetMap w sheetName of
           Some sheetIndex \<Rightarrow> ((sheetIndex, sheetName), w)
         | None \<Rightarrow>
             (let sheetIndex = length (sheets w)
              in ((sheetIndex, sheetName),
                  w\<lparr>sheets := sheets w @
                       [\<lparr>sheet_name = sheetName, sheet_data = [], startRow = 1, startCol = 1,
                         sheet_chart = None\<rparr>],
                    sheetMap := (sheetMap w)(sheetName \<mapsto> sheetIndex)\<rparr>)))"

text \<open>
  \<open>_processCell\<close>. A string that is neither a formula nor empty is interned in the
  shared strings: looked up in \<open>sharedStringsMap\<close>, appended when it is not there.
\<close>

definition startsWithEq :: "string \<Rightarrow> bool" where
  "startsWithEq s = (case s of [] \<Rightarrow> False | c # _ \<Rightarrow> c = CHR ''='')"

definition maxSentinel :: rat where
  "maxSentinel = 999999999999999 * 10 ^ 293"

fun processCell :: "writer \<Rightarrow> jsval \<Rightarrow> format option \<Rightarrow> cell \<times> writer" where
  "processCell w JNull fmt =
     (\<lparr>cell_value = JStr [], cell_type = ''n'', cell_format = fmt, isFormula = False\<rparr>, w)"
| "processCell w JUndef fmt =
     (\<lparr>cell_value = JStr [], cell_type = ''n'', cell_format = fmt, isFormula = False\<rparr>, w)"
| "processCell w (JStr v) fmt =
     (if startsWithEq v
      then (\<lparr>cell_value = JStr (tl v), cell_type = ''str'', cell_format = fmt, isFormula = True\<rparr>, w)
      else if v = []
      then (\<lparr>cell_value = JStr [], cell_type = ''n'', cell_format = fmt, isFormula = False\<rparr>, w)
      else (case sharedStringsMap w v of
              Some idx \<Rightarrow>
                (\<lparr>cell_value = JNum (Fin (of_nat idx)), cell_type = ''s'', cell_format = fmt,
                  isFormula = False\<rparr>, w)
            | None \<Rightarrow>
                (let idx = length (sharedStrings w)
                 in (\<lparr>cell_value = JNum (Fin (of_nat idx)), cell_type = ''s'', cell_format = fmt,
                      isFormula = False\<rparr>,
                     w\<lparr>sharedStrings := sharedStrings w @ [v],
                       sharedStringsMap := (sharedStringsMap w)(v \<mapsto> idx)\<rparr>))))"
| "processCell w (JBool b) fmt =
     (\<lparr>cell_value = JNum (Fin (if b then 1 else 0)), cell_type = ''b'', cell_format = fmt,
       isFormula = False\<rparr>, w)"
| "processCell w (JNum PosInf) fmt =
     (\<lparr>cell_value = JNum (Fin maxSentinel), cell_type = ''n'', cell_format = fmt, isFormula = False\<rparr>, w)"
| "processCell w (JNum NegInf) fmt =
     (\<lparr>cell_value = JNum (Fin (- maxSentinel)), cell_type = ''n'', cell_format = fmt, isFormula = False\<rparr>, w)"
| "processCell w (JNum NaN) fmt =
     (\<lparr>cell_value = JStr [], cell_type = ''n'', cell_format = fmt, isFormula = False\<rparr>, w)"
| "processCell w v fmt =
     (\<lparr>cell_value = v, cell_type = ''n'', cell_format = fmt, isFormula = False\<rparr>, w)"

text \<open>
  Growing the grid: \<open>while (data.length <= row) data.push([])\<close> and
  \<open>while (data[row].length <= col) data[row].push(null)\<close>, then the assignment
  \<open>data[row][col] = cellData\<close>.
\<close>

definition growRows :: "cell option list list \<Rightarrow> nat \<Rightarrow> cell option list list" where
  "growRows d r = d @ replicate (Suc r - length d) []"

definition growCols :: "cell option list \<Rightarrow> nat \<Rightarrow> cell option list" where
  "growCols cs c = cs @ replicate (Suc c - length cs) None"

definition setCell :: "cell option list list \<Rightarrow> nat \<Rightarrow> nat \<Rightarrow> cell \<Rightarrow> cell option list list" where
  "setCell d r c x =
     (let d1 = growRows d r
      in d1[r := (growCols (d1 ! r) c)[c := Some x]])"

text \<open>
  \<open>write(row, col, value, format, sheet)\<close> (here \<open>write_cell\<close>) with a numeric row and column
  (0-based). The
  form with an \<open>'A1'\<close> reference as first argument only computes these five arguments
  from its own and then runs the same statements. \<open>startRow || 1\<close> replaces a 0 by 1.
\<close>

definition write_cell :: "writer \<Rightarrow> nat \<Rightarrow> nat \<Rightarrow> jsval \<Rightarrow> format option \<Rightarrow> sheet_arg \<Rightarrow> writer" where
  "write_cell w r c v fmt sh =
     (let ((sheetIndex, sheetName), w1) = getOrCreateSheet w sh;
          (cellData, w2) = processCell w1 v fmt;
          sheetObj = sheets w2 ! sheetIndex;
          sheetObj' = sheetObj
            \<lparr>sheet_data := setCell (sheet_data sheetObj) r c cellData,
             startRow := min (if startRow sheetObj \<noteq> 0 then startRow sheetObj else 1) (r + 1),
             startCol := min (if startCol sheetObj \<noteq> 0 then startCol sheetObj else 1) (c + 1)\<rparr>
      in w2\<lparr>sheets := (sheets w2)[sheetIndex := sheetObj']\<rparr>)"

text \<open>\<open>writeRow\<close> and \<open>writeColumn\<close>: one \<open>write\<close> per element.\<close>

fun writeRow_loop :: "writer \<Rightarrow> nat \<Rightarrow> nat \<Rightarrow> jsval list \<Rightarrow> format option \<Rightarrow> sheet_arg \<Rightarrow> writer" where
  "writeRow_loop w r c [] fmt sh = w"
| "writeRow_loop w r c (x # xs) fmt sh = writeRow_loop (write_cell w r c x fmt sh) r (c + 1) xs fmt sh"

definition writeRow :: "writer \<Rightarrow> nat \<Rightarrow> nat \<Rightarrow> jsval list \<Rightarrow> format option \<Rightarrow> sheet_arg \<Rightarrow> writer" where
  "writeRow w r c xs fmt sh = writeRow_loop w r c xs fmt sh"

fun writeColumn_loop :: "writer \<Rightarrow> nat \<Rightarrow> nat \<Rightarrow> jsval list \<Rightarrow> format option \<Rightarrow> sheet_arg \<Rightarrow> writer" where
  "writeColumn_loop w r c [] fmt sh = w"
| "writeColumn_loop w r c (x # xs) fmt sh = writeColumn_loop (write_cell w r c x fmt sh) (r + 1) c xs fmt sh"

definition writeColumn :: "writer \<Rightarrow> nat \<Rightarrow> nat \<Rightarrow> jsval list \<Rightarrow> format option \<Rightarrow> sheet_arg \<Rightarrow> writer" where
  "writeColumn w r c xs fmt sh = writeColumn_loop w r c xs fmt sh"

subsection \<open>writeData\<close>

text \<open>
  The options of \<open>writeData\<close> that it reads: \<open>xlPos\<close>, \<open>header\<close> (used when it is an
  array) and \<open>chart\<close>.
\<close>

record writeDataOptions =
  opt_xlPos :: "cell_arg option"
  opt_header :: "jsval list option"
  opt_chart :: "chart option"

text \<open>\<open>this.sheets.findIndex(s => s.name === sheetName)\<close>; \<open>None\<close> is \<open>-1\<close>.\<close>

fun findIndex_from :: "nat \<Rightarrow> sheet list \<Rightarrow> string \<Rightarrow> nat option" where
  "findIndex_from i [] nm = None"
| "findIndex_from i (s # ss) nm = (if sheet_name s = nm then Some i else findIndex_from (Suc i) ss nm)"

definition findIndex :: "sheet list \<Rightarrow> string \<Rightarrow> nat option" where
  "findIndex ss nm = findIndex_from 0 ss nm"

text \<open>
  The inner loop over the cells of one data row, and the outer loop over the rows. The
  grid index of a row is \<open>startRow - 1 + r\<close>; with \<open>startRow = 0\<close> (the position \<open>'A0'\<close>)
  and \<open>r = 0\<close> that is
  \<open>-1\<close>, \<open>data[-1]\<close> is \<open>undefined\<close>, and reading its \<open>length\<close> for the first cell of
  the row raises a \<open>TypeError\<close>. The same holds for the column index and \<open>startCol = 0\<close>,
  where the assignment \<open>data[rowIdx][-1] = cell\<close> sets a property that is not an array
  element and leaves the row as it was.
\<close>

fun writeData_cells ::
  "writer \<Rightarrow> cell option list \<Rightarrow> int \<Rightarrow> jsval list \<Rightarrow> writer \<times> cell option list" where
  "writeData_cells w rowCells colIdx [] = (w, rowCells)"
| "writeData_cells w rowCells colIdx (x # xs) =
     (let (cellData, w1) = processCell w x None
      in if colIdx < 0 then writeData_cells w1 rowCells (colIdx + 1) xs
         else writeData_cells w1 ((growCols rowCells (nat colIdx))[nat colIdx := Some cellData])
                (colIdx + 1) xs)"

fun writeData_rows ::
  "writer \<Rightarrow> cell option list list \<Rightarrow> int \<Rightarrow> int \<Rightarrow> jsval list list
     \<Rightarrow> js_error + (writer \<times> cell option list list)" where
  "writeData_rows w d rowIdx colIdx0 [] = Inr (w, d)"
| "writeData_rows w d rowIdx colIdx0 (r # rs) =
     (if rowIdx < 0
      then (if r = [] then writeData_rows w d (rowIdx + 1) colIdx0 rs else Inl TypeError)
      else (let d1 = growRows d (nat rowIdx);
                (w1, rowCells) = writeData_cells w (d1 ! nat rowIdx) colIdx0 r
            in writeData_rows w1 (d1[nat rowIdx := rowCells]) (rowIdx + 1) colIdx0 rs))"

text \<open>
  \<open>options.xlPos || 'A1'\<close>: a position that is missing or falsy, the number \<open>0\<close> or the
  empty string, is replaced by \<open>'A1'\<close>. For a value that is neither a string, an array
  nor a number, \<open>xlCell2Ind\<close> gives row 1 and column 1 as it does for \<open>'A1'\<close>.
\<close>

fun truthyRef :: "cell_arg \<Rightarrow> bool" where
  "truthyRef (RefString s) = (s \<noteq> [])"
| "truthyRef (RefArray xs) = True"
| "truthyRef (RefNumber n) = (n \<noteq> 0)"
| "truthyRef RefOther = True"

definition xlPosOrA1 :: "cell_arg option \<Rightarrow> cell_arg" where
  "xlPosOrA1 p = (case p of Some q \<Rightarrow> if truthyRef q then q else RefString ''A1''
                  | None \<Rightarrow> RefString ''A1'')"

text \<open>
  \<open>writeData(data, sheet, options)\<close>. The sheet is looked up by name in the \<open>sheets\<close>
  array; a new sheet is pushed on the array.
\<close>

definition writeData ::
  "writer \<Rightarrow> jsval list list \<Rightarrow> sheet_arg \<Rightarrow> writeDataOptions \<Rightarrow> js_error + writer" where
  "writeData w dat sh options =
     (let sheetName = sheetNameOf sh;
          pos = xlCell2Ind (xlPosOrA1 (opt_xlPos options));
          startRow0 = row pos;
          startCol0 = column pos;
          fullData = (case opt_header options of Some h \<Rightarrow> h # dat | None \<Rightarrow> dat);
          (existingSheetIndex, w1) =
             (case findIndex (sheets w) sheetName of
                Some i \<Rightarrow> (i, w)
              | None \<Rightarrow>
                  (length (sheets w),
                   w\<lparr>sheets := sheets w @
                        [\<lparr>sheet_name = sheetName, sheet_data = [], startRow = startRow0,
                          startCol = startCol0, sheet_chart = opt_chart options\<rparr>]\<rparr>));
          sheetObj = sheets w1 ! existingSheetIndex
      in case writeData_rows w1 (sheet_data sheetObj) (int startRow0 - 1) (int startCol0 - 1) fullData of
           Inl e \<Rightarrow> Inl e
         | Inr (w2, d) \<Rightarrow>
             (let sheetObj' = sheetObj
                    \<lparr>sheet_data := d,
                     startRow := min (if startRow sheetObj \<noteq> 0 then startRow sheetObj else startRow0) startRow0,
                     startCol := min (if startCol sheetObj \<noteq> 0 then startCol sheetObj else startCol0) startCol0,
                     sheet_chart := (case opt_chart options of Some ch \<Rightarrow> Some ch
                                     | None \<Rightarrow> sheet_chart sheetObj)\<rparr>
              in Inr (w2\<lparr>sheets := (sheets w2)[existingSheetIndex := sheetObj']\<rparr>)))"

subsection \<open>setColumn, setRow, mergeRange, insertChart\<close>

datatype col_arg = ColLetters string | ColNum nat

fun colNumber :: "col_arg \<Rightarrow> nat" where
  "colNumber (ColLetters s) = column (xlCell2Ind (RefString (s @ ''1'')))"
| "colNumber (ColNum n) = n + 1"

text \<open>
  \<open>setColumn(firstCol, lastCol, width, format, options, sheet)\<close>. A numeric \<open>lastCol\<close>
  with no \<open>width\<close> is the width of the single column \<open>firstCol\<close>.
\<close>

definition setColumn ::
  "writer \<Rightarrow> col_arg \<Rightarrow> col_arg option \<Rightarrow> rat option \<Rightarrow> format option \<Rightarrow> bool \<Rightarrow> sheet_arg \<Rightarrow> writer" where
  "setColumn w firstCol lastCol width fmt hid sh =
     (let (width1, lastCol1) =
            (case (lastCol, width) of
               (Some (ColNum n), None) \<Rightarrow> (Some (of_nat n), Some firstCol)
             | _ \<Rightarrow> (width, lastCol));
          startCol1 = colNumber firstCol;
          endCol1 = (case lastCol1 of Some l \<Rightarrow> colNumber l | None \<Rightarrow> startCol1);
          ((sheetIndex, sheetName), w1) = getOrCreateSheet w sh;
          info0 = (case columnInfo w1 sheetIndex of Some m \<Rightarrow> m | None \<Rightarrow> Map.empty);
          info1 = fold (\<lambda>col m. m(col \<mapsto> \<lparr>ci_width = width1, ci_format = fmt, ci_hidden = hid\<rparr>))
                    [startCol1..<Suc endCol1] info0
      in w1\<lparr>columnInfo := (columnInfo w1)(sheetIndex \<mapsto> info1)\<rparr>)"

definition setRow ::
  "writer \<Rightarrow> nat \<Rightarrow> rat option \<Rightarrow> format option \<Rightarrow> bool \<Rightarrow> sheet_arg \<Rightarrow> writer" where
  "setRow w r height fmt hid sh =
     (let ((sheetIndex, sheetName), w1) = getOrCreateSheet w sh;
          info0 = (case rowInfo w1 sheetIndex of Some m \<Rightarrow> m | None \<Rightarrow> Map.empty)
      in w1\<lparr>rowInfo := (rowInfo w1)
              (sheetIndex \<mapsto> info0(r + 1 \<mapsto> \<lparr>ri_height = height, ri_format = fmt, ri_hidden = hid\<rparr>))\<rparr>)"

text \<open>
  \<open>mergeRange\<close> with numeric corners; \<open>data\<close> is written to the top-left cell unless it
  is \<open>undefined\<close>.
\<close>

definition mergeRange ::
  "writer \<Rightarrow> nat \<Rightarrow> nat \<Rightarrow> nat \<Rightarrow> nat \<Rightarrow> jsval \<Rightarrow> format option \<Rightarrow> sheet_arg \<Rightarrow> writer" where
  "mergeRange w firstRow firstCol lastRow lastCol dat fmt sh =
     (let ((sheetIndex, sheetName), w1) = getOrCreateSheet w sh;
          merges = (case mergeCells w1 sheetIndex of Some ms \<Rightarrow> ms | None \<Rightarrow> []);
          w2 = w1\<lparr>mergeCells := (mergeCells w1)
                 (sheetIndex \<mapsto> merges @
                    [\<lparr>mc_startRow = firstRow + 1, mc_startCol = firstCol + 1,
                      mc_endRow = lastRow + 1, mc_endCol = lastCol + 1\<rparr>])\<rparr>
      in if dat \<noteq> JUndef then write_cell w2 firstRow firstCol dat fmt sh else w2)"

text \<open>
  \<open>insertChart\<close> with a numeric row and column: the chart is positioned and becomes the
  sheet's chart.
\<close>

definition insertChart ::
  "writer \<Rightarrow> nat \<Rightarrow> nat \<Rightarrow> chart \<Rightarrow> rat \<Rightarrow> rat \<Rightarrow> sheet_arg \<Rightarrow> writer" where
  "insertChart w r c ch x_offset y_offset sh =
     (let ((sheetIndex, sheetName), w1) = getOrCreateSheet w sh;
          ch' = ch\<lparr>chart_x := x_offset + of_nat c * 64, chart_y := y_offset + of_nat r * 20\<rparr>
      in w1\<lparr>sheets := (sheets w1)[sheetIndex := (sheets w1 ! sheetIndex)\<lparr>sheet_chart := Some ch'\<rparr>]\<rparr>)"

subsection \<open>Sequences of public calls\<close>

datatype call =
    Write nat nat jsval "format option" sheet_arg
  | WriteRow nat nat "jsval list" "format option" sheet_arg
  | WriteColumn nat nat "jsval list" "format option" sheet_arg
  | WriteData "jsval list list" sheet_arg writeDataOptions
  | SetColumn col_arg "col_arg option" "rat option" "format option" bool sheet_arg
  | SetRow nat "rat option" "format option" bool sheet_arg
  | MergeRange nat nat nat nat jsval "format option" sheet_arg
  | InsertChart nat nat chart rat rat sheet_arg

fun perform :: "writer \<Rightarrow> call \<Rightarrow> js_error + writer" where
  "perform w (Write r c v fmt sh) = Inr (write_cell w r c v fmt sh)"
| "perform w (WriteRow r c xs fmt sh) = Inr (writeRow w r c xs fmt sh)"
| "perform w (WriteColumn r c xs fmt sh) = Inr (writeColumn w r c xs fmt sh)"
| "perform w (WriteData dat sh options) = writeData w dat sh options"
| "perform w (SetColumn firstCol lastCol width fmt hid sh) = Inr (setColumn w firstCol lastCol width fmt hid sh)"
| "perform w (SetRow r height fmt hid sh) = Inr (setRow w r height fmt hid sh)"
| "perform w (MergeRange r1 c1 r2 c2 dat fmt sh) = Inr (mergeRange w r1 c1 r2 c2 dat fmt sh)"
| "perform w (InsertChart r c ch xo yo sh) = Inr (insertChart w r c ch xo yo sh)"

text \<open>A sequence of calls stops at the first exception.\<close>

fun performAll :: "writer \<Rightarrow> call list \<Rightarrow> js_error + writer" where
  "performAll w [] = Inr w"
| "performAll w (c # cs) = (case perform w c of Inl e \<Rightarrow> Inl e | Inr w' \<Rightarrow> performAll w' cs)"

section \<open>Notions used to state the properties of the workbook model\<close>

text \<open>
  The values a public call hands to \<open>_processCell\<close>, in the order of the calls.
\<close>

fun valuesWritten :: "call \<Rightarrow> jsval list" where
  "valuesWritten (Write r c v fmt sh) = [v]"
| "valuesWritten (WriteRow r c xs fmt sh) = xs"
| "valuesWritten (WriteColumn r c xs fmt sh) = xs"
| "valuesWritten (WriteData dat sh options) =
     concat (case opt_header options of Some h \<Rightarrow> h # dat | None \<Rightarrow> dat)"
| "valuesWritten (SetColumn firstCol lastCol width fmt hid sh) = []"
| "valuesWritten (SetRow r height fmt hid sh) = []"
| "valuesWritten (MergeRange r1 c1 r2 c2 dat fmt sh) = (if dat \<noteq> JUndef then [dat] else [])"
| "valuesWritten (InsertChart r c ch xo yo sh) = []"

text \<open>The strings among some values that are neither empty nor formulas.\<close>

definition plainStrings :: "jsval list \<Rightarrow> string set" where
  "plainStrings vs = {s. JStr s \<in> set vs \<and> s \<noteq> [] \<and> \<not> startsWithEq s}"

text \<open>
  Interning one value into a table and its index map, written without reference to the
  writer: the effect \<open>_processCell\<close> is meant to have on the shared strings.
\<close>

fun internStep :: "string list \<times> (string \<rightharpoonup> nat) \<Rightarrow> jsval \<Rightarrow> string list \<times> (string \<rightharpoonup> nat)" where
  "internStep (xs, m) (JStr s) =
     (if s = [] \<or> startsWithEq s then (xs, m)
      else (case m s of Some i \<Rightarrow> (xs, m) | None \<Rightarrow> (xs @ [s], m(s \<mapsto> length xs))))"
| "internStep (xs, m) v = (xs, m)"

definition ssState :: "writer \<Rightarrow> string list \<times> (string \<rightharpoonup> nat)" where
  "ssState w = (sharedStrings w, sharedStringsMap w)"

text \<open>The index map agrees with the table, and the table has no duplicates.\<close>

definition ssInv :: "string list \<times> (string \<rightharpoonup> nat) \<Rightarrow> bool" where
  "ssInv st = (distinct (fst st) \<and>
               (\<forall>s i. (snd st s = Some i) = (i < length (fst st) \<and> fst st ! i = s)))"

text \<open>
  The sheet map agrees with the sheet list: every entry points at the sheet of that
  name, and every sheet is found under its name.
\<close>

definition sheetsInv :: "writer \<Rightarrow> bool" where
  "sheetsInv w =
     ((\<forall>n i. sheetMap w n = Some i \<longrightarrow> i < length (sheets w) \<and> sheet_name (sheets w ! i) = n) \<and>
      (\<forall>i < length (sheets w). sheetMap w (sheet_name (sheets w ! i)) = Some i))"

fun isWriteData :: "call \<Rightarrow> bool" where
  "isWriteData (WriteData dat sh options) = True"
| "isWriteData _ = False"

text \<open>
  The format map agrees with the format list: a key is mapped to the index of the
  registered Format with that key, and every registered Format carries its own index.
\<close>

definition fmtInv :: "writer \<Rightarrow> bool" where
  "fmtInv w =
     ((\<forall>k i. (formatMap w k = Some i) = (i < length (formats w) \<and> getKey (formats w ! i) = k)) \<and>
      (\<forall>i < length (formats w). xfIndex (formats w ! i) = Some i))"

text \<open>
  The custom number formats carry the ids 164, 165, \<open>\<dots>\<close> in the order in which they
  were first seen, each format string once, and \<open>nextNumFormatId\<close> is the next free id.
\<close>

definition numInv :: "writer \<Rightarrow> bool" where
  "numInv w =
     (map snd (customNumFormats w) = [164 ..< 164 + length (customNumFormats w)] \<and>
      nextNumFormatId w = 164 + length (customNumFormats w) \<and>
      distinct (map fst (customNumFormats w)))"



text \<open>
  The text a JavaScript engine prints for the two extreme finite values that
  \<open>_processCell\<close> stores; used as the runtime's number formatting in examples.
\<close>

definition sentinelText :: "rat \<Rightarrow> string" where
  "sentinelText x = (if x < 0 then ''-9.99999999999999e+307'' else ''9.99999999999999e+307'')"

text \<open>
  Reading the axis references back from chart XML: the values of the \<open>val\<close> attribute
  of every \<open>c:axId\<close> and \<open>c:crossAx\<close> element, in the order of the text.
\<close>

definition axIdOpen :: string where
  \<open>axIdOpen = ''<c:axId val="''\<close>

definition crossAxOpen :: string where
  \<open>crossAxOpen = ''<c:crossAx val="''\<close>

definition attrValue :: "string \<Rightarrow> string" where
  "attrValue s = takeWhile (\<lambda>c. c \<noteq> CHR 0x22) s"

fun axisIdRefs :: "string \<Rightarrow> string list" where
  "axisIdRefs [] = []"
| "axisIdRefs (c # cs) =
     (if prefix axIdOpen (c # cs) then attrValue (drop (length axIdOpen) (c # cs)) # axisIdRefs cs
      else if prefix crossAxOpen (c # cs) then attrValue (drop (length crossAxOpen) (c # cs)) # axisIdRefs cs
      else axisIdRefs cs)"

text \<open>
  \<open>mismatch p t\<close>: the texts \<open>p\<close> and \<open>t\<close> differ at a position that both have.
  \<open>noAxisRef s\<close>: at no position of \<open>s\<close> can an axis reference start, whatever
  follows \<open>s\<close>.
\<close>

fun mismatch :: "string \<Rightarrow> string \<Rightarrow> bool" where
  "mismatch (p # ps) (c # cs) = (p \<noteq> c \<or> mismatch ps cs)"
| "mismatch _ _ = False"

fun noAxisRef :: "string \<Rightarrow> bool" where
  "noAxisRef [] = True"
| "noAxisRef (c # cs) = (mismatch axIdOpen (c # cs) \<and> mismatch crossAxOpen (c # cs) \<and> noAxisRef cs)"

text \<open>
  A text is safe to insert when it has no \<open><\<close>. The strings of a chart that its XML
  takes as they are, without escaping, are the ones listed here.
\<close>

definition xmlSafe :: "string \<Rightarrow> bool" where
  "xmlSafe s = (CHR ''<'' \<notin> set s)"

definition xmlSafeOpt :: "string option \<Rightarrow> bool" where
  "xmlSafeOpt s = (case s of None \<Rightarrow> True | Some t \<Rightarrow> xmlSafe t)"

fun colorvalSafe :: "colorval \<Rightarrow> bool" where
  "colorvalSafe (ColorStr s) = xmlSafe s"
| "colorvalSafe _ = True"

definition colorSafe :: "color option \<Rightarrow> bool" where
  "colorSafe c = (case c of None \<Rightarrow> True | Some col \<Rightarrow> colorvalSafe (color_value col))"

definition lineSafe :: "line option \<Rightarrow> bool" where
  "lineSafe l = (case l of None \<Rightarrow> True
                 | Some li \<Rightarrow> colorSafe (line_color li) \<and> xmlSafeOpt (line_dashType li))"

definition markerSafe :: "marker option \<Rightarrow> bool" where
  "markerSafe m = (case m of None \<Rightarrow> True
                   | Some mk \<Rightarrow> xmlSafeOpt (marker_type mk) \<and> colorSafe (marker_fillColor mk)
                                \<and> lineSafe (marker_line mk))"

fun pointSafe :: "pointval \<Rightarrow> bool" where
  "pointSafe (PtStr s) = xmlSafe s"
| "pointSafe _ = True"

definition seriesSafe :: "series \<Rightarrow> bool" where
  "seriesSafe ser =
     (lineSafe (series_line ser) \<and> markerSafe (series_marker ser)
      \<and> (case series_trendline ser of None \<Rightarrow> True | Some tr \<Rightarrow> xmlSafeOpt (trendline_type tr))
      \<and> list_all pointSafe (series_x_values ser) \<and> list_all pointSafe (series_y_values ser))"

fun gridlinesSafe :: "gridlines \<Rightarrow> bool" where
  "gridlinesSafe (Grid col width) = xmlSafeOpt col"
| "gridlinesSafe _ = True"

definition axisSafe :: "axis \<Rightarrow> bool" where
  "axisSafe ax =
     (gridlinesSafe (axis_majorGridlines ax) \<and> gridlinesSafe (axis_minorGridlines ax)
      \<and> xmlSafeOpt (axis_minorTickMark ax))"

definition chartSafe :: "chart \<Rightarrow> bool" where
  "chartSafe ch =
     (xmlSafeOpt (chart_scatterStyle ch) \<and> xmlSafeOpt (chart_legend_position ch)
      \<and> xmlSafeOpt (chart_backgroundColor ch)
      \<and> list_all seriesSafe (chart_series ch)
      \<and> axisSafe (chart_xAxis ch) \<and> axisSafe (chart_yAxis ch))"

text \<open>\<open>isNaN\<close> on a string of digits is false; elsewhere this example takes it as true.\<close>

definition nanTextDigits :: "string \<Rightarrow> bool" where
  "nanTextDigits s = (\<not> list_all isDigit s)"

section \<open>Saving\<close>

text \<open>\<open>zip.file(path, content)\<close>: a new path is added, a known one keeps its place.\<close>

definition zipFile :: "string list \<Rightarrow> string \<Rightarrow> string list" where
  "zipFile z path = (if path \<in> set z then z else z @ [path])"

definition addRels :: "writer \<Rightarrow> writer" where
  "addRels w = w\<lparr>zip := zipFile (zip w) ''_rels/.rels''\<rparr>"

definition addDocProps :: "writer \<Rightarrow> writer" where
  "addDocProps w = w\<lparr>zip := zipFile (zipFile (zip w) ''docProps/app.xml'') ''docProps/core.xml''\<rparr>"

definition addStyles :: "writer \<Rightarrow> writer" where
  "addStyles w = w\<lparr>zip := zipFile (zip w) ''xl/styles.xml''\<rparr>"

definition addTheme :: "writer \<Rightarrow> writer" where
  "addTheme w = w\<lparr>zip := zipFile (zip w) ''xl/theme/theme1.xml''\<rparr>"

definition addWorkbook :: "writer \<Rightarrow> writer" where
  "addWorkbook w = w\<lparr>zip := zipFile (zip w) ''xl/workbook.xml''\<rparr>"

definition addWorkbookRels :: "writer \<Rightarrow> writer" where
  "addWorkbookRels w = w\<lparr>zip := zipFile (zip w) ''xl/_rels/workbook.xml.rels''\<rparr>"

definition addSharedStrings :: "writer \<Rightarrow> writer" where
  "addSharedStrings w = w\<lparr>zip := zipFile (zip w) ''xl/sharedStrings.xml''\<rparr>"

text \<open>
  \<open>_addWorksheets\<close>: one part per sheet, and a relationship part for a sheet with a
  chart. The loop also collects the charts in \<open>this.charts\<close>, which \<open>save\<close> has emptied
  before; only their number matters for the paths, and it is returned.
\<close>

fun addWorksheets_loop :: "string list \<Rightarrow> nat \<Rightarrow> nat \<Rightarrow> sheet list \<Rightarrow> string list \<times> nat" where
  "addWorksheets_loop z i charts [] = (z, charts)"
| "addWorksheets_loop z i charts (s # ss) =
     (let z1 = zipFile z (''xl/worksheets/sheet'' @ natToString (i + 1) @ ''.xml'')
      in case sheet_chart s of
           None \<Rightarrow> addWorksheets_loop z1 (i + 1) charts ss
         | Some ch \<Rightarrow>
             addWorksheets_loop
               (zipFile z1 (''xl/worksheets/_rels/sheet'' @ natToString (i + 1) @ ''.xml.rels''))
               (i + 1) (charts + 1) ss)"

definition addWorksheets :: "writer \<Rightarrow> writer \<times> nat" where
  "addWorksheets w =
     (let (z, charts) = addWorksheets_loop (zip w) 0 0 (sheets w) in (w\<lparr>zip := z\<rparr>, charts))"

fun addCharts_loop :: "string list \<Rightarrow> nat \<Rightarrow> nat \<Rightarrow> string list" where
  "addCharts_loop z i 0 = z"
| "addCharts_loop z i (Suc n) =
     addCharts_loop
       (zipFile
          (zipFile
             (zipFile z (''xl/charts/chart'' @ natToString (i + 1) @ ''.xml''))
             (''xl/drawings/drawing'' @ natToString (i + 1) @ ''.xml''))
          (''xl/drawings/_rels/drawing'' @ natToString (i + 1) @ ''.xml.rels''))
       (i + 1) n"

definition addCharts :: "writer \<Rightarrow> nat \<Rightarrow> writer" where
  "addCharts w charts = w\<lparr>zip := addCharts_loop (zip w) 0 charts\<rparr>"

definition addXl :: "writer \<Rightarrow> writer" where
  "addXl w =
     (let w1 = addStyles w;
          w2 = addTheme w1;
          w3 = addWorkbook w2;
          w4 = addWorkbookRels w3;
          w5 = addSharedStrings w4;
          (w6, charts) = addWorksheets w5
      in addCharts w6 charts)"

definition addContentTypes :: "writer \<Rightarrow> writer" where
  "addContentTypes w = w\<lparr>zip := zipFile (zip w) ''[Content_Types].xml''\<rparr>"

text \<open>
  \<open>save\<close>: the parts are added to the archive, and the generated archive (here the list
  of its entries) is returned.
\<close>

definition save :: "writer \<Rightarrow> string list \<times> writer" where
  "save w =
     (let w1 = addRels w;
          w2 = addDocProps w1;
          w3 = addXl w2;
          w4 = addContentTypes w3
      in (zip w4, w4))"

text \<open>
  The host of the program: a browser (\<open>window\<close> is defined), Node.js (\<open>require\<close> is
  defined) or neither. \<open>cwd\<close>, \<open>sep\<close> and \<open>resolve\<close> are \<open>process.cwd()\<close>, \<open>path.sep\<close>
  and \<open>path.resolve\<close>. What leaves the program is recorded: the files written with
  \<open>fs.writeFileSync\<close> and the downloads triggered in the browser.
\<close>

datatype host_kind = Browser | NodeJs | NoHost

record host =
  kind :: host_kind
  cwd :: string
  sep :: string
  resolve :: "string \<Rightarrow> string"

record outside =
  filesWritten :: "(string \<times> string list) list"
  downloads :: "(string \<times> string list) list"

definition toLowerCase_char :: "char \<Rightarrow> char" where
  "toLowerCase_char c =
     (if 65 \<le> (of_char c :: nat) \<and> (of_char c :: nat) \<le> 90
      then char_of ((of_char c :: nat) + 32) else c)"

definition toLowerCase :: "string \<Rightarrow> string" where
  "toLowerCase s = map toLowerCase_char s"

text \<open>
  \<open>saveAs(filename)\<close>: \<open>save\<close> runs first; the file name defaults to the writer's; in
  Node.js the resolved path is checked and an \<open>Error\<close> is thrown before
  \<open>fs.writeFileSync\<close>. The result is the exception or the archive, the writer and the
  outside world after the call.
\<close>

definition saveAs ::
  "host \<Rightarrow> writer \<Rightarrow> string option \<Rightarrow> outside \<Rightarrow> (js_error + string list) \<times> writer \<times> outside" where
  "saveAs h w fname out =
     (let (content, w1) = save w;
          fname1 = (case fname of Some f \<Rightarrow> if f \<noteq> [] then f else filename w1 | None \<Rightarrow> filename w1)
      in case kind h of
           Browser \<Rightarrow> (Inr content, w1, out\<lparr>downloads := downloads out @ [(fname1, content)]\<rparr>)
         | NodeJs \<Rightarrow>
             (let resolvedPath = resolve h fname1; baseDir = cwd h
              in if \<not> startsWith resolvedPath (baseDir @ sep h) \<and> resolvedPath \<noteq> baseDir
                 then (Inl (SecurityError ''Security error: output path must be within working directory''),
                       w1, out)
                 else if \<not> endsWith (toLowerCase resolvedPath) ''.xlsx''
                 then (Inl (SecurityError ''Security error: output file must have .xlsx extension''),
                       w1, out)
                 else (Inr content, w1, out\<lparr>filesWritten := filesWritten out @ [(resolvedPath, content)]\<rparr>))
         | NoHost \<Rightarrow> (Inr content, w1, out))"

section \<open>Generating XML\<close>

subsection \<open>Numbers and values as text\<close>

text \<open>
  A template literal \<open>`${v}`\<close> converts \<open>v\<close> to a string. An integer below \<open>10^21\<close> in
  magnitude is printed in decimal digits; for the other finite numbers the text is the
  runtime's \<open>Number.prototype.toString\<close>, the parameter \<open>ns\<close> of the generators.
\<close>

definition intToString :: "int \<Rightarrow> string" where
  "intToString i = (if i < 0 then CHR ''-'' # natToString (nat (- i)) else natToString (nat i))"

definition numberToString :: "(rat \<Rightarrow> string) \<Rightarrow> rat \<Rightarrow> string" where
  "numberToString ns x =
     (if of_int \<lfloor>x\<rfloor> = x \<and> \<bar>x\<bar> < 10 ^ 21 then intToString \<lfloor>x\<rfloor> else ns x)"

fun jsnumToString :: "(rat \<Rightarrow> string) \<Rightarrow> jsnum \<Rightarrow> string" where
  "jsnumToString ns NaN = ''NaN''"
| "jsnumToString ns PosInf = ''Infinity''"
| "jsnumToString ns NegInf = ''-Infinity''"
| "jsnumToString ns (Fin x) = numberToString ns x"

text \<open>\<open>Math.round\<close>: the nearest integer, a half rounded up.\<close>

definition mathRound :: "rat \<Rightarrow> int" where
  "mathRound x = \<lfloor>x + 1 / 2\<rfloor>"

text \<open>
  \<open>String(v)\<close> for any value; the elements of an array are joined with commas, \<open>null\<close>
  and \<open>undefined\<close> elements as empty strings.
\<close>

fun jsToString :: "(rat \<Rightarrow> string) \<Rightarrow> jsval \<Rightarrow> string"
  and jsJoin :: "(rat \<Rightarrow> string) \<Rightarrow> jsval list \<Rightarrow> string"
where
  "jsToString ns JUndef = ''undefined''"
| "jsToString ns JNull = ''null''"
| "jsToString ns (JBool b) = (if b then ''true'' else ''false'')"
| "jsToString ns (JNum n) = jsnumToString ns n"
| "jsToString ns (JStr s) = s"
| "jsToString ns (JArr xs) = jsJoin ns xs"
| "jsToString ns (JObj es) = ''[object Object]''"
| "jsToString ns (JFun f) = ''function '' @ f @ ''() { [native code] }''"
| "jsJoin ns [] = []"
| "jsJoin ns (x # xs) =
     (if x = JNull \<or> x = JUndef then [] else jsToString ns x) @
     (if xs = [] then [] else CHR '','' # jsJoin ns xs)"

text \<open>\<open>escapeXml\<close> on a string: the five characters are replaced by their entities.\<close>

definition escapeXml_char :: "char \<Rightarrow> string" where
  "escapeXml_char c =
     (if c = CHR ''&'' then ''&amp;''
      else if c = CHR ''<'' then ''&lt;''
      else if c = CHR ''>'' then ''&gt;''
      else if c = CHR 0x22 then ''&quot;''
      else if c = CHR 0x27 then ''&apos;''
      else [c])"

definition escapeXml :: "string \<Rightarrow> string" where
  "escapeXml str = concat (map escapeXml_char str)"

text \<open>
  \<open>escapeSheetName\<close>: an empty name is \<open>Sheet1\<close>; a name with a character other than a
  letter, a digit or an underscore, or one that starts with a digit, is put in single
  quotes with its own single quotes doubled.
\<close>

definition isWordChar :: "char \<Rightarrow> bool" where
  "isWordChar c = (isLetter c \<or> isDigit c \<or> c = CHR ''_'')"

definition escapeSheetName :: "string \<Rightarrow> string" where
  "escapeSheetName nm =
     (if nm = [] then ''Sheet1''
      else if (\<exists>c \<in> set nm. \<not> isWordChar c) \<or> isDigit (hd nm)
      then [CHR 0x27] @ concat (map (\<lambda>c. if c = CHR 0x27 then [CHR 0x27, CHR 0x27] else [c]) nm) @ [CHR 0x27]
      else nm)"

subsection \<open>Sheet data\<close>











subsection \<open>Colours\<close>

fun hexDigits :: "nat \<Rightarrow> string" where
  "hexDigits n =
     (if n < 16 then [''0123456789abcdef'' ! n]
      else hexDigits (n div 16) @ [''0123456789abcdef'' ! (n mod 16)])"

declare hexDigits.simps [simp del]

text \<open>\<open>n.toString(16).padStart(2, '0')\<close>.\<close>

definition hexByte :: "nat \<Rightarrow> string" where
  "hexByte n = (if length (hexDigits n) < 2 then CHR ''0'' # hexDigits n else hexDigits n)"

text \<open>
  \<open>getHexColor\<close> on what reaches it from \<open>toHexColor\<close>, a packed number or \<open>null\<close>, and
  \<open>toHexColor\<close> itself. The components of an array and the packed number are
  non-negative integers.
\<close>

fun toHexColor :: "colorval \<Rightarrow> string" where
  "toHexColor (ColorRGB cs) = toUpperCase (concat (map hexByte cs))"
| "toHexColor (ColorStr s) =
     toUpperCase (case s of [] \<Rightarrow> [] | c # r \<Rightarrow> if c = CHR ''#'' then r else c # r)"
| "toHexColor (ColorNum v) =
     toUpperCase (concat (map hexByte [v mod 256, (v div 256) mod 256, (v div 65536) mod 256]))"
| "toHexColor ColorNull = ''000000''"

fun colorTruthy :: "colorval \<Rightarrow> bool" where
  "colorTruthy (ColorRGB cs) = True"
| "colorTruthy (ColorStr s) = (s \<noteq> [])"
| "colorTruthy (ColorNum v) = (v \<noteq> 0)"
| "colorTruthy ColorNull = False"

subsection \<open>Series\<close>

definition generateSolidFillXML :: "colorval \<Rightarrow> string" where
  \<open>generateSolidFillXML col =
     (if \<not> colorTruthy col then []
      else ''<a:solidFill><a:srgbClr val="'' @ toHexColor col @ ''"/></a:solidFill>'')\<close>

text \<open>\<open>_generateLineXML\<close>; a missing width is 2, a missing dash type \<open>solid\<close>.\<close>

definition generateLineXML :: "(rat \<Rightarrow> string) \<Rightarrow> line option \<Rightarrow> string" where
  \<open>generateLineXML ns lo =
     (case lo of
        None \<Rightarrow> []
      | Some li \<Rightarrow>
          (case line_color li of
             None \<Rightarrow> []
           | Some col \<Rightarrow>
               (let width = (case line_width li of Some w \<Rightarrow> w | None \<Rightarrow> 2);
                    dashType = (case line_dashType li of Some d \<Rightarrow> d | None \<Rightarrow> ''solid'')
                in if color_option col = ''None'' then ''<a:ln><a:noFill/></a:ln>''
                   else if color_option col = ''Solid'' \<and> colorTruthy (color_value col)
                   then ''<a:ln w="'' @ numberToString ns (width * 12700) @ ''">'' @
                        ''<a:solidFill><a:srgbClr val="'' @ toHexColor (color_value col) @ ''"/></a:solidFill>'' @
                        ''<a:prstDash val="'' @ dashType @ ''"/>'' @
                        ''</a:ln>''
                   else [])))\<close>

definition generateSeriesSpPr :: "(rat \<Rightarrow> string) \<Rightarrow> series \<Rightarrow> string" where
  \<open>generateSeriesSpPr ns ser = ''<c:spPr>'' @ generateLineXML ns (series_line ser) @ ''</c:spPr>''\<close>

definition generateBarSpPr :: "series \<Rightarrow> string" where
  \<open>generateBarSpPr ser =
     ''<c:spPr>'' @
     (case series_line ser of
        None \<Rightarrow> []
      | Some li \<Rightarrow>
          (case line_color li of
             None \<Rightarrow> []
           | Some col \<Rightarrow> if colorTruthy (color_value col) then generateSolidFillXML (color_value col) else [])) @
     ''</c:spPr>''\<close>

definition MARKER_TYPES :: "(string \<times> jsval) list" where
  "MARKER_TYPES =
     [(''automatic'', JStr ''auto''), (''none'', JStr ''none''), (''circle'', JStr ''circle''),
      (''diamond'', JStr ''diamond''), (''square'', JStr ''square''),
      (''triangle'', JStr ''triangle''), (''x'', JStr ''x''), (''star'', JStr ''star''),
      (''plus'', JStr ''plus''), (''dot'', JStr ''dot''), (''dash'', JStr ''dash''),
      (''short_dash'', JStr ''dash''), (''long_dash'', JStr ''dash''),
      (''picture'', JStr ''picture'')]"

text \<open>
  \<open>MARKER_TYPES[marker.type] || marker.type || 'circle'\<close>, as the text the template
  literal prints; a missing \<open>marker.type\<close> reads the property \<open>undefined\<close>.
\<close>

definition markerTypeText :: "(rat \<Rightarrow> string) \<Rightarrow> string option \<Rightarrow> string" where
  "markerTypeText ns t =
     (let looked = getProp MARKER_TYPES (case t of Some s \<Rightarrow> s | None \<Rightarrow> ''undefined'')
      in if truthy looked then jsToString ns looked
         else (case t of Some s \<Rightarrow> if s \<noteq> [] then s else ''circle'' | None \<Rightarrow> ''circle''))"

definition generateMarkerXML :: "(rat \<Rightarrow> string) \<Rightarrow> marker option \<Rightarrow> string" where
  \<open>generateMarkerXML ns mo =
     (case mo of
        None \<Rightarrow> ''<c:marker><c:symbol val="none"/></c:marker>''
      | Some m \<Rightarrow>
          if marker_option m = ''NoMarker'' \<or> marker_option m = ''none''
          then ''<c:marker><c:symbol val="none"/></c:marker>''
          else if marker_option m = ''Automatic'' \<or> marker_option m = ''auto'' then []
          else ''<c:marker>'' @
               ''<c:symbol val="'' @ markerTypeText ns (marker_type m) @ ''"/>'' @
               ''<c:size val="'' @
                 numberToString ns (case marker_size m of Some s \<Rightarrow> if s \<noteq> 0 then s else 5 | None \<Rightarrow> 5) @
                 ''"/>'' @
               (if marker_fillColor m \<noteq> None \<or> marker_line m \<noteq> None
                then ''<c:spPr>'' @
                     (case marker_fillColor m of
                        None \<Rightarrow> []
                      | Some fc \<Rightarrow> if color_option fc = ''Solid'' \<and> colorTruthy (color_value fc)
                                   then generateSolidFillXML (color_value fc) else []) @
                     (case marker_line m of
                        None \<Rightarrow> []
                      | Some li \<Rightarrow>
                          (case line_color li of
                             None \<Rightarrow> []
                           | Some col \<Rightarrow>
                               if color_option col = ''Solid'' \<and> colorTruthy (color_value col)
                               then ''<a:ln w="'' @
                                    numberToString ns
                                      ((case line_width li of Some w \<Rightarrow> if w \<noteq> 0 then w else 3 / 4
                                        | None \<Rightarrow> 3 / 4) * 12700) @
                                    ''"><a:solidFill><a:srgbClr val="'' @ toHexColor (color_value col) @
                                    ''"/></a:solidFill></a:ln>''
                               else [])) @
                     ''</c:spPr>''
                else []) @
               ''</c:marker>'')\<close>

definition generateDataLabelsXML :: "dataLabels \<Rightarrow> string" where
  \<open>generateDataLabelsXML dl =
     ''<c:dLbls>'' @
     (if showValue dl then ''<c:showVal val="1"/>'' else []) @
     (if showCatName dl then ''<c:showCatName val="1"/>'' else []) @
     (if showSerName dl then ''<c:showSerName val="1"/>'' else []) @
     (if showPercent dl then ''<c:showPercent val="1"/>'' else []) @
     ''<c:showLegendKey val="0"/>'' @
     ''</c:dLbls>''\<close>

definition truthyNum :: "rat option \<Rightarrow> bool" where
  "truthyNum x = (case x of Some v \<Rightarrow> v \<noteq> 0 | None \<Rightarrow> False)"

definition generateTrendlineXML :: "(rat \<Rightarrow> string) \<Rightarrow> trendline \<Rightarrow> string" where
  \<open>generateTrendlineXML ns tr =
     (let type = (case trendline_type tr of Some t \<Rightarrow> if t \<noteq> [] then t else ''linear'' | None \<Rightarrow> ''linear'')
      in ''<c:trendline>'' @
         ''<c:trendlineType val="'' @ type @ ''"/>'' @
         (if type = ''poly'' \<and> truthyNum (trendline_order tr)
          then ''<c:order val="'' @ numberToString ns (the (trendline_order tr)) @ ''"/>'' else []) @
         (if type = ''movingAvg'' \<and> truthyNum (trendline_period tr)
          then ''<c:period val="'' @ numberToString ns (the (trendline_period tr)) @ ''"/>'' else []) @
         (if truthyNum (trendline_forward tr)
          then ''<c:forward val="'' @ numberToString ns (the (trendline_forward tr)) @ ''"/>'' else []) @
         (if truthyNum (trendline_backward tr)
          then ''<c:backward val="'' @ numberToString ns (the (trendline_backward tr)) @ ''"/>'' else []) @
         (if displayEquation tr then ''<c:dispEq val="1"/>'' else []) @
         (if displayRSquared tr then ''<c:dispRSqr val="1"/>'' else []) @
         ''</c:trendline>'')\<close>

text \<open>
  \<open>_generateNumericPointsXML\<close>. A point is printed unless it is \<open>null\<close> or \<open>isNaN\<close> says
  so; for a string, \<open>isNaN\<close> is the runtime's conversion of the string to a number, the
  parameter \<open>nanText\<close>.
\<close>

fun pointIsNaN :: "(string \<Rightarrow> bool) \<Rightarrow> pointval \<Rightarrow> bool" where
  "pointIsNaN nanText PtNull = False"
| "pointIsNaN nanText (PtNum n) = (n = NaN)"
| "pointIsNaN nanText (PtStr s) = nanText s"

fun pointText :: "(rat \<Rightarrow> string) \<Rightarrow> pointval \<Rightarrow> string" where
  "pointText ns PtNull = ''null''"
| "pointText ns (PtNum n) = jsnumToString ns n"
| "pointText ns (PtStr s) = s"

fun numericPoints :: "(rat \<Rightarrow> string) \<Rightarrow> (string \<Rightarrow> bool) \<Rightarrow> nat \<Rightarrow> pointval list \<Rightarrow> string" where
  \<open>numericPoints ns nanText idx [] = []\<close>
| \<open>numericPoints ns nanText idx (v # vs) =
     (if v \<noteq> PtNull \<and> \<not> pointIsNaN nanText v
      then ''<c:pt idx="'' @ natToString idx @ ''"><c:v>'' @ pointText ns v @ ''</c:v></c:pt>''
      else []) @
     numericPoints ns nanText (idx + 1) vs\<close>

definition generateNumericPointsXML :: "(rat \<Rightarrow> string) \<Rightarrow> (string \<Rightarrow> bool) \<Rightarrow> pointval list \<Rightarrow> string" where
  \<open>generateNumericPointsXML ns nanText vals =
     ''<c:formatCode>General</c:formatCode>'' @
     ''<c:ptCount val="'' @ natToString (length vals) @ ''"/>'' @
     numericPoints ns nanText 0 vals\<close>

definition generateCellRange :: "string \<Rightarrow> nat \<Rightarrow> nat \<Rightarrow> nat \<Rightarrow> string" where
  \<open>generateCellRange sheetName col startRow1 endRow1 =
     escapeSheetName sheetName @ ''!$'' @ xlColumn_loop col [] @ ''$'' @ natToString startRow1 @
     '':$'' @ xlColumn_loop col [] @ ''$'' @ natToString endRow1\<close>

text \<open>\<open>dataInfo?.numRows > 1\<close>.\<close>

definition hasDataRows :: "dataInfo option \<Rightarrow> bool" where
  "hasDataRows dio = (case dio of None \<Rightarrow> False | Some di \<Rightarrow> di_numRows di > 1)"

definition generateXValXML ::
  "(rat \<Rightarrow> string) \<Rightarrow> (string \<Rightarrow> bool) \<Rightarrow> series \<Rightarrow> nat \<Rightarrow> string \<Rightarrow> dataInfo option \<Rightarrow> string" where
  \<open>generateXValXML ns nanText ser index sheetName dio =
     (if hasDataRows dio
      then (let di = the dio;
                startRow1 = di_startRow di + 1;
                endRow1 = di_startRow di + di_numRows di - 1;
                range = generateCellRange sheetName (di_startCol di) startRow1 endRow1
            in ''<c:xVal><c:numRef><c:f>'' @ range @ ''</c:f></c:numRef></c:xVal>'')
      else if length (series_x_values ser) > 0
      then ''<c:xVal><c:numLit>'' @ generateNumericPointsXML ns nanText (series_x_values ser) @
           ''</c:numLit></c:xVal>''
      else [])\<close>

definition generateYValXML ::
  "(rat \<Rightarrow> string) \<Rightarrow> (string \<Rightarrow> bool) \<Rightarrow> series \<Rightarrow> nat \<Rightarrow> string \<Rightarrow> dataInfo option \<Rightarrow> string" where
  \<open>generateYValXML ns nanText ser index sheetName dio =
     (if hasDataRows dio
      then (let di = the dio;
                startRow1 = di_startRow di + 1;
                endRow1 = di_startRow di + di_numRows di - 1;
                range = generateCellRange sheetName (di_startCol di + index + 1) startRow1 endRow1
            in ''<c:yVal><c:numRef><c:f>'' @ range @ ''</c:f></c:numRef></c:yVal>'')
      else if length (series_y_values ser) > 0
      then ''<c:yVal><c:numLit>'' @ generateNumericPointsXML ns nanText (series_y_values ser) @
           ''</c:numLit></c:yVal>''
      else [])\<close>

text \<open>
  \<open>_generateCatXML\<close>: the labels are strings when the first one is; a label is escaped
  in that case (\<open>escapeXml\<close> of \<open>null\<close> is the empty string) and printed as it is
  otherwise.
\<close>

fun isPtStr :: "pointval \<Rightarrow> bool" where
  "isPtStr (PtStr s) = True"
| "isPtStr _ = False"

fun catPoints :: "(rat \<Rightarrow> string) \<Rightarrow> bool \<Rightarrow> nat \<Rightarrow> pointval list \<Rightarrow> string" where
  \<open>catPoints ns isString idx [] = []\<close>
| \<open>catPoints ns isString idx (v # vs) =
     ''<c:pt idx="'' @ natToString idx @ ''"><c:v>'' @
     (if isString then (if v = PtNull then [] else escapeXml (pointText ns v)) else pointText ns v) @
     ''</c:v></c:pt>'' @
     catPoints ns isString (idx + 1) vs\<close>

definition generateCatXML :: "(rat \<Rightarrow> string) \<Rightarrow> series \<Rightarrow> string" where
  \<open>generateCatXML ns ser =
     (let vals = series_x_values ser
      in if vals = [] then []
         else if isPtStr (hd vals)
         then ''<c:cat><c:strLit>'' @
              ''<c:ptCount val="'' @ natToString (length vals) @ ''"/>'' @
              catPoints ns True 0 vals @
              ''</c:strLit></c:cat>''
         else ''<c:cat><c:numLit>'' @
              ''<c:formatCode>General</c:formatCode>'' @
              ''<c:ptCount val="'' @ natToString (length vals) @ ''"/>'' @
              catPoints ns False 0 vals @
              ''</c:numLit></c:cat>'')\<close>

definition generateValXML :: "(rat \<Rightarrow> string) \<Rightarrow> (string \<Rightarrow> bool) \<Rightarrow> series \<Rightarrow> string" where
  \<open>generateValXML ns nanText ser =
     (if series_y_values ser = [] then []
      else ''<c:val><c:numLit>'' @ generateNumericPointsXML ns nanText (series_y_values ser) @
           ''</c:numLit></c:val>'')\<close>

definition generateSeriesNameXML :: "series \<Rightarrow> nat \<Rightarrow> string \<Rightarrow> dataInfo option \<Rightarrow> string" where
  \<open>generateSeriesNameXML ser index sheetName dio =
     (if series_name_text ser = [] then []
      else if hasDataRows dio
      then (let di = the dio
            in ''<c:tx><c:strRef><c:f>'' @ escapeSheetName sheetName @ ''!$'' @
               xlColumn_loop (di_startCol di + index + 1) [] @ ''$'' @ natToString (di_startRow di) @
               ''</c:f></c:strRef></c:tx>'')
      else ''<c:tx><c:v>'' @ escapeXml (series_name_text ser) @ ''</c:v></c:tx>'')\<close>

definition generateSeriesHeader :: "series \<Rightarrow> nat \<Rightarrow> string \<Rightarrow> dataInfo option \<Rightarrow> string" where
  \<open>generateSeriesHeader ser index sheetName dio =
     ''<c:ser>'' @
     ''<c:idx val="'' @ natToString index @ ''"/>'' @
     ''<c:order val="'' @ natToString index @ ''"/>'' @
     generateSeriesNameXML ser index sheetName dio\<close>

definition generateScatterSeriesXML ::
  "(rat \<Rightarrow> string) \<Rightarrow> (string \<Rightarrow> bool) \<Rightarrow> series \<Rightarrow> nat \<Rightarrow> string \<Rightarrow> dataInfo option \<Rightarrow> string" where
  \<open>generateScatterSeriesXML ns nanText ser index sheetName dio =
     generateSeriesHeader ser index sheetName dio @
     generateSeriesSpPr ns ser @
     generateMarkerXML ns (series_marker ser) @
     (case series_dataLabels ser of Some lab \<Rightarrow> generateDataLabelsXML lab | None \<Rightarrow> []) @
     (case series_trendline ser of Some tr \<Rightarrow> generateTrendlineXML ns tr | None \<Rightarrow> []) @
     generateXValXML ns nanText ser index sheetName dio @
     generateYValXML ns nanText ser index sheetName dio @
     ''<c:smooth val="'' @ (if series_smooth ser then ''1'' else ''0'') @ ''"/>'' @
     ''</c:ser>''\<close>

definition generateLineSeriesXML ::
  "(rat \<Rightarrow> string) \<Rightarrow> (string \<Rightarrow> bool) \<Rightarrow> series \<Rightarrow> nat \<Rightarrow> string \<Rightarrow> dataInfo option \<Rightarrow> string" where
  \<open>generateLineSeriesXML ns nanText ser index sheetName dio =
     generateSeriesHeader ser index sheetName dio @
     generateSeriesSpPr ns ser @
     generateMarkerXML ns (series_marker ser) @
     generateCatXML ns ser @
     generateValXML ns nanText ser @
     ''<c:smooth val="'' @ (if series_smooth ser then ''1'' else ''0'') @ ''"/>'' @
     ''</c:ser>''\<close>

text \<open>\<open>_generateBarSeriesXML\<close> and \<open>_generateAreaSeriesXML\<close> have the same body.\<close>

definition generateBarSeriesXML ::
  "(rat \<Rightarrow> string) \<Rightarrow> (string \<Rightarrow> bool) \<Rightarrow> series \<Rightarrow> nat \<Rightarrow> string \<Rightarrow> dataInfo option \<Rightarrow> string" where
  \<open>generateBarSeriesXML ns nanText ser index sheetName dio =
     generateSeriesHeader ser index sheetName dio @
     generateBarSpPr ser @
     generateCatXML ns ser @
     generateValXML ns nanText ser @
     ''</c:ser>''\<close>

definition generatePieSeriesXML ::
  "(rat \<Rightarrow> string) \<Rightarrow> (string \<Rightarrow> bool) \<Rightarrow> series \<Rightarrow> nat \<Rightarrow> string \<Rightarrow> dataInfo option \<Rightarrow> string" where
  \<open>generatePieSeriesXML ns nanText ser index sheetName dio =
     generateSeriesHeader ser index sheetName dio @
     generateCatXML ns ser @
     generateValXML ns nanText ser @
     ''</c:ser>''\<close>

text \<open>The loop \<open>for (let i = 0; i < chart.series.length; i++)\<close> of every chart type.\<close>

fun seriesLoop :: "(series \<Rightarrow> nat \<Rightarrow> string) \<Rightarrow> nat \<Rightarrow> series list \<Rightarrow> string" where
  "seriesLoop gen i [] = []"
| "seriesLoop gen i (s # ss) = gen s i @ seriesLoop gen (i + 1) ss"

subsection \<open>Chart types\<close>

definition generateScatterChartXML ::
  "(rat \<Rightarrow> string) \<Rightarrow> (string \<Rightarrow> bool) \<Rightarrow> chart \<Rightarrow> string \<Rightarrow> dataInfo option \<Rightarrow> string" where
  \<open>generateScatterChartXML ns nanText ch sheetName dio =
     (let scatterStyle = (case chart_scatterStyle ch of Some s \<Rightarrow> if s \<noteq> [] then s else ''lineMarker''
                          | None \<Rightarrow> ''lineMarker'')
      in ''<c:scatterChart>'' @
         ''<c:scatterStyle val="'' @ scatterStyle @ ''"/>'' @
         ''<c:varyColors val="0"/>'' @
         seriesLoop (\<lambda>ser i. generateScatterSeriesXML ns nanText ser i sheetName dio) 0 (chart_series ch) @
         ''<c:axId val="'' @ natToString (axis_id (chart_xAxis ch)) @ ''"/>'' @
         ''<c:axId val="'' @ natToString (axis_id (chart_yAxis ch)) @ ''"/>'' @
         ''</c:scatterChart>'')\<close>

definition generateLineChartXML ::
  "(rat \<Rightarrow> string) \<Rightarrow> (string \<Rightarrow> bool) \<Rightarrow> chart \<Rightarrow> string \<Rightarrow> dataInfo option \<Rightarrow> string" where
  \<open>generateLineChartXML ns nanText ch sheetName dio =
     (let grouping = (case chart_grouping ch of Some g \<Rightarrow> if g \<noteq> [] then g else ''standard''
                      | None \<Rightarrow> ''standard'')
      in ''<c:lineChart>'' @
         ''<c:grouping val="'' @ grouping @ ''"/>'' @
         ''<c:varyColors val="0"/>'' @
         seriesLoop (\<lambda>ser i. generateLineSeriesXML ns nanText ser i sheetName dio) 0 (chart_series ch) @
         ''<c:marker val="1"/>'' @
         ''<c:axId val="'' @ natToString (axis_id (chart_xAxis ch)) @ ''"/>'' @
         ''<c:axId val="'' @ natToString (axis_id (chart_yAxis ch)) @ ''"/>'' @
         ''</c:lineChart>'')\<close>

definition orDefault :: "rat option \<Rightarrow> rat \<Rightarrow> rat" where
  "orDefault x d = (case x of Some v \<Rightarrow> if v \<noteq> 0 then v else d | None \<Rightarrow> d)"

definition generateBarChartXML ::
  "(rat \<Rightarrow> string) \<Rightarrow> (string \<Rightarrow> bool) \<Rightarrow> chart \<Rightarrow> string \<Rightarrow> dataInfo option \<Rightarrow> string \<Rightarrow> string" where
  \<open>generateBarChartXML ns nanText ch sheetName dio chartType =
     (let barDir = (if chartType = ''bar'' then ''bar'' else ''col'');
          grouping = (case chart_grouping ch of Some g \<Rightarrow> if g \<noteq> [] then g else ''clustered''
                      | None \<Rightarrow> ''clustered'')
      in ''<c:barChart>'' @
         ''<c:barDir val="'' @ barDir @ ''"/>'' @
         ''<c:grouping val="'' @ grouping @ ''"/>'' @
         ''<c:varyColors val="0"/>'' @
         seriesLoop (\<lambda>ser i. generateBarSeriesXML ns nanText ser i sheetName dio) 0 (chart_series ch) @
         ''<c:gapWidth val="'' @ numberToString ns (orDefault (chart_gapWidth ch) 150) @ ''"/>'' @
         (if grouping = ''clustered'' \<or> grouping = ''stacked'' \<or> grouping = ''percentStacked''
          then ''<c:overlap val="'' @ numberToString ns (orDefault (chart_overlap ch) 0) @ ''"/>''
          else []) @
         ''<c:axId val="'' @ natToString (axis_id (chart_xAxis ch)) @ ''"/>'' @
         ''<c:axId val="'' @ natToString (axis_id (chart_yAxis ch)) @ ''"/>'' @
         ''</c:barChart>'')\<close>

definition generateAreaChartXML ::
  "(rat \<Rightarrow> string) \<Rightarrow> (string \<Rightarrow> bool) \<Rightarrow> chart \<Rightarrow> string \<Rightarrow> dataInfo option \<Rightarrow> string" where
  \<open>generateAreaChartXML ns nanText ch sheetName dio =
     (let grouping = (case chart_grouping ch of Some g \<Rightarrow> if g \<noteq> [] then g else ''standard''
                      | None \<Rightarrow> ''standard'')
      in ''<c:areaChart>'' @
         ''<c:grouping val="'' @ grouping @ ''"/>'' @
         ''<c:varyColors val="0"/>'' @
         seriesLoop (\<lambda>ser i. generateBarSeriesXML ns nanText ser i sheetName dio) 0 (chart_series ch) @
         ''<c:axId val="'' @ natToString (axis_id (chart_xAxis ch)) @ ''"/>'' @
         ''<c:axId val="'' @ natToString (axis_id (chart_yAxis ch)) @ ''"/>'' @
         ''</c:areaChart>'')\<close>

definition generatePieChartXML ::
  "(rat \<Rightarrow> string) \<Rightarrow> (string \<Rightarrow> bool) \<Rightarrow> chart \<Rightarrow> string \<Rightarrow> dataInfo option \<Rightarrow> string" where
  \<open>generatePieChartXML ns nanText ch sheetName dio =
     ''<c:pieChart>'' @
     ''<c:varyColors val="1"/>'' @
     seriesLoop (\<lambda>ser i. generatePieSeriesXML ns nanText ser i sheetName dio) 0 (chart_series ch) @
     ''<c:firstSliceAng val="0"/>'' @
     ''</c:pieChart>''\<close>

definition generateDoughnutChartXML ::
  "(rat \<Rightarrow> string) \<Rightarrow> (string \<Rightarrow> bool) \<Rightarrow> chart \<Rightarrow> string \<Rightarrow> dataInfo option \<Rightarrow> string" where
  \<open>generateDoughnutChartXML ns nanText ch sheetName dio =
     ''<c:doughnutChart>'' @
     ''<c:varyColors val="1"/>'' @
     seriesLoop (\<lambda>ser i. generatePieSeriesXML ns nanText ser i sheetName dio) 0 (chart_series ch) @
     ''<c:firstSliceAng val="0"/>'' @
     ''<c:holeSize val="'' @ numberToString ns (orDefault (chart_holeSize ch) 50) @ ''"/>'' @
     ''</c:doughnutChart>''\<close>

text \<open>The \<open>switch\<close> on the chart type; an unknown type takes the scatter generator.\<close>

definition generateChartTypeXML ::
  "(rat \<Rightarrow> string) \<Rightarrow> (string \<Rightarrow> bool) \<Rightarrow> chart \<Rightarrow> string \<Rightarrow> string \<Rightarrow> dataInfo option \<Rightarrow> string" where
  "generateChartTypeXML ns nanText ch chartType sheetName dio =
     (if chartType = ''scatter'' then generateScatterChartXML ns nanText ch sheetName dio
      else if chartType = ''line'' then generateLineChartXML ns nanText ch sheetName dio
      else if chartType = ''column'' \<or> chartType = ''bar''
      then generateBarChartXML ns nanText ch sheetName dio chartType
      else if chartType = ''area'' then generateAreaChartXML ns nanText ch sheetName dio
      else if chartType = ''pie'' then generatePieChartXML ns nanText ch sheetName dio
      else if chartType = ''doughnut'' then generateDoughnutChartXML ns nanText ch sheetName dio
      else generateScatterChartXML ns nanText ch sheetName dio)"

subsection \<open>Axes\<close>

text \<open>
  \<open>isLogScale\<close>: \<open>axis.logBase && !isNaN(axis.logBase) && axis.logBase > 1\<close>.
\<close>

fun isLogScale :: "jsnum option \<Rightarrow> bool" where
  "isLogScale None = False"
| "isLogScale (Some NaN) = False"
| "isLogScale (Some PosInf) = True"
| "isLogScale (Some NegInf) = False"
| "isLogScale (Some (Fin x)) = (x > 1)"

text \<open>\<open>v !== undefined && !isNaN(v)\<close> on an axis bound.\<close>

definition isBound :: "jsnum option \<Rightarrow> bool" where
  "isBound v = (v \<noteq> None \<and> v \<noteq> Some NaN)"

definition useCategoryAxis :: "string \<Rightarrow> string \<Rightarrow> bool" where
  "useCategoryAxis position chartType =
     ((position = ''b'' \<or> position = ''t'') \<and> chartType \<noteq> ''scatter'')"

text \<open>The statements of \<open>_generateAxisXML\<close> from \<open><c:scaling>\<close> to \<open></c:scaling>\<close>.\<close>

definition axisScalingXML :: "(rat \<Rightarrow> string) \<Rightarrow> axis \<Rightarrow> bool \<Rightarrow> string" where
  \<open>axisScalingXML ns ax cat =
     ''<c:scaling>'' @
     (if isLogScale (axis_logBase ax) \<and> \<not> cat
      then ''<c:logBase val="'' @ jsnumToString ns (the (axis_logBase ax)) @ ''"/>'' else []) @
     ''<c:orientation val="minMax"/>'' @
     (if \<not> cat
      then (if isBound (axis_maximum ax)
            then ''<c:max val="'' @ jsnumToString ns (the (axis_maximum ax)) @ ''"/>'' else []) @
           (if isBound (axis_minimum ax)
            then ''<c:min val="'' @ jsnumToString ns (the (axis_minimum ax)) @ ''"/>'' else [])
      else []) @
     ''</c:scaling>''\<close>

text \<open>
  The inside of a gridlines element: shape properties when the setting is an object
  with a colour or a width.
\<close>

definition gridlineSpPr :: "gridlines \<Rightarrow> string \<Rightarrow> rat \<Rightarrow> string" where
  \<open>gridlineSpPr g defaultColor defaultWidth =
     (case g of
        Grid col width \<Rightarrow>
          if (case col of Some c \<Rightarrow> c \<noteq> [] | None \<Rightarrow> False) \<or> truthyNum width
          then ''<c:spPr>'' @
               ''<a:ln w="'' @ intToString (mathRound (orDefault width defaultWidth * 12700)) @ ''">'' @
               ''<a:solidFill><a:srgbClr val="'' @
                 (case col of Some c \<Rightarrow> if c \<noteq> [] then c else defaultColor | None \<Rightarrow> defaultColor) @
                 ''"/></a:solidFill>'' @
               ''</a:ln>'' @
               ''</c:spPr>''
          else []
      | _ \<Rightarrow> [])\<close>

fun gridTruthy :: "gridlines \<Rightarrow> bool" where
  "gridTruthy (Grid col width) = True"
| "gridTruthy GridTrue = True"
| "gridTruthy _ = False"

text \<open>The attribute escaping of the number format code: \<open>&\<close>, \<open><\<close> and \<open>"\<close>.\<close>

definition escapeFmtCode_char :: "char \<Rightarrow> string" where
  "escapeFmtCode_char c =
     (if c = CHR ''&'' then ''&amp;''
      else if c = CHR ''<'' then ''&lt;''
      else if c = CHR 0x22 then ''&quot;''
      else [c])"

definition generateAxisXML ::
  "(rat \<Rightarrow> string) \<Rightarrow> axis \<Rightarrow> string \<Rightarrow> nat \<Rightarrow> string \<Rightarrow> string" where
  \<open>generateAxisXML ns ax position crossAxisId chartType =
     (let cat = useCategoryAxis position chartType;
          numFmtCode = (case orStr (axis_numberFormat ax) (axis_numberFormatCode ax) of
                          Some s \<Rightarrow> if s \<noteq> [] then s else ''General'' | None \<Rightarrow> ''General'');
          sourceLinked = (if orStr (axis_numberFormat ax) None \<noteq> None
                             \<or> axis_numberLinkedToSource ax = Some False then ''0'' else ''1'');
          minorTickMark = (case axis_minorTickMark ax of Some s \<Rightarrow> if s \<noteq> [] then s else ''none''
                           | None \<Rightarrow> ''none'');
          tickLblFontSize = (case orRat (axis_tickLabelFontSize ax) (axis_fontSize ax) of
                               Some v \<Rightarrow> if v \<noteq> 0 then v else 10 | None \<Rightarrow> 10)
      in (if cat then ''<c:catAx>'' else ''<c:valAx>'') @
         ''<c:axId val="'' @ natToString (axis_id ax) @ ''"/>'' @
         axisScalingXML ns ax cat @
         ''<c:delete val="0"/>'' @
         ''<c:axPos val="'' @ position @ ''"/>'' @
         (if \<not> cat \<and> axis_majorGridlines ax \<noteq> GridFalse
          then ''<c:majorGridlines>'' @ gridlineSpPr (axis_majorGridlines ax) ''D9D9D9'' (3 / 4) @
               ''</c:majorGridlines>''
          else []) @
         (if \<not> cat \<and> gridTruthy (axis_minorGridlines ax)
          then ''<c:minorGridlines>'' @ gridlineSpPr (axis_minorGridlines ax) ''E5E5E5'' (1 / 2) @
               ''</c:minorGridlines>''
          else []) @
         (if axis_title_text ax \<noteq> []
          then ''<c:title>'' @
               ''<c:tx><c:rich>'' @
               ''<a:bodyPr/><a:lstStyle/>'' @
               ''<a:p><a:pPr><a:defRPr/></a:pPr>'' @
               ''<a:r><a:rPr lang="en-US"/><a:t>'' @ escapeXml (axis_title_text ax) @ ''</a:t></a:r>'' @
               ''</a:p></c:rich></c:tx>'' @
               ''<c:layout/><c:overlay val="0"/>'' @
               ''</c:title>''
          else []) @
         ''<c:numFmt formatCode="'' @ concat (map escapeFmtCode_char numFmtCode) @
           ''" sourceLinked="'' @ sourceLinked @ ''"/>'' @
         ''<c:majorTickMark val="out"/>'' @
         ''<c:minorTickMark val="'' @ minorTickMark @ ''"/>'' @
         ''<c:tickLblPos val="nextTo"/>'' @
         ''<c:txPr>'' @
         ''<a:bodyPr/>'' @
         ''<a:lstStyle/>'' @
         ''<a:p>'' @
         ''<a:pPr><a:defRPr sz="'' @ numberToString ns (tickLblFontSize * 100) @ ''"/></a:pPr>'' @
         ''<a:endParaRPr lang="en-US"/>'' @
         ''</a:p>'' @
         ''</c:txPr>'' @
         ''<c:crossAx val="'' @ natToString crossAxisId @ ''"/>'' @
         ''<c:crosses val="autoZero"/>'' @
         (if cat
          then ''<c:auto val="1"/>'' @ ''<c:lblAlgn val="ctr"/>'' @ ''<c:lblOffset val="100"/>'' @ ''</c:catAx>''
          else ''<c:crossBetween val="midCat"/>'' @ ''</c:valAx>''))\<close>

subsection \<open>The chart part\<close>

text \<open>
  \<open>_generateChartXML\<close>. Its statements before the chart-type element and after the axes
  are the two definitions \<open>chartPrologXML\<close> and \<open>chartEpilogXML\<close>; \<open>chartTypeOf\<close> is
  \<open>chart.type || 'scatter'\<close>.
\<close>

definition chartTypeOf :: "chart \<Rightarrow> string" where
  "chartTypeOf ch = (case chart_type ch of Some t \<Rightarrow> if t \<noteq> [] then t else ''scatter'' | None \<Rightarrow> ''scatter'')"

definition chartPrologXML :: "chart \<Rightarrow> string" where
  \<open>chartPrologXML ch =
     ''<?xml version="1.0" encoding="UTF-8" standalone="yes"?>'' @ [CHR 0x0A] @
     ''<c:chartSpace xmlns:c="http://schemas.openxmlformats.org/drawingml/2006/chart" xmlns:a="http://schemas.openxmlformats.org/drawingml/2006/main" xmlns:r="http://schemas.openxmlformats.org/officeDocument/2006/relationships">'' @
     ''<c:date1904 val="0"/>'' @
     ''<c:lang val="en-US"/>'' @
     ''<c:roundedCorners val="0"/>'' @
     ''<c:chart>'' @
     (if chart_title_text ch \<noteq> []
      then ''<c:title>'' @
           ''<c:tx><c:rich>'' @
           ''<a:bodyPr/><a:lstStyle/>'' @
           ''<a:p><a:pPr><a:defRPr/></a:pPr>'' @
           ''<a:r><a:rPr lang="en-US"/><a:t>'' @ escapeXml (chart_title_text ch) @ ''</a:t></a:r>'' @
           ''</a:p></c:rich></c:tx>'' @
           ''<c:layout/><c:overlay val="0"/>'' @
           ''</c:title>'' @
           ''<c:autoTitleDeleted val="0"/>''
      else ''<c:autoTitleDeleted val="1"/>'') @
     ''<c:plotArea>'' @
     ''<c:layout/>''\<close>

definition chartEpilogXML :: "(rat \<Rightarrow> string) \<Rightarrow> chart \<Rightarrow> string" where
  \<open>chartEpilogXML ns ch =
     (let legendPos = (case chart_legend_position ch of Some p \<Rightarrow> if p \<noteq> [] then p else ''r''
                       | None \<Rightarrow> ''r'');
          bgColor = (case chart_backgroundColor ch of Some c \<Rightarrow> if c \<noteq> [] then c else ''FFFFFF''
                     | None \<Rightarrow> ''FFFFFF'')
      in ''</c:plotArea>'' @
         (if legendPos \<noteq> ''none''
          then ''<c:legend>'' @
               ''<c:legendPos val="'' @ legendPos @ ''"/>'' @
               ''<c:layout/>'' @
               ''<c:overlay val="0"/>'' @
               ''<c:txPr>'' @
               ''<a:bodyPr/>'' @
               ''<a:lstStyle/>'' @
               ''<a:p>'' @
               ''<a:pPr><a:defRPr sz="'' @
                 numberToString ns (orDefault (chart_legend_fontSize ch) 10 * 100) @ ''"/></a:pPr>'' @
               ''<a:endParaRPr lang="en-US"/>'' @
               ''</a:p>'' @
               ''</c:txPr>'' @
               ''</c:legend>''
          else []) @
         ''<c:plotVisOnly val="1"/>'' @
         ''<c:dispBlanksAs val="gap"/>'' @
         ''<c:showDLblsOverMax val="0"/>'' @
         ''</c:chart>'' @
         ''<c:spPr>'' @
         ''<a:solidFill><a:srgbClr val="'' @ bgColor @ ''"/></a:solidFill>'' @
         (if chart_showBorder ch = Some False then ''<a:ln><a:noFill/></a:ln>'' else []) @
         ''</c:spPr>'' @
         ''<c:printSettings><c:headerFooter/><c:pageMargins b="0.75" l="0.7" r="0.7" t="0.75" header="0.3" footer="0.3"/><c:pageSetup/></c:printSettings>'' @
         ''</c:chartSpace>'')\<close>

text \<open>The secondary axes, when \<open>chart.y2Axis\<close> exists and is visible.\<close>

definition secondaryAxesXML :: "(rat \<Rightarrow> string) \<Rightarrow> chart \<Rightarrow> string" where
  "secondaryAxesXML ns ch =
     (case chart_y2Axis ch of
        None \<Rightarrow> []
      | Some y2 \<Rightarrow>
          if axis_visible y2
          then generateAxisXML ns (chart_x2Axis ch) ''t'' (axis_id y2) (chartTypeOf ch) @
               generateAxisXML ns y2 ''r'' (axis_id (chart_x2Axis ch)) (chartTypeOf ch)
          else [])"

definition generateChartXML ::
  "(rat \<Rightarrow> string) \<Rightarrow> (string \<Rightarrow> bool) \<Rightarrow> chart \<Rightarrow> string \<Rightarrow> dataInfo option \<Rightarrow> string" where
  "generateChartXML ns nanText ch sheetName dio =
     chartPrologXML ch @
     generateChartTypeXML ns nanText ch (chartTypeOf ch) sheetName dio @
     generateAxisXML ns (chart_xAxis ch) ''b'' (axis_id (chart_yAxis ch)) (chartTypeOf ch) @
     generateAxisXML ns (chart_yAxis ch) ''l'' (axis_id (chart_xAxis ch)) (chartTypeOf ch) @
     secondaryAxesXML ns ch @
     chartEpilogXML ns ch"

section \<open>Facts about the text of numbers and column letters\<close>

lemma xlColumn_loop_acc: "xlColumn_loop n acc = xlColumn_loop n [] @ acc"
proof (induction n arbitrary: acc rule: less_induct)
  case (less n)
  show ?case
  proof (cases "n > 0")
    case True
    let ?m = "(n - 1) div 26"
    let ?c = "char_of (65 + (n - 1) mod 26) :: char"
    have lt: "?m < n" using True by (simp add: less_eq_div_iff_mult_less_eq) 
    have "xlColumn_loop n acc = xlColumn_loop ?m (?c # acc)"
      using True by (subst xlColumn_loop.simps) simp
    also have "\<dots> = xlColumn_loop ?m [] @ (?c # acc)"
      using less.IH [OF lt] .
    also have "\<dots> = (xlColumn_loop ?m [] @ [?c]) @ acc"
      by simp
    also have "xlColumn_loop ?m [] @ [?c] = xlColumn_loop ?m [?c]"
      using less.IH [OF lt, of "[?c]"] by simp
    also have "xlColumn_loop ?m [?c] = xlColumn_loop n []"
      using True by (subst (2) xlColumn_loop.simps) simp
    finally show ?thesis .
  next
    case False
    then show ?thesis by (simp add: xlColumn_loop.simps)
  qed
qed

lemma xlColumn_loop_step:
  "n > 0 \<Longrightarrow> xlColumn_loop n [] = xlColumn_loop ((n - 1) div 26) [] @ [char_of (65 + (n - 1) mod 26)]"
  by (subst xlColumn_loop.simps, subst xlColumn_loop_acc) simp

lemma xlColumn_loop_0: "xlColumn_loop 0 acc = acc"
  by (simp add: xlColumn_loop.simps)

lemma xlColumn_loop_upper: "list_all isUpper (xlColumn_loop n [])"
proof (induction n rule: less_induct)
  case (less n)
  show ?case
  proof (cases "n > 0")
    case True
    let ?m = "(n - 1) div 26"
    have lt: "?m < n" using True by (simp add: less_eq_div_iff_mult_less_eq)
    have k: "(n - 1) mod 26 < 26" by simp
    have "isUpper (char_of (65 + (n - 1) mod 26))"
      using k by (simp add: isUpper_def)
    then show ?thesis
      using less.IH [OF lt] by (simp add: xlColumn_loop_step [OF True])
  next
    case False
    then show ?thesis by (simp add: xlColumn_loop_0)
  qed
qed

lemma xlColumn_loop_nonempty: "n > 0 \<Longrightarrow> xlColumn_loop n [] \<noteq> []"
  by (simp add: xlColumn_loop_step)





section \<open>The column codec round-trips\<close>

lemma letters2column_snoc:
  "letters2column (xs @ [c]) = letters2column xs * 26 + ((of_char c :: nat) - 64)"
  by (simp add: letters2column_def)

lemma letters2column_xlColumn: "letters2column (xlColumn_loop n []) = n"
proof (induction n rule: less_induct)
  case (less n)
  show ?case
  proof (cases "n > 0")
    case True
    let ?m = "(n - 1) div 26"
    have lt: "?m < n" using True by (simp add: less_eq_div_iff_mult_less_eq)
    have k: "(n - 1) mod 26 < 26" by simp
    have "letters2column (xlColumn_loop n []) = ?m * 26 + (((65 + (n - 1) mod 26) mod 256) - 64)"
      using less.IH [OF lt] by (simp add: xlColumn_loop_step [OF True] letters2column_snoc)
    also have "\<dots> = ?m * 26 + ((n - 1) mod 26 + 1)"
      using k by simp
    also have "\<dots> = n" using True by simp
    finally show ?thesis .
  next
    case False
    then show ?thesis by (simp add: xlColumn_loop_0 letters2column_def)
  qed
qed

lemma isUpper_isLetter: "isUpper c \<Longrightarrow> isLetter c"
  by (simp add: isUpper_def isLetter_def)

lemma toUpperCase_upper: "list_all isUpper xs \<Longrightarrow> toUpperCase xs = xs"
  by (induction xs) (auto simp: toUpperCase_def toUpperCase_char_def isUpper_def)

lemma match_cellref_letters_1:
  assumes "list_all isUpper xs" and "xs \<noteq> []"
  shows "match_cellref (xs @ ''1'') = Some (xs, ''1'')"
proof -
  have all: "\<forall>x\<in>set xs. isLetter x"
    using assms(1) by (auto simp: list_all_iff isUpper_isLetter)
  have not1: "\<not> isLetter CHR ''1''" by (simp add: isLetter_def)
  have tw: "takeWhile isLetter (xs @ ''1'') = xs"
    using all not1 by (simp add: takeWhile_append2)
  have dw: "dropWhile isLetter (xs @ ''1'') = ''1''"
    using all not1 by (simp add: dropWhile_append2)
  show ?thesis
    unfolding match_cellref_def tw dw using assms(2) by (simp add: isDigit_def)
qed

lemma xlColumn_cached: "cache_ok cache \<Longrightarrow> fst (xlColumn cache n) = xlColumn_loop n []"
  by (auto simp: xlColumn_def cache_ok_def Let_def split: option.splits)

lemma xlColumn_cache_ok: "cache_ok cache \<Longrightarrow> cache_ok (snd (xlColumn cache n))"
  by (auto simp: xlColumn_def cache_ok_def Let_def split: option.splits)

text \<open>
  Claim C1. For every column number \<open>n\<close> from 1 to 16384, and whatever the column cache
  holds after earlier calls, parsing the letters \<open>xlColumn\<close> returns for \<open>n\<close> followed
  by the row digit 1 gives row 1 and column \<open>n\<close> again; the cache stays consistent.
\<close>

theorem xlColumn_roundtrip:
  assumes "cache_ok cache" and "1 \<le> n" and "n \<le> 16384"
  shows "xlCell2Ind (RefString (fst (xlColumn cache n) @ ''1'')) = \<lparr>row = 1, column = n\<rparr>
         \<and> cache_ok (snd (xlColumn cache n))"
proof -
  let ?enc = "xlColumn_loop n []"
  have pos: "n > 0" using assms(2) by simp
  have m: "match_cellref (?enc @ ''1'') = Some (?enc, ''1'')"
    by (rule match_cellref_letters_1 [OF xlColumn_loop_upper xlColumn_loop_nonempty [OF pos]])
  have up: "toUpperCase ?enc = ?enc"
    by (rule toUpperCase_upper [OF xlColumn_loop_upper])
  have r: "parseInt10 ''1'' = 1" by (simp add: parseInt10_def)
  show ?thesis
    using assms(1) m up r
    by (simp add: xlColumn_cached xlColumn_cache_ok letters2column_xlColumn)
qed

theorem xlColumn_roundtrip_witness:
  "xlCell2Ind (RefString (fst (xlColumn Map.empty 703) @ ''1'')) = \<lparr>row = 1, column = 703\<rparr>
   \<and> fst (xlColumn Map.empty 703) = ''AAA''"
proof -
  have c: "cache_ok Map.empty" by (simp add: cache_ok_def)
  have e: "fst (xlColumn Map.empty 703) = ''AAA''"
    by code_simp
  show ?thesis using xlColumn_roundtrip [OF c, of 703] e by simp
qed

section \<open>deepMerge skips the guarded keys\<close>

lemma deepMerge_loop_object:
  "\<not> forbiddenKey key \<Longrightarrow>
   deepMerge_loop result ((key, JObj es) # rest) =
     deepMerge_loop
       (setProp result key
          (deepMerge (if truthy (getProp result key) then getProp result key else JObj []) (JObj es)))
       rest"
  by (simp add: deepMerge_def)

lemma deepMerge_loop_strip:
  "deepMerge_loop result (stripForbidden_entries es) = deepMerge_loop result es"
proof (induction result es rule: deepMerge_loop.induct)
  case (1 result)
  show ?case by simp
next
  case (2 result key v rest)
  show ?case
  proof (cases "forbiddenKey key")
    case True
    with 2 show ?thesis by simp
  next
    case False
    show ?thesis
    proof (cases v)
      case (JObj es')
      with False 2 show ?thesis by simp
    qed (use False 2 in simp_all)
  qed
qed

lemma ownEntries_strip:
  "ownEntries (stripForbidden s) = (case s of JObj es \<Rightarrow> stripForbidden_entries es | _ \<Rightarrow> ownEntries s)"
  by (cases s) simp_all

lemma deepMerge_strip: "deepMerge target (stripForbidden source) = deepMerge target source"
  by (cases source) (simp_all add: deepMerge_def deepMerge_loop_strip)

lemma keys_setProp: "fst ` set (setProp es key v) = insert key (fst ` set es)"
  by (induction es key v rule: setProp.induct) auto

lemma deepMerge_loop_keys:
  "fst ` set (deepMerge_loop result es) \<subseteq> fst ` set result \<union> {k \<in> fst ` set es. \<not> forbiddenKey k}"
proof (induction result es rule: deepMerge_loop.induct)
  case (1 result)
  show ?case by simp
next
  case (2 result key v rest)
  let ?K = "fst ` set result \<union> {k \<in> fst ` set ((key, v) # rest). \<not> forbiddenKey k}"
  show ?case
  proof (cases "forbiddenKey key")
    case True
    have "deepMerge_loop result ((key, v) # rest) = deepMerge_loop result rest"
      using True by simp
    moreover have "fst ` set (deepMerge_loop result rest)
                     \<subseteq> fst ` set result \<union> {k \<in> fst ` set rest. \<not> forbiddenKey k}"
      using 2 True by simp
    moreover have "fst ` set result \<union> {k \<in> fst ` set rest. \<not> forbiddenKey k} \<subseteq> ?K"
      by auto
    ultimately show ?thesis by (simp only: order_trans)
  next
    case False
    have grow: "insert key (fst ` set result) \<union> {k \<in> fst ` set rest. \<not> forbiddenKey k} \<subseteq> ?K"
      using False by auto
    obtain r where step: "deepMerge_loop result ((key, v) # rest) = deepMerge_loop r rest"
      and keys: "fst ` set r = insert key (fst ` set result)"
      and ih: "fst ` set (deepMerge_loop r rest)
                 \<subseteq> fst ` set r \<union> {k \<in> fst ` set rest. \<not> forbiddenKey k}"
    proof (cases v)
      case (JObj es')
      let ?t = "if truthy (getProp result key) then getProp result key else JObj []"
      let ?r = "setProp result key (JObj (deepMerge_loop (ownEntries ?t) es'))"
      have "deepMerge_loop result ((key, v) # rest) = deepMerge_loop ?r rest"
        using False JObj by simp
      moreover have "fst ` set ?r = insert key (fst ` set result)"
        by (rule keys_setProp)
      moreover have "fst ` set (deepMerge_loop ?r rest)
                       \<subseteq> fst ` set ?r \<union> {k \<in> fst ` set rest. \<not> forbiddenKey k}"
        using 2 False JObj by simp
      ultimately show ?thesis using that by blast
    qed (use False 2 that [of "setProp result key v"] in \<open>simp_all add: keys_setProp\<close>)
    show ?thesis
      unfolding step using ih grow unfolding keys by (rule order_trans)
  qed
qed

text \<open>
  Claim C10. Two sources that differ only in entries under \<open>__proto__\<close>,
  \<open>constructor\<close> or \<open>prototype\<close> (in the source object or in the plain objects nested
  in it) are merged into the same result, with or without the error check of the
  outermost call; and a key of that kind in the result was already an own key of the
  target, so none is ever copied from the source.
\<close>

theorem deepMerge_ignores_forbidden_keys:
  assumes "stripForbidden source1 = stripForbidden source2"
  shows "deepMerge target source1 = deepMerge target source2
         \<and> deepMerge_checked target source1 = deepMerge_checked target source2
         \<and> (\<forall>key. forbiddenKey key \<and> key \<in> fst ` set (ownEntries (deepMerge target source1))
                \<longrightarrow> key \<in> fst ` set (ownEntries target))"
proof -
  have eq: "deepMerge target source1 = deepMerge target source2"
    using deepMerge_strip [of target source1] deepMerge_strip [of target source2] assms by simp
  have nul: "(source1 = JNull \<or> source1 = JUndef) = (source2 = JNull \<or> source2 = JUndef)"
    using assms by (cases source1; cases source2) simp_all
  have keys: "\<forall>key. forbiddenKey key \<and> key \<in> fst ` set (ownEntries (deepMerge target source1))
                \<longrightarrow> key \<in> fst ` set (ownEntries target)"
    using deepMerge_loop_keys [of "ownEntries target" "ownEntries source1"]
    by (auto simp: deepMerge_def)
  show ?thesis using eq nul keys by (simp add: deepMerge_checked_def)
qed

theorem deepMerge_ignores_forbidden_keys_witness:
  "stripForbidden (JObj [(''__proto__'', JObj [(''polluted'', JBool True)]),
                         (''line'', JObj [(''constructor'', JNull), (''width'', JNum (Fin 2))])])
     = stripForbidden (JObj [(''line'', JObj [(''width'', JNum (Fin 2))])])
   \<and> deepMerge (JObj [(''line'', JObj [(''width'', JNum (Fin 1)), (''cap'', JStr ''rnd'')])])
         (JObj [(''__proto__'', JObj [(''polluted'', JBool True)]),
                (''line'', JObj [(''constructor'', JNull), (''width'', JNum (Fin 2))])])
     = deepMerge (JObj [(''line'', JObj [(''width'', JNum (Fin 1)), (''cap'', JStr ''rnd'')])])
         (JObj [(''line'', JObj [(''width'', JNum (Fin 2))])])"
proof -
  have h: "stripForbidden (JObj [(''__proto__'', JObj [(''polluted'', JBool True)]),
                         (''line'', JObj [(''constructor'', JNull), (''width'', JNum (Fin 2))])])
     = stripForbidden (JObj [(''line'', JObj [(''width'', JNum (Fin 2))])])"
    by (simp add: forbiddenKey_def)
  show ?thesis
    using h deepMerge_ignores_forbidden_keys [OF h] by simp
qed

section \<open>Sheet names\<close>

lemma sheetsInvD1:
  "sheetsInv w \<Longrightarrow> sheetMap w n = Some i \<Longrightarrow> i < length (sheets w) \<and> sheet_name (sheets w ! i) = n"
  unfolding sheetsInv_def by blast

lemma sheetsInvD2:
  "sheetsInv w \<Longrightarrow> i < length (sheets w) \<Longrightarrow> sheetMap w (sheet_name (sheets w ! i)) = Some i"
  unfolding sheetsInv_def by blast

lemma sheetsInvI:
  "(\<And>n i. sheetMap w n = Some i \<Longrightarrow> i < length (sheets w) \<and> sheet_name (sheets w ! i) = n) \<Longrightarrow>
   (\<And>i. i < length (sheets w) \<Longrightarrow> sheetMap w (sheet_name (sheets w ! i)) = Some i) \<Longrightarrow>
   sheetsInv w"
  unfolding sheetsInv_def by blast

lemma sheetsInv_cong:
  "sheetsInv w \<Longrightarrow> sheets w' = sheets w \<Longrightarrow> sheetMap w' = sheetMap w \<Longrightarrow> sheetsInv w'"
  unfolding sheetsInv_def by simp

lemma sheetsInv_distinct: "sheetsInv w \<Longrightarrow> distinct (map sheet_name (sheets w))"
proof -
  assume inv: "sheetsInv w"
  have h: "\<And>i j. i < length (sheets w) \<Longrightarrow> j < length (sheets w) \<Longrightarrow> i \<noteq> j \<Longrightarrow>
          sheet_name (sheets w ! i) \<noteq> sheet_name (sheets w ! j)"
  proof
    fix i j
    assume a: "i < length (sheets w)" "j < length (sheets w)" "i \<noteq> j"
       "sheet_name (sheets w ! i) = sheet_name (sheets w ! j)"
    have "Some i = Some j"
      using sheetsInvD2 [OF inv a(1)] sheetsInvD2 [OF inv a(2)] a(4) by metis
    then show False using a(3) by simp
  qed
  show ?thesis
    unfolding distinct_conv_nth using h by simp
qed

lemma sheetsInv_update:
  assumes "sheetsInv w" and "i < length (sheets w)" and "sheet_name s' = sheet_name (sheets w ! i)"
  shows "sheetsInv (w\<lparr>sheets := (sheets w)[i := s']\<rparr>)"
proof (rule sheetsInvI)
  fix n j
  assume "sheetMap (w\<lparr>sheets := (sheets w)[i := s']\<rparr>) n = Some j"
  then have "j < length (sheets w) \<and> sheet_name (sheets w ! j) = n"
    using sheetsInvD1 [OF assms(1)] by simp
  then show "j < length (sheets (w\<lparr>sheets := (sheets w)[i := s']\<rparr>)) \<and>
             sheet_name (sheets (w\<lparr>sheets := (sheets w)[i := s']\<rparr>) ! j) = n"
    using assms(3) by (cases "j = i") simp_all
next
  fix j
  assume "j < length (sheets (w\<lparr>sheets := (sheets w)[i := s']\<rparr>))"
  then have j: "j < length (sheets w)" by simp
  show "sheetMap (w\<lparr>sheets := (sheets w)[i := s']\<rparr>)
          (sheet_name (sheets (w\<lparr>sheets := (sheets w)[i := s']\<rparr>) ! j)) = Some j"
    using sheetsInvD2 [OF assms(1) j] assms(3) j by (cases "j = i") simp_all
qed

lemma sheetsInv_getOrCreateSheet:
  assumes "sheetsInv w" and "getOrCreateSheet w sh = ((si, sn), w1)"
  shows "sheetsInv w1 \<and> si < length (sheets w1)"
proof (cases "sheetMap w (sheetNameOf sh)")
  case (Some i)
  then have "w1 = w" "si = i" using assms(2) by (simp_all add: getOrCreateSheet_def)
  then show ?thesis using assms(1) sheetsInvD1 [OF assms(1) Some] by simp
next
  case None
  let ?new = "\<lparr>sheet_name = sheetNameOf sh, sheet_data = [], startRow = 1, startCol = 1,
                         sheet_chart = None\<rparr>"
  have w1: "w1 = w\<lparr>sheets := sheets w @ [?new],
                    sheetMap := (sheetMap w)(sheetNameOf sh \<mapsto> length (sheets w))\<rparr>"
    and si: "si = length (sheets w)"
    using assms(2) None by (auto simp: getOrCreateSheet_def Let_def)
  have fresh: "\<And>i. i < length (sheets w) \<Longrightarrow> sheet_name (sheets w ! i) \<noteq> sheetNameOf sh"
    using sheetsInvD2 [OF assms(1)] None by force
  have "sheetsInv w1"
  proof (rule sheetsInvI)
    fix n i
    assume m: "sheetMap w1 n = Some i"
    show "i < length (sheets w1) \<and> sheet_name (sheets w1 ! i) = n"
    proof (cases "n = sheetNameOf sh")
      case True
      then have "i = length (sheets w)" using m w1 by simp
      then show ?thesis using True w1 by simp
    next
      case False
      then have "sheetMap w n = Some i" using m w1 by simp
      then have "i < length (sheets w) \<and> sheet_name (sheets w ! i) = n"
        by (rule sheetsInvD1 [OF assms(1)])
      then show ?thesis using w1 by (simp add: nth_append)
    qed
  next
    fix i
    assume "i < length (sheets w1)"
    then have "i < length (sheets w) \<or> i = length (sheets w)" using w1 by auto
    then show "sheetMap w1 (sheet_name (sheets w1 ! i)) = Some i"
    proof
      assume i: "i < length (sheets w)"
      then show ?thesis
        using sheetsInvD2 [OF assms(1) i] fresh [OF i] w1 by (simp add: nth_append)
    next
      assume "i = length (sheets w)"
      then show ?thesis using w1 by simp
    qed
  qed
  then show ?thesis using w1 si by simp
qed

lemma sheets_processCell:
  "sheets (snd (processCell w v f)) = sheets w \<and> sheetMap (snd (processCell w v f)) = sheetMap w"
  by (induction w v f rule: processCell.induct) (simp_all add: Let_def split: option.splits)

lemma sheetsInv_processCell:
  "sheetsInv w \<Longrightarrow> sheetsInv (snd (processCell w v f))"
  using sheets_processCell [of w v f] sheetsInv_cong by blast

lemma sheetsInv_write_cell: "sheetsInv w \<Longrightarrow> sheetsInv (write_cell w r c v f sh)"
proof -
  assume inv: "sheetsInv w"
  obtain si sn w1 where g: "getOrCreateSheet w sh = ((si, sn), w1)"
    by (metis prod.exhaust)
  obtain cd w2 where p: "processCell w1 v f = (cd, w2)"
    by (metis prod.exhaust)
  have i1: "sheetsInv w1" "si < length (sheets w1)"
    using sheetsInv_getOrCreateSheet [OF inv g] by simp_all
  have i2: "sheetsInv w2" "si < length (sheets w2)"
    using sheetsInv_processCell [OF i1(1), of v f] sheets_processCell [of w1 v f] p i1(2) by simp_all
  show ?thesis
    using sheetsInv_update [OF i2] by (simp add: write_cell_def g p Let_def)
qed

lemma sheetsInv_writeRow_loop: "sheetsInv w \<Longrightarrow> sheetsInv (writeRow_loop w r c xs f sh)"
  by (induction w r c xs f sh rule: writeRow_loop.induct) (simp_all add: sheetsInv_write_cell)

lemma sheetsInv_writeColumn_loop: "sheetsInv w \<Longrightarrow> sheetsInv (writeColumn_loop w r c xs f sh)"
  by (induction w r c xs f sh rule: writeColumn_loop.induct) (simp_all add: sheetsInv_write_cell)

lemma sheetsInv_setColumn: "sheetsInv w \<Longrightarrow> sheetsInv (setColumn w a b c d e sh)"
proof -
  assume inv: "sheetsInv w"
  obtain si sn w1 where g: "getOrCreateSheet w sh = ((si, sn), w1)"
    by (metis prod.exhaust)
  have "sheetsInv w1" using sheetsInv_getOrCreateSheet [OF inv g] by simp
  then show ?thesis
    by (auto simp: setColumn_def g Let_def split: prod.splits elim: sheetsInv_cong)
qed

lemma sheetsInv_setRow: "sheetsInv w \<Longrightarrow> sheetsInv (setRow w a b c d sh)"
proof -
  assume inv: "sheetsInv w"
  obtain si sn w1 where g: "getOrCreateSheet w sh = ((si, sn), w1)"
    by (metis prod.exhaust)
  have "sheetsInv w1" using sheetsInv_getOrCreateSheet [OF inv g] by simp
  then show ?thesis
    by (auto simp: setRow_def g Let_def elim: sheetsInv_cong)
qed

lemma sheetsInv_mergeRange: "sheetsInv w \<Longrightarrow> sheetsInv (mergeRange w a b c d dat f sh)"
proof -
  assume inv: "sheetsInv w"
  obtain si sn w1 where g: "getOrCreateSheet w sh = ((si, sn), w1)"
    by (metis prod.exhaust)
  have "sheetsInv w1" using sheetsInv_getOrCreateSheet [OF inv g] by simp
  then have "sheetsInv (w1\<lparr>mergeCells := m\<rparr>)" for m
    by (auto elim: sheetsInv_cong)
  then show ?thesis
    by (simp add: mergeRange_def g Let_def sheetsInv_write_cell)
qed

lemma sheetsInv_insertChart: "sheetsInv w \<Longrightarrow> sheetsInv (insertChart w a b ch d e sh)"
proof -
  assume inv: "sheetsInv w"
  obtain si sn w1 where g: "getOrCreateSheet w sh = ((si, sn), w1)"
    by (metis prod.exhaust)
  have i1: "sheetsInv w1" "si < length (sheets w1)"
    using sheetsInv_getOrCreateSheet [OF inv g] by simp_all
  show ?thesis
    using sheetsInv_update [OF i1] by (simp add: insertChart_def g Let_def)
qed

lemma sheetsInv_perform:
  "sheetsInv w \<Longrightarrow> \<not> isWriteData c \<Longrightarrow> perform w c = Inr w' \<Longrightarrow> sheetsInv w'"
  by (cases c)
     (auto simp: sheetsInv_write_cell writeRow_def writeColumn_def sheetsInv_writeRow_loop
        sheetsInv_writeColumn_loop sheetsInv_setColumn sheetsInv_setRow sheetsInv_mergeRange
        sheetsInv_insertChart)

lemma sheets_addFormat:
  "sheets (snd (addFormat w p)) = sheets w \<and> sheetMap (snd (addFormat w p)) = sheetMap w"
  by (simp add: addFormat_def Let_def split: option.splits)

lemma sheetsInv_newWriter: "sheetsInv (newWriter f)"
proof -
  have "sheets (newWriter f) = [] \<and> sheetMap (newWriter f) = Map.empty"
    unfolding newWriter_def using sheets_addFormat by simp
  then show ?thesis unfolding sheetsInv_def by simp
qed

lemma sheet_names_unique_without_writeData:
  "sheetsInv w \<Longrightarrow> \<forall>c \<in> set cs. \<not> isWriteData c \<Longrightarrow> performAll w cs = Inr w' \<Longrightarrow>
   distinct (map sheet_name (sheets w'))"
proof (induction cs arbitrary: w)
  case Nil
  then show ?case using sheetsInv_distinct by simp
next
  case (Cons c cs)
  then obtain w1 where p: "perform w c = Inr w1" and r: "performAll w1 cs = Inr w'"
    by (auto split: sum.splits)
  have "sheetsInv w1" using sheetsInv_perform [OF Cons.prems(1) _ p] Cons.prems(2) by simp
  then show ?case using Cons.IH [OF _ _ r] Cons.prems(2) by simp
qed

text \<open>
  Claim C3. Sheet names are meant to be unique, and they are as long as \<open>writeData\<close> is
  not called (lemma \<open>sheet_names_unique_without_writeData\<close>). \<open>writeData\<close> pushes a new
  sheet without recording it in \<open>sheetMap\<close>, so a later \<open>write\<close> to the same name does
  not find it and pushes a second sheet of that name: after
  \<open>writeData([[1]], 'Sheet1')\<close> and \<open>write(0, 0, 5)\<close> the sheet list holds two sheets
  named \<open>Sheet1\<close>.
\<close>

theorem sheet_names_not_unique_after_writeData:
  "(case performAll (newWriter ''out.xlsx'')
          [WriteData [[JNum (Fin 1)]] (SheetName ''Sheet1'')
             \<lparr>opt_xlPos = None, opt_header = None, opt_chart = None\<rparr>,
           Write 0 0 (JNum (Fin 5)) None (SheetName ''Sheet1'')] of
      Inl e \<Rightarrow> False
    | Inr w \<Rightarrow> map sheet_name (sheets w) = [''Sheet1'', ''Sheet1''])"
  by code_simp

section \<open>Shared strings\<close>

lemma ssState_getOrCreateSheet: "ssState (snd (getOrCreateSheet w sh)) = ssState w"
  by (simp add: getOrCreateSheet_def ssState_def Let_def split: option.splits)

lemma ssState_processCell: "ssState (snd (processCell w v f)) = internStep (ssState w) v"
  by (induction w v f rule: processCell.induct)
     (simp_all add: ssState_def Let_def split: option.splits)

lemma ssState_write_cell: "ssState (write_cell w r c v f sh) = internStep (ssState w) v"
proof -
  obtain si sn w1 where g: "getOrCreateSheet w sh = ((si, sn), w1)"
    by (metis prod.exhaust)
  obtain cd w2 where p: "processCell w1 v f = (cd, w2)"
    by (metis prod.exhaust)
  have "ssState w2 = internStep (ssState w) v"
    using ssState_processCell [of w1 v f] ssState_getOrCreateSheet [of w sh] g p by simp
  then show ?thesis
    by (simp add: write_cell_def g p ssState_def Let_def)
qed

lemma ssState_writeRow_loop:
  "ssState (writeRow_loop w r c xs f sh) = foldl internStep (ssState w) xs"
  by (induction w r c xs f sh rule: writeRow_loop.induct) (simp_all add: ssState_write_cell)

lemma ssState_writeColumn_loop:
  "ssState (writeColumn_loop w r c xs f sh) = foldl internStep (ssState w) xs"
  by (induction w r c xs f sh rule: writeColumn_loop.induct) (simp_all add: ssState_write_cell)

lemma ssState_writeData_cells:
  "ssState (fst (writeData_cells w cells ci xs)) = foldl internStep (ssState w) xs"
proof (induction w cells ci xs rule: writeData_cells.induct)
  case (1 w rowCells colIdx)
  show ?case by simp
next
  case (2 w rowCells colIdx x xs)
  obtain cd w1 where p: "processCell w x None = (cd, w1)"
    by (metis prod.exhaust)
  have s: "ssState w1 = internStep (ssState w) x"
    using ssState_processCell [of w x None] p by simp
  show ?case
    using 2 [OF p [symmetric]] p s by (simp split: if_splits)
qed

lemma ssState_writeData_rows:
  "writeData_rows w d ri ci rows = Inr (w', d') \<Longrightarrow>
   ssState w' = foldl internStep (ssState w) (concat rows)"
proof (induction w d ri ci rows arbitrary: w' d' rule: writeData_rows.induct)
  case (1 w d rowIdx colIdx0)
  then show ?case by simp
next
  case (2 w d rowIdx colIdx0 r rs)
  show ?case
  proof (cases "rowIdx < 0")
    case True
    with 2 show ?thesis by (simp split: if_splits)
  next
    case False
    obtain w1 rc where c: "writeData_cells w (growRows d (nat rowIdx) ! nat rowIdx) colIdx0 r = (w1, rc)"
      by (metis prod.exhaust)
    have s: "ssState w1 = foldl internStep (ssState w) r"
      using ssState_writeData_cells [of w "growRows d (nat rowIdx) ! nat rowIdx" colIdx0 r] c by simp
    show ?thesis
      using 2(2) [OF False refl c [symmetric]] 2(3) False c s by (simp add: Let_def)
  qed
qed


lemma ssState_writeData:
  assumes "writeData w dat sh options = Inr w'"
  shows "ssState w' = foldl internStep (ssState w) (valuesWritten (WriteData dat sh options))"
proof -
  let ?pos = "xlCell2Ind (xlPosOrA1 (opt_xlPos options))"
  let ?full = "(case opt_header options of Some h \<Rightarrow> h # dat | None \<Rightarrow> dat)"
  obtain ei w1 where e: "(case findIndex (sheets w) (sheetNameOf sh) of
                Some i \<Rightarrow> (i, w)
              | None \<Rightarrow>
                  (length (sheets w),
                   w\<lparr>sheets := sheets w @
                        [\<lparr>sheet_name = sheetNameOf sh, sheet_data = [], startRow = row ?pos,
                          startCol = column ?pos, sheet_chart = opt_chart options\<rparr>]\<rparr>)) = (ei, w1)"
    by (metis prod.exhaust)
  have s1: "ssState w1 = ssState w"
    using e by (auto simp: ssState_def split: option.splits)
  obtain w2 d where r: "writeData_rows w1 (sheet_data (sheets w1 ! ei)) (int (row ?pos) - 1)
                          (int (column ?pos) - 1) ?full = Inr (w2, d)"
    and w': "ssState w' = ssState w2"
    using assms e
    by (auto simp: writeData_def Let_def ssState_def split: sum.splits prod.splits)
  have "ssState w2 = foldl internStep (ssState w1) (concat ?full)"
    by (rule ssState_writeData_rows [OF r])
  then show ?thesis using w' s1 by simp
qed

lemma ssState_setColumn: "ssState (setColumn w a b c d e sh) = ssState w"
proof -
  obtain si sn w1 where g: "getOrCreateSheet w sh = ((si, sn), w1)"
    by (metis prod.exhaust)
  have "ssState w1 = ssState w"
    using ssState_getOrCreateSheet [of w sh] g by simp
  then show ?thesis
    by (simp add: setColumn_def g ssState_def Let_def split: prod.splits)
qed

lemma ssState_setRow: "ssState (setRow w a b c d sh) = ssState w"
proof -
  obtain si sn w1 where g: "getOrCreateSheet w sh = ((si, sn), w1)"
    by (metis prod.exhaust)
  have "ssState w1 = ssState w"
    using ssState_getOrCreateSheet [of w sh] g by simp
  then show ?thesis
    by (simp add: setRow_def g ssState_def Let_def)
qed

lemma ssState_insertChart: "ssState (insertChart w a b c d e sh) = ssState w"
proof -
  obtain si sn w1 where g: "getOrCreateSheet w sh = ((si, sn), w1)"
    by (metis prod.exhaust)
  have "ssState w1 = ssState w"
    using ssState_getOrCreateSheet [of w sh] g by simp
  then show ?thesis
    by (simp add: insertChart_def g ssState_def Let_def)
qed

lemma ssState_mergeRange:
  "ssState (mergeRange w a b c d dat f sh) = foldl internStep (ssState w) (if dat \<noteq> JUndef then [dat] else [])"
proof -
  obtain si sn w1 where g: "getOrCreateSheet w sh = ((si, sn), w1)"
    by (metis prod.exhaust)
  have "ssState w1 = ssState w"
    using ssState_getOrCreateSheet [of w sh] g by simp
  then show ?thesis
    by (simp add: mergeRange_def g ssState_write_cell Let_def) (simp add: ssState_def)
qed

lemma ssState_perform:
  "perform w c = Inr w' \<Longrightarrow> ssState w' = foldl internStep (ssState w) (valuesWritten c)"
proof (cases c)
  case (WriteData dat sh options)
  assume "perform w c = Inr w'"
  then show ?thesis using WriteData ssState_writeData [of w dat sh options w'] by simp
qed (auto simp: ssState_write_cell writeRow_def writeColumn_def ssState_writeRow_loop
       ssState_writeColumn_loop ssState_setColumn ssState_setRow ssState_insertChart
       ssState_mergeRange)

lemma ssState_performAll:
  "performAll w cs = Inr w' \<Longrightarrow>
   ssState w' = foldl internStep (ssState w) (concat (map valuesWritten cs))"
proof (induction cs arbitrary: w)
  case Nil
  then show ?case by simp
next
  case (Cons c cs)
  then obtain w1 where p: "perform w c = Inr w1" and r: "performAll w1 cs = Inr w'"
    by (auto split: sum.splits)
  show ?case
    using Cons.IH [OF r] ssState_perform [OF p] by simp
qed

lemma ssState_addFormat: "ssState (snd (addFormat w p)) = ssState w"
  by (simp add: addFormat_def ssState_def Let_def split: option.splits)

lemma ssState_newWriter: "ssState (newWriter f) = ([], Map.empty)"
  unfolding newWriter_def ssState_addFormat by (simp add: ssState_def)


lemma ssInv_internStep: "ssInv st \<Longrightarrow> ssInv (internStep st v)"
proof (cases st)
  case (Pair xs m)
  assume inv: "ssInv st"
  show ?thesis
  proof (cases v)
    case (JStr s)
    show ?thesis
    proof (cases "s = [] \<or> startsWithEq s \<or> m s \<noteq> None")
      case True
      then show ?thesis using inv Pair JStr by auto
    next
      case False
      then have none: "m s = None" and step: "internStep st v = (xs @ [s], m(s \<mapsto> length xs))"
        using Pair JStr by auto
      have notin: "s \<notin> set xs"
      proof
        assume "s \<in> set xs"
        then obtain i where "i < length xs" "xs ! i = s" by (auto simp: in_set_conv_nth)
        then have "m s = Some i" using inv Pair by (simp add: ssInv_def)
        then show False using none by simp
      qed
      have d: "distinct (xs @ [s])"
        using inv Pair notin by (simp add: ssInv_def)
      have m: "\<forall>t i. ((m(s \<mapsto> length xs)) t = Some i) = (i < length (xs @ [s]) \<and> (xs @ [s]) ! i = t)"
      proof (intro allI)
        fix t i
        show "((m(s \<mapsto> length xs)) t = Some i) = (i < length (xs @ [s]) \<and> (xs @ [s]) ! i = t)"
        proof (cases "t = s")
          case True
          then show ?thesis using notin by (auto simp: nth_append)
        next
          case False
          have "(m t = Some i) = (i < length xs \<and> xs ! i = t)"
            using inv Pair by (simp add: ssInv_def)
          then show ?thesis using False by (auto simp: nth_append)
        qed
      qed
      show ?thesis unfolding step using d m by (simp add: ssInv_def)
    qed
  qed (use inv Pair in simp_all)
qed

lemma set_internStep:
  "ssInv st \<Longrightarrow> set (fst (internStep st v)) = set (fst st) \<union> plainStrings [v]"
proof (cases st)
  case (Pair xs m)
  assume inv: "ssInv st"
  have mem: "\<And>s i. m s = Some i \<Longrightarrow> s \<in> set xs"
    using inv Pair by (auto simp: ssInv_def)
  show ?thesis
    using Pair mem by (cases v) (auto simp: plainStrings_def split: option.splits)
qed

lemma plainStrings_append: "plainStrings (xs @ ys) = plainStrings xs \<union> plainStrings ys"
  by (auto simp: plainStrings_def)

lemma internStep_foldl:
  "ssInv st \<Longrightarrow>
   ssInv (foldl internStep st vs) \<and>
   set (fst (foldl internStep st vs)) = set (fst st) \<union> plainStrings vs"
proof (induction vs arbitrary: st)
  case Nil
  then show ?case by (simp add: plainStrings_def)
next
  case (Cons v vs)
  have i1: "ssInv (internStep st v)" by (rule ssInv_internStep [OF Cons.prems])
  have "plainStrings (v # vs) = plainStrings [v] \<union> plainStrings vs"
    using plainStrings_append [of "[v]" vs] by simp
  then show ?case
    using Cons.IH [OF i1] set_internStep [OF Cons.prems, of v] by auto
qed

lemma ssInv_empty: "ssInv ([], Map.empty)"
  by (simp add: ssInv_def)

lemma processCell_known:
  assumes "ssInv (ssState w)" and "s \<in> set (sharedStrings w)" and "s \<noteq> []" and "\<not> startsWithEq s"
  shows "\<exists>i. i < length (sharedStrings w) \<and> sharedStrings w ! i = s \<and>
             processCell w (JStr s) fmt =
               (\<lparr>cell_value = JNum (Fin (of_nat i)), cell_type = ''s'', cell_format = fmt,
                 isFormula = False\<rparr>, w)"
proof -
  obtain i where i: "i < length (sharedStrings w)" "sharedStrings w ! i = s"
    using assms(2) by (auto simp: in_set_conv_nth)
  then have "sharedStringsMap w s = Some i"
    using assms(1) by (simp add: ssInv_def ssState_def)
  then show ?thesis using i assms(3,4) by auto
qed

lemma processCell_new:
  assumes "ssInv (ssState w)" and "s \<notin> set (sharedStrings w)" and "s \<noteq> []" and "\<not> startsWithEq s"
  shows "processCell w (JStr s) fmt =
           (\<lparr>cell_value = JNum (Fin (of_nat (length (sharedStrings w)))), cell_type = ''s'',
             cell_format = fmt, isFormula = False\<rparr>,
            w\<lparr>sharedStrings := sharedStrings w @ [s],
              sharedStringsMap := (sharedStringsMap w)(s \<mapsto> length (sharedStrings w))\<rparr>)"
proof -
  have "sharedStringsMap w s = None"
  proof (cases "sharedStringsMap w s")
    case (Some i)
    then have "i < length (sharedStrings w) \<and> sharedStrings w ! i = s"
      using assms(1) by (simp add: ssInv_def ssState_def)
    then show ?thesis using assms(2) by auto
  qed simp
  then show ?thesis using assms(3,4) by (simp add: Let_def)
qed

text \<open>
  Claim C4. After any sequence of public calls on a new writer that ends without an
  exception, the shared-string table has no duplicates and holds exactly the strings
  written that are neither empty nor formulas, so its length is the number of distinct
  such strings. Interning a string that is in the table returns its index and leaves the
  writer unchanged; a string that is not in the table is appended and gets the old length
  as index. Formulas, empty strings, \<open>null\<close> and \<open>undefined\<close> leave the writer unchanged.
\<close>

theorem shared_strings_interning:
  assumes "performAll (newWriter fname) calls = Inr w"
  shows "distinct (sharedStrings w)
       \<and> set (sharedStrings w) = plainStrings (concat (map valuesWritten calls))
       \<and> length (sharedStrings w) = card (plainStrings (concat (map valuesWritten calls)))
       \<and> (\<forall>s fmt. s \<noteq> [] \<and> \<not> startsWithEq s \<longrightarrow>
            (if s \<in> set (sharedStrings w)
             then (\<exists>i. i < length (sharedStrings w) \<and> sharedStrings w ! i = s \<and>
                       processCell w (JStr s) fmt =
                         (\<lparr>cell_value = JNum (Fin (of_nat i)), cell_type = ''s'', cell_format = fmt,
                           isFormula = False\<rparr>, w))
             else processCell w (JStr s) fmt =
                    (\<lparr>cell_value = JNum (Fin (of_nat (length (sharedStrings w)))), cell_type = ''s'',
                      cell_format = fmt, isFormula = False\<rparr>,
                     w\<lparr>sharedStrings := sharedStrings w @ [s],
                       sharedStringsMap := (sharedStringsMap w)(s \<mapsto> length (sharedStrings w))\<rparr>)))
       \<and> (\<forall>s fmt. startsWithEq s \<or> s = [] \<longrightarrow> snd (processCell w (JStr s) fmt) = w)
       \<and> (\<forall>fmt. snd (processCell w JNull fmt) = w \<and> snd (processCell w JUndef fmt) = w)"
proof -
  let ?vs = "concat (map valuesWritten calls)"
  have st: "ssState w = foldl internStep ([], Map.empty) ?vs"
    using ssState_performAll [OF assms] by (simp add: ssState_newWriter)
  have inv: "ssInv (ssState w)" and set: "set (fst (ssState w)) = plainStrings ?vs"
    using internStep_foldl [OF ssInv_empty, of ?vs] st by simp_all
  have d: "distinct (sharedStrings w)"
    using inv by (simp add: ssInv_def ssState_def)
  have s: "set (sharedStrings w) = plainStrings ?vs"
    using set by (simp add: ssState_def)
  have l: "length (sharedStrings w) = card (plainStrings ?vs)"
    using distinct_card [OF d] s by simp
  have i: "\<forall>s fmt. s \<noteq> [] \<and> \<not> startsWithEq s \<longrightarrow>
            (if s \<in> set (sharedStrings w)
             then (\<exists>i. i < length (sharedStrings w) \<and> sharedStrings w ! i = s \<and>
                       processCell w (JStr s) fmt =
                         (\<lparr>cell_value = JNum (Fin (of_nat i)), cell_type = ''s'', cell_format = fmt,
                           isFormula = False\<rparr>, w))
             else processCell w (JStr s) fmt =
                    (\<lparr>cell_value = JNum (Fin (of_nat (length (sharedStrings w)))), cell_type = ''s'',
                      cell_format = fmt, isFormula = False\<rparr>,
                     w\<lparr>sharedStrings := sharedStrings w @ [s],
                       sharedStringsMap := (sharedStringsMap w)(s \<mapsto> length (sharedStrings w))\<rparr>))"
    using processCell_known [OF inv] processCell_new [OF inv] by simp
  have f: "\<forall>s fmt. startsWithEq s \<or> s = [] \<longrightarrow> snd (processCell w (JStr s) fmt) = w"
    by (auto simp: startsWithEq_def)
  have e: "\<forall>fmt. snd (processCell w JNull fmt) = w \<and> snd (processCell w JUndef fmt) = w"
    by simp
  show ?thesis using d s l i f e by blast
qed


theorem shared_strings_interning_witness:
  "performAll (newWriter ''out.xlsx'')
     [WriteData [[JNum (Fin 1), JStr ''a''], [JNum (Fin 2), JStr ''b'']] (SheetName ''Sheet1'')
        \<lparr>opt_xlPos = Some (RefNumber 0), opt_header = None, opt_chart = None\<rparr>,
      Write 2 1 (JStr ''a'') None (SheetName ''Sheet1''),
      Write 3 1 (JStr ''=B1'') None (SheetName ''Sheet1'')]
     = Inr (projr (performAll (newWriter ''out.xlsx'')
     [WriteData [[JNum (Fin 1), JStr ''a''], [JNum (Fin 2), JStr ''b'']] (SheetName ''Sheet1'')
        \<lparr>opt_xlPos = Some (RefNumber 0), opt_header = None, opt_chart = None\<rparr>,
      Write 2 1 (JStr ''a'') None (SheetName ''Sheet1''),
      Write 3 1 (JStr ''=B1'') None (SheetName ''Sheet1'')]))
   \<and> sharedStrings (projr (performAll (newWriter ''out.xlsx'')
     [WriteData [[JNum (Fin 1), JStr ''a''], [JNum (Fin 2), JStr ''b'']] (SheetName ''Sheet1'')
        \<lparr>opt_xlPos = Some (RefNumber 0), opt_header = None, opt_chart = None\<rparr>,
      Write 2 1 (JStr ''a'') None (SheetName ''Sheet1''),
      Write 3 1 (JStr ''=B1'') None (SheetName ''Sheet1'')])) = [''a'', ''b'']
   \<and> card (plainStrings (concat (map valuesWritten
     [WriteData [[JNum (Fin 1), JStr ''a''], [JNum (Fin 2), JStr ''b'']] (SheetName ''Sheet1'')
        \<lparr>opt_xlPos = Some (RefNumber 0), opt_header = None, opt_chart = None\<rparr>,
      Write 2 1 (JStr ''a'') None (SheetName ''Sheet1''),
      Write 3 1 (JStr ''=B1'') None (SheetName ''Sheet1'')]))) = 2"
proof -
  let ?cs = "[WriteData [[JNum (Fin 1), JStr ''a''], [JNum (Fin 2), JStr ''b'']] (SheetName ''Sheet1'')
        \<lparr>opt_xlPos = Some (RefNumber 0), opt_header = None, opt_chart = None\<rparr>,
      Write 2 1 (JStr ''a'') None (SheetName ''Sheet1''),
      Write 3 1 (JStr ''=B1'') None (SheetName ''Sheet1'')]"
  let ?r = "performAll (newWriter ''out.xlsx'') ?cs"
  have "\<not> isl ?r" by code_simp
  then have h: "?r = Inr (projr ?r)" by (cases ?r) simp_all
  have v: "sharedStrings (projr ?r) = [''a'', ''b'']" by code_simp
  have "length (sharedStrings (projr ?r)) = card (plainStrings (concat (map valuesWritten ?cs)))"
    using shared_strings_interning [OF h] by blast
  then show ?thesis using h v by simp
qed

section \<open>Non-finite numbers in sheet data\<close>





















section \<open>Format registration\<close>

lemma getKey_update [simp]:
  "getKey (f\<lparr>xfIndex := a\<rparr>) = getKey f"
  "getKey (f\<lparr>numFormatIndex := b\<rparr>) = getKey f"
  by (simp_all add: getKey_def)

lemma addFormat_known:
  "formatMap w (getKey (newFormat p)) = Some i \<Longrightarrow> i < length (formats w) \<Longrightarrow>
   addFormat w p = (Some (formats w ! i), w)"
  by (simp add: addFormat_def Let_def)

lemma addFormat_new:
  assumes "formatMap w (getKey (newFormat p)) = None"
  shows "\<exists>f. addFormat w p = (Some f, snd (addFormat w p))
             \<and> getKey f = getKey (newFormat p)
             \<and> xfIndex f = Some (length (formats w))
             \<and> formats (snd (addFormat w p)) = formats w @ [f]
             \<and> formatMap (snd (addFormat w p)) =
                 (formatMap w)(getKey (newFormat p) \<mapsto> length (formats w))"
  using assms by (simp add: addFormat_def Let_def split: option.splits)


lemma fmtInvD1:
  "fmtInv w \<Longrightarrow> formatMap w k = Some i \<Longrightarrow> i < length (formats w) \<and> getKey (formats w ! i) = k"
  unfolding fmtInv_def by blast

lemma fmtInvD2:
  "fmtInv w \<Longrightarrow> i < length (formats w) \<Longrightarrow> formatMap w (getKey (formats w ! i)) = Some i"
  unfolding fmtInv_def by blast

lemma fmtInvD3:
  "fmtInv w \<Longrightarrow> i < length (formats w) \<Longrightarrow> xfIndex (formats w ! i) = Some i"
  unfolding fmtInv_def by blast

lemma fmtInvI:
  "(\<And>k i. formatMap w k = Some i \<Longrightarrow> i < length (formats w) \<and> getKey (formats w ! i) = k) \<Longrightarrow>
   (\<And>i. i < length (formats w) \<Longrightarrow> formatMap w (getKey (formats w ! i)) = Some i) \<Longrightarrow>
   (\<And>i. i < length (formats w) \<Longrightarrow> xfIndex (formats w ! i) = Some i) \<Longrightarrow>
   fmtInv w"
  unfolding fmtInv_def by blast

lemma addFormat_spec:
  assumes inv: "fmtInv w"
  shows "\<exists>f w' i. addFormat w p = (Some f, w') \<and> fmtInv w'
           \<and> getKey f = getKey (newFormat p)
           \<and> xfIndex f = Some i \<and> i < length (formats w') \<and> formats w' ! i = f
           \<and> take (length (formats w)) (formats w') = formats w
           \<and> length (formats w) \<le> length (formats w')
           \<and> (formatMap w (getKey (newFormat p)) \<noteq> None \<longrightarrow> w' = w)"
proof (cases "formatMap w (getKey (newFormat p))")
  case (Some i)
  have i: "i < length (formats w)" "getKey (formats w ! i) = getKey (newFormat p)"
    using fmtInvD1 [OF inv Some] by simp_all
  have "addFormat w p = (Some (formats w ! i), w)"
    by (rule addFormat_known [OF Some i(1)])
  then show ?thesis
    using inv i fmtInvD3 [OF inv i(1)] Some by simp
next
  case None
  let ?k = "getKey (newFormat p)"
  let ?w' = "snd (addFormat w p)"
  obtain f where f: "addFormat w p = (Some f, ?w')" "getKey f = ?k"
      "xfIndex f = Some (length (formats w))"
      "formats ?w' = formats w @ [f]"
      "formatMap ?w' = (formatMap w)(?k \<mapsto> length (formats w))"
    using addFormat_new [OF None] by blast
  have fresh: "\<And>i. i < length (formats w) \<Longrightarrow> getKey (formats w ! i) \<noteq> ?k"
    using fmtInvD2 [OF inv] None by force
  have "fmtInv ?w'"
  proof (rule fmtInvI)
    fix k i
    assume m: "formatMap ?w' k = Some i"
    show "i < length (formats ?w') \<and> getKey (formats ?w' ! i) = k"
    proof (cases "k = ?k")
      case True
      then have "i = length (formats w)" using m f(5) by simp
      then show ?thesis using True f(2,4) by simp
    next
      case False
      then have "formatMap w k = Some i" using m f(5) by simp
      then have "i < length (formats w) \<and> getKey (formats w ! i) = k"
        by (rule fmtInvD1 [OF inv])
      then show ?thesis using f(4) by (simp add: nth_append)
    qed
  next
    fix i
    assume "i < length (formats ?w')"
    then have "i < length (formats w) \<or> i = length (formats w)" using f(4) by auto
    then show "formatMap ?w' (getKey (formats ?w' ! i)) = Some i"
    proof
      assume i: "i < length (formats w)"
      then show ?thesis
        using fmtInvD2 [OF inv i] fresh [OF i] f(4,5) by (simp add: nth_append)
    next
      assume "i = length (formats w)"
      then show ?thesis using f(2,4,5) by simp
    qed
  next
    fix i
    assume "i < length (formats ?w')"
    then have "i < length (formats w) \<or> i = length (formats w)" using f(4) by auto
    then show "xfIndex (formats ?w' ! i) = Some i"
    proof
      assume i: "i < length (formats w)"
      then show ?thesis using fmtInvD3 [OF inv i] f(4) by (simp add: nth_append)
    next
      assume "i = length (formats w)"
      then show ?thesis using f(3,4) by simp
    qed
  qed
  then show ?thesis
    using f None by (intro exI [of _ f] exI [of _ ?w'] exI [of _ "length (formats w)"]) simp
qed

text \<open>
  Claim C6, as amended. On a writer whose format map agrees with its format list (as
  after the constructor and any number of \<open>addFormat\<close> calls), registering \<open>p1\<close> and
  then \<open>p2\<close> gives two registered Formats whose \<open>xfIndex\<close> is the same exactly when the
  keys of the two specs are the same; with the same key the second call returns the very
  Format of the first and changes nothing, and so does registering \<open>p1\<close> again.
\<close>

theorem addFormat_handles_by_key:
  assumes "fmtInv w"
  shows "\<exists>f1 w1 f2 w2.
           addFormat w p1 = (Some f1, w1) \<and> addFormat w1 p2 = (Some f2, w2) \<and> fmtInv w2
           \<and> xfIndex f1 \<noteq> None \<and> xfIndex f2 \<noteq> None
           \<and> (getKey (newFormat p1) = getKey (newFormat p2) \<longrightarrow> f2 = f1 \<and> w2 = w1)
           \<and> ((xfIndex f1 = xfIndex f2) = (getKey (newFormat p1) = getKey (newFormat p2)))
           \<and> addFormat w1 p1 = (Some f1, w1)"
proof -
  obtain f1 w1 i1 where a1: "addFormat w p1 = (Some f1, w1)" "fmtInv w1"
      "getKey f1 = getKey (newFormat p1)" "xfIndex f1 = Some i1" "i1 < length (formats w1)"
      "formats w1 ! i1 = f1"
    using addFormat_spec [OF assms, of p1] by blast
  obtain f2 w2 i2 where a2: "addFormat w1 p2 = (Some f2, w2)" "fmtInv w2"
      "getKey f2 = getKey (newFormat p2)" "xfIndex f2 = Some i2" "i2 < length (formats w2)"
      "formats w2 ! i2 = f2" "take (length (formats w1)) (formats w2) = formats w1"
      "length (formats w1) \<le> length (formats w2)"
      "formatMap w1 (getKey (newFormat p2)) \<noteq> None \<longrightarrow> w2 = w1"
    using addFormat_spec [OF a1(2), of p2] by blast
  have m1: "formatMap w1 (getKey (newFormat p1)) = Some i1"
    using fmtInvD2 [OF a1(2) a1(5)] a1(3,6) by simp
  have again: "addFormat w1 p1 = (Some f1, w1)"
    using addFormat_known [OF m1 a1(5)] a1(6) by simp
  have same: "getKey (newFormat p1) = getKey (newFormat p2) \<longrightarrow> f2 = f1 \<and> w2 = w1"
  proof
    assume k: "getKey (newFormat p1) = getKey (newFormat p2)"
    then have "addFormat w1 p2 = (Some f1, w1)"
      using addFormat_known [of w1 p2 i1] m1 a1(5,6) by simp
    then show "f2 = f1 \<and> w2 = w1" using a2(1) by simp
  qed
  have keep: "formats w2 ! i1 = f1"
  proof -
    have "formats w2 ! i1 = take (length (formats w1)) (formats w2) ! i1"
      using a1(5) by simp
    then show ?thesis using a2(7) a1(6) by simp
  qed
  have iff: "(xfIndex f1 = xfIndex f2) = (getKey (newFormat p1) = getKey (newFormat p2))"
  proof
    assume "xfIndex f1 = xfIndex f2"
    then have "i1 = i2" using a1(4) a2(4) by simp
    then have "f1 = f2" using keep a2(6) by simp
    then show "getKey (newFormat p1) = getKey (newFormat p2)" using a1(3) a2(3) by simp
  next
    assume "getKey (newFormat p1) = getKey (newFormat p2)"
    then show "xfIndex f1 = xfIndex f2" using same by simp
  qed
  show ?thesis
    using a1(1,4) a2(1,2,4) same iff again by blast
qed

lemma fmtInv_newWriter: "fmtInv (newWriter fname)"
proof -
  let ?w0 = "\<lparr>filename = (if endsWith fname ''.xlsx'' then fname else fname @ ''.xlsx''),
             zip = [], sheets = [], sheetMap = Map.empty,
             sharedStrings = [], sharedStringsMap = Map.empty,
             formats = [], formatMap = Map.empty,
             customNumFormats = [], nextNumFormatId = 164,
             columnInfo = Map.empty, rowInfo = Map.empty, mergeCells = Map.empty\<rparr>"
  have "fmtInv ?w0" by (simp add: fmtInv_def)
  then obtain f w' where "addFormat ?w0 noProperties = (Some f, w')" "fmtInv w'"
    using addFormat_spec [of ?w0 noProperties] by blast
  then show ?thesis by (simp add: newWriter_def)
qed


theorem addFormat_handles_by_key_witness:
  "fmtInv (newWriter ''out.xlsx'')
   \<and> (\<exists>f1 w1 f2 w2.
        addFormat (newWriter ''out.xlsx'') (noProperties\<lparr>prop_bold := Some True\<rparr>) = (Some f1, w1)
        \<and> addFormat w1 (noProperties\<lparr>prop_italic := Some True\<rparr>) = (Some f2, w2)
        \<and> ((xfIndex f1 = xfIndex f2) =
             (getKey (newFormat (noProperties\<lparr>prop_bold := Some True\<rparr>))
                = getKey (newFormat (noProperties\<lparr>prop_italic := Some True\<rparr>)))))"
proof -
  have h: "fmtInv (newWriter ''out.xlsx'')" by (rule fmtInv_newWriter)
  show ?thesis
    using h addFormat_handles_by_key [OF h, of "noProperties\<lparr>prop_bold := Some True\<rparr>"
                "noProperties\<lparr>prop_italic := Some True\<rparr>"]
    by blast
qed

text \<open>
  Claim C6 as stated fails: two specs that differ in the single field \<open>diagonal_type\<close>
  resolve to the same Format, the default one with \<open>xfIndex\<close> 0, because the key leaves
  the diagonal fields out.
\<close>

theorem addFormat_single_field_difference_same_handle:
  "noProperties\<lparr>prop_diagonal_type := Some 1\<rparr> \<noteq> noProperties\<lparr>prop_diagonal_type := Some 2\<rparr>
   \<and> fst (addFormat (snd (addFormat (newWriter ''out.xlsx'')
                              (noProperties\<lparr>prop_diagonal_type := Some 1\<rparr>)))
             (noProperties\<lparr>prop_diagonal_type := Some 2\<rparr>))
       = fst (addFormat (newWriter ''out.xlsx'') (noProperties\<lparr>prop_diagonal_type := Some 1\<rparr>))
   \<and> map_option xfIndex (fst (addFormat (newWriter ''out.xlsx'')
                              (noProperties\<lparr>prop_diagonal_type := Some 1\<rparr>))) = Some (Some 0)"
proof -
  have a: "noProperties\<lparr>prop_diagonal_type := Some 1\<rparr> \<noteq> noProperties\<lparr>prop_diagonal_type := Some 2\<rparr>"
  proof
    assume "noProperties\<lparr>prop_diagonal_type := Some 1\<rparr> = noProperties\<lparr>prop_diagonal_type := Some 2\<rparr>"
    then have "prop_diagonal_type (noProperties\<lparr>prop_diagonal_type := Some 1\<rparr>)
                 = prop_diagonal_type (noProperties\<lparr>prop_diagonal_type := Some 2\<rparr>)"
      by (rule arg_cong)
    then show False by simp
  qed
  have b: "fst (addFormat (snd (addFormat (newWriter ''out.xlsx'')
                              (noProperties\<lparr>prop_diagonal_type := Some 1\<rparr>)))
             (noProperties\<lparr>prop_diagonal_type := Some 2\<rparr>))
       = fst (addFormat (newWriter ''out.xlsx'') (noProperties\<lparr>prop_diagonal_type := Some 1\<rparr>))"
    by code_simp
  have c: "map_option xfIndex (fst (addFormat (newWriter ''out.xlsx'')
                              (noProperties\<lparr>prop_diagonal_type := Some 1\<rparr>))) = Some (Some 0)"
    by code_simp
  show ?thesis using a b c by blast
qed

section \<open>Custom number format ids\<close>

lemma numFormat_newFormat_nonempty: "numFormat (newFormat p) \<noteq> []"
  by (simp add: newFormat_def Let_def orStr_def split: option.splits)

lemma upt_164_snoc: "[164 ..< 164 + n] @ [164 + n] = [164 ..< 165 + n]"
proof -
  have "[164 ..< Suc (164 + n)] = [164 ..< 164 + n] @ [164 + n]"
    by (rule upt_Suc_append) simp
  moreover have "Suc (164 + n) = 165 + n" by simp
  ultimately show ?thesis by simp
qed

lemma numInv_addFormat: "numInv w \<Longrightarrow> numInv (snd (addFormat w p))"
  by (auto simp: addFormat_def Let_def numInv_def upt_164_snoc map_of_eq_None_iff
           split: option.splits)

lemma addFormat_builtin_number_format:
  assumes "formatMap w (getKey (newFormat p)) = None"
    and "numFormat (newFormat p) \<noteq> ''General''"
    and "map_of NUM_FORMATS (numFormat (newFormat p)) = Some v"
  shows "map_option numFormatIndex (fst (addFormat w p)) = Some v
         \<and> customNumFormats (snd (addFormat w p)) = customNumFormats w"
proof -
  have "getProp NUM_FORMATS (numFormat (newFormat p)) = v"
    using assms(3) by (simp add: getProp_def)
  moreover have "v \<noteq> JUndef"
    using map_of_SomeD [OF assms(3)] by (auto simp: NUM_FORMATS_def)
  ultimately show ?thesis
    using assms(1,2) numFormat_newFormat_nonempty [of p]
    by (simp add: addFormat_def Let_def)
qed

lemma addFormat_new_custom_number_format:
  assumes "numInv w"
    and "formatMap w (getKey (newFormat p)) = None"
    and "numFormat (newFormat p) \<noteq> ''General''"
    and "getProp NUM_FORMATS (numFormat (newFormat p)) = JUndef"
    and "map_of (customNumFormats w) (numFormat (newFormat p)) = None"
  shows "map_option numFormatIndex (fst (addFormat w p))
           = Some (JNum (Fin (of_nat (164 + length (customNumFormats w)))))
         \<and> customNumFormats (snd (addFormat w p))
           = customNumFormats w @ [(numFormat (newFormat p), 164 + length (customNumFormats w))]"
  using assms numFormat_newFormat_nonempty [of p]
  by (simp add: addFormat_def Let_def numInv_def)

lemma addFormat_known_custom_number_format:
  assumes "formatMap w (getKey (newFormat p)) = None"
    and "numFormat (newFormat p) \<noteq> ''General''"
    and "getProp NUM_FORMATS (numFormat (newFormat p)) = JUndef"
    and "map_of (customNumFormats w) (numFormat (newFormat p)) = Some fid"
  shows "map_option numFormatIndex (fst (addFormat w p)) = Some (JNum (Fin (of_nat fid)))
         \<and> customNumFormats (snd (addFormat w p)) = customNumFormats w"
  using assms numFormat_newFormat_nonempty [of p]
  by (simp add: addFormat_def Let_def)

lemma numInv_newWriter: "numInv (newWriter fname)"
  by (simp add: newWriter_def addFormat_def Let_def numInv_def split: option.splits)

text \<open>
  Claim C7. A format string that is neither built-in nor the name of a member inherited
  from \<open>Object.prototype\<close> gets the ids 164, 165, \<open>\<dots>\<close> as the claim says (the lemmas
  above). The test for a built-in format is the property read
  \<open>NUM_FORMATS[format.numFormat] !== undefined\<close>, which also succeeds for an inherited
  member: the custom format string \<open>constructor\<close> is given the function \<open>Object\<close> as
  its \<open>numFormatIndex\<close>, no id from 164 on, and no entry in \<open>customNumFormats\<close>; the next
  custom string, the second one, then gets 164.
\<close>

theorem addFormat_inherited_name_gets_no_custom_id:
  "map_option numFormatIndex
     (fst (addFormat (newWriter ''out.xlsx'') (noProperties\<lparr>prop_num_format := Some ''constructor''\<rparr>)))
     = Some (JFun ''Object'')
   \<and> customNumFormats
       (snd (addFormat (newWriter ''out.xlsx'') (noProperties\<lparr>prop_num_format := Some ''constructor''\<rparr>)))
     = []
   \<and> map_option numFormatIndex
       (fst (addFormat
               (snd (addFormat (newWriter ''out.xlsx'')
                       (noProperties\<lparr>prop_num_format := Some ''constructor''\<rparr>)))
               (noProperties\<lparr>prop_num_format := Some ''yyyy-mm-dd''\<rparr>)))
     = Some (JNum (Fin 164))"
  by code_simp

section \<open>Saving to a file\<close>

lemma zipFile_mono: "x \<in> set z \<Longrightarrow> x \<in> set (zipFile z p)"
  by (simp add: zipFile_def)

lemma zipFile_mem: "p \<in> set (zipFile z p)"
  by (simp add: zipFile_def)

lemma addWorksheets_loop_mono: "x \<in> set z \<Longrightarrow> x \<in> set (fst (addWorksheets_loop z i c ss))"
  by (induction z i c ss rule: addWorksheets_loop.induct)
     (simp_all add: Let_def zipFile_mono split: option.splits)

lemma addCharts_loop_mono: "x \<in> set z \<Longrightarrow> x \<in> set (addCharts_loop z i n)"
  by (induction z i n rule: addCharts_loop.induct) (simp_all add: zipFile_mono)

lemma save_produces_entries: "''_rels/.rels'' \<in> set (zip (snd (save w)))"
proof -
  let ?w2 = "addDocProps (addRels w)"
  let ?w5 = "addSharedStrings (addWorkbookRels (addWorkbook (addTheme (addStyles ?w2))))"
  have 5: "''_rels/.rels'' \<in> set (zip ?w5)"
    by (simp add: addRels_def addDocProps_def addStyles_def addTheme_def addWorkbook_def
          addWorkbookRels_def addSharedStrings_def zipFile_mono zipFile_mem)
  obtain w6 charts where 6: "addWorksheets ?w5 = (w6, charts)" by (metis prod.exhaust)
  have "zip w6 = fst (addWorksheets_loop (zip ?w5) 0 0 (sheets ?w5))"
    using 6 by (auto simp: addWorksheets_def Let_def split: prod.splits)
  then have "''_rels/.rels'' \<in> set (zip w6)"
    using addWorksheets_loop_mono [OF 5] by simp
  then have "''_rels/.rels'' \<in> set (zip (addCharts w6 charts))"
    by (simp add: addCharts_def addCharts_loop_mono)
  then have "''_rels/.rels'' \<in> set (zip (addXl ?w2))"
    using 6 by (simp add: addXl_def Let_def)
  then show ?thesis
    by (simp add: save_def Let_def addContentTypes_def zipFile_mono)
qed

text \<open>
  Claim C2, as amended. Under Node.js, when the resolved path of the file name is neither
  the working directory nor below it, or does not end in \<open>.xlsx\<close> (in any letter case),
  \<open>saveAs\<close> throws a security error and nothing leaves the program: no file is written
  and no download is triggered. The writer is the one \<open>save\<close> leaves behind, with the
  archive entries already added.
\<close>

theorem saveAs_rejects_before_writing:
  assumes "kind h = NodeJs"
    and "resolved = resolve h (case fname of Some f \<Rightarrow> if f \<noteq> [] then f else filename w | None \<Rightarrow> filename w)"
    and "(\<not> startsWith resolved (cwd h @ sep h) \<and> resolved \<noteq> cwd h)
         \<or> \<not> endsWith (toLowerCase resolved) ''.xlsx''"
  shows "(\<exists>msg. saveAs h w fname out = (Inl (SecurityError msg), snd (save w), out))
         \<and> ''_rels/.rels'' \<in> set (zip (snd (save w)))"
proof -
  have f: "filename (snd (save w)) = filename w"
    by (simp add: save_def addRels_def addDocProps_def addXl_def addStyles_def addTheme_def
          addWorkbook_def addWorkbookRels_def addSharedStrings_def addWorksheets_def addCharts_def
          addContentTypes_def Let_def split: prod.splits)
  obtain content w1 where s: "save w = (content, w1)" by (metis prod.exhaust)
  have f1: "filename w1 = filename w" using f s by simp
  have r: "resolve h (case fname of Some f \<Rightarrow> if f \<noteq> [] then f else filename w1 | None \<Rightarrow> filename w1)
             = resolved"
    unfolding f1 assms(2) ..
  have "saveAs h w fname out =
          (if \<not> startsWith resolved (cwd h @ sep h) \<and> resolved \<noteq> cwd h
           then (Inl (SecurityError ''Security error: output path must be within working directory''),
                 w1, out)
           else if \<not> endsWith (toLowerCase resolved) ''.xlsx''
           then (Inl (SecurityError ''Security error: output file must have .xlsx extension''),
                 w1, out)
           else (Inr content, w1, out\<lparr>filesWritten := filesWritten out @ [(resolved, content)]\<rparr>))"
    unfolding saveAs_def s using assms(1) r by (simp add: Let_def)
  then show ?thesis
    using assms(3) s save_produces_entries [of w] by auto
qed

theorem saveAs_rejects_before_writing_witness:
  "kind \<lparr>kind = NodeJs, cwd = ''/home/user'', sep = ''/'', resolve = id\<rparr> = NodeJs
   \<and> \<not> startsWith ''/etc/passwd'' (''/home/user'' @ ''/'')
   \<and> (\<exists>msg. saveAs \<lparr>kind = NodeJs, cwd = ''/home/user'', sep = ''/'', resolve = id\<rparr>
               (newWriter ''out.xlsx'') (Some ''/etc/passwd'') \<lparr>filesWritten = [], downloads = []\<rparr>
             = (Inl (SecurityError msg), snd (save (newWriter ''out.xlsx'')),
                \<lparr>filesWritten = [], downloads = []\<rparr>))"
proof -
  let ?h = "\<lparr>kind = NodeJs, cwd = ''/home/user'', sep = ''/'', resolve = id\<rparr>"
  have k: "kind ?h = NodeJs" by simp
  have r: "''/etc/passwd'' = resolve ?h (case Some ''/etc/passwd'' of
             Some f \<Rightarrow> if f \<noteq> [] then f else filename (newWriter ''out.xlsx'')
           | None \<Rightarrow> filename (newWriter ''out.xlsx''))"
    by simp
  have n: "\<not> startsWith ''/etc/passwd'' (''/home/user'' @ ''/'')"
    by (simp add: startsWith_def)
  have c: "(\<not> startsWith ''/etc/passwd'' (cwd ?h @ sep ?h) \<and> ''/etc/passwd'' \<noteq> cwd ?h)
         \<or> \<not> endsWith (toLowerCase ''/etc/passwd'') ''.xlsx''"
    using n by simp
  show ?thesis
    using k n saveAs_rejects_before_writing [OF k r c] by blast
qed

text \<open>
  Claim C2 as stated fails: \<open>saveAs\<close> calls \<open>save\<close> before it looks at the file name, so
  the rejected call on a new writer has added nine entries to the archive.
\<close>

theorem saveAs_rejection_leaves_archive_entries:
  "fst (saveAs \<lparr>kind = NodeJs, cwd = ''/home/user'', sep = ''/'', resolve = id\<rparr>
          (newWriter ''out.xlsx'') (Some ''/etc/passwd'') \<lparr>filesWritten = [], downloads = []\<rparr>)
     = Inl (SecurityError ''Security error: output path must be within working directory'')
   \<and> zip (newWriter ''out.xlsx'') = []
   \<and> zip (fst (snd (saveAs \<lparr>kind = NodeJs, cwd = ''/home/user'', sep = ''/'', resolve = id\<rparr>
          (newWriter ''out.xlsx'') (Some ''/etc/passwd'') \<lparr>filesWritten = [], downloads = []\<rparr>)))
     = [''_rels/.rels'', ''docProps/app.xml'', ''docProps/core.xml'', ''xl/styles.xml'',
        ''xl/theme/theme1.xml'', ''xl/workbook.xml'', ''xl/_rels/workbook.xml.rels'',
        ''xl/sharedStrings.xml'', ''[Content_Types].xml'']"
  by code_simp



section \<open>Axis kinds\<close>

lemma generateAxisXML_category:
  assumes "chartType \<noteq> ''scatter''" and "position = ''b'' \<or> position = ''t''"
  shows \<open>prefix (''<c:catAx><c:axId val="'' @ natToString (axis_id ax) @
                 ''"/><c:scaling><c:orientation val="minMax"/></c:scaling><c:delete val="0"/>'')
           (generateAxisXML ns ax position crossAxisId chartType)
         \<and> suffix ''</c:catAx>'' (generateAxisXML ns ax position crossAxisId chartType)\<close>
proof -
  have c: "useCategoryAxis position chartType"
    using assms by (simp add: useCategoryAxis_def)
  show ?thesis
    unfolding generateAxisXML_def axisScalingXML_def Let_def
    using c by (simp add: suffix_to_prefix)
qed

lemma logBase_text:
  \<open>(if isLogScale v then ''<c:logBase val="'' @ jsnumToString ns (the v) @ ''"/>'' else [])
   = (case v of
        Some (Fin b) \<Rightarrow> if 1 < b then ''<c:logBase val="'' @ numberToString ns b @ ''"/>'' else []
      | Some PosInf \<Rightarrow> ''<c:logBase val="Infinity"/>''
      | _ \<Rightarrow> [])\<close>
proof (cases v)
  case None
  then show ?thesis by simp
next
  case (Some n)
  then show ?thesis by (cases n) simp_all
qed

lemma bound_text:
  \<open>(if isBound v then tag @ jsnumToString ns (the v) @ ''"/>'' else [])
   = (case v of
        None \<Rightarrow> []
      | Some NaN \<Rightarrow> []
      | Some n \<Rightarrow> tag @ jsnumToString ns n @ ''"/>'')\<close>
proof (cases v)
  case None
  then show ?thesis by (simp add: isBound_def)
next
  case (Some n)
  then show ?thesis by (cases n) (simp_all add: isBound_def)
qed

lemma generateAxisXML_value:
  assumes "chartType = ''scatter'' \<or> \<not> (position = ''b'' \<or> position = ''t'')"
  shows \<open>prefix (''<c:valAx><c:axId val="'' @ natToString (axis_id ax) @ ''"/><c:scaling>'' @
                 (case axis_logBase ax of
                    Some (Fin b) \<Rightarrow>
                      if 1 < b then ''<c:logBase val="'' @ numberToString ns b @ ''"/>'' else []
                  | Some PosInf \<Rightarrow> ''<c:logBase val="Infinity"/>''
                  | _ \<Rightarrow> []) @
                 ''<c:orientation val="minMax"/>'' @
                 (case axis_maximum ax of
                    None \<Rightarrow> [] | Some NaN \<Rightarrow> []
                  | Some n \<Rightarrow> ''<c:max val="'' @ jsnumToString ns n @ ''"/>'') @
                 (case axis_minimum ax of
                    None \<Rightarrow> [] | Some NaN \<Rightarrow> []
                  | Some n \<Rightarrow> ''<c:min val="'' @ jsnumToString ns n @ ''"/>'') @
                 ''</c:scaling><c:delete val="0"/>'')
           (generateAxisXML ns ax position crossAxisId chartType)
         \<and> suffix ''</c:valAx>'' (generateAxisXML ns ax position crossAxisId chartType)\<close>
proof -
  have c: "\<not> useCategoryAxis position chartType"
    using assms by (auto simp: useCategoryAxis_def)
  have \<open>prefix (''<c:valAx><c:axId val="'' @ natToString (axis_id ax) @ ''"/><c:scaling>'' @
                 (if isLogScale (axis_logBase ax)
                  then ''<c:logBase val="'' @ jsnumToString ns (the (axis_logBase ax)) @ ''"/>'' else []) @
                 ''<c:orientation val="minMax"/>'' @
                 (if isBound (axis_maximum ax)
                  then ''<c:max val="'' @ jsnumToString ns (the (axis_maximum ax)) @ ''"/>'' else []) @
                 (if isBound (axis_minimum ax)
                  then ''<c:min val="'' @ jsnumToString ns (the (axis_minimum ax)) @ ''"/>'' else []) @
                 ''</c:scaling><c:delete val="0"/>'')
           (generateAxisXML ns ax position crossAxisId chartType)
         \<and> suffix ''</c:valAx>'' (generateAxisXML ns ax position crossAxisId chartType)\<close>
    unfolding generateAxisXML_def axisScalingXML_def Let_def
    using c by (simp add: suffix_to_prefix)
  then show ?thesis
    by (simp only: logBase_text bound_text)
qed

lemma generateChartXML_by_type:
  assumes "t = (case chart_type ch of Some s \<Rightarrow> if s \<noteq> [] then s else ''scatter'' | None \<Rightarrow> ''scatter'')"
  shows "generateChartXML ns nanText ch sheetName dio
         = chartPrologXML ch @ generateChartTypeXML ns nanText ch t sheetName dio @
           generateAxisXML ns (chart_xAxis ch) ''b'' (axis_id (chart_yAxis ch)) t @
           generateAxisXML ns (chart_yAxis ch) ''l'' (axis_id (chart_xAxis ch)) t @
           secondaryAxesXML ns ch @ chartEpilogXML ns ch"
    and "chart_y2Axis ch = Some y2 \<Longrightarrow> axis_visible y2 \<Longrightarrow>
         secondaryAxesXML ns ch
         = generateAxisXML ns (chart_x2Axis ch) ''t'' (axis_id y2) t @
           generateAxisXML ns y2 ''r'' (axis_id (chart_x2Axis ch)) t"
  using assms by (simp_all add: generateChartXML_def secondaryAxesXML_def chartTypeOf_def)

lemma prefix_sublist_3: "prefix l x \<Longrightarrow> sublist l (a @ b @ x @ c)"
proof -
  assume "prefix l x"
  then obtain r where "x = l @ r" by (auto simp: prefix_def)
  then have "a @ b @ x @ c = (a @ b) @ l @ (r @ c)" by simp
  then show ?thesis by (simp only: sublist_appendI)
qed

lemma prefix_sublist_4: "prefix l y \<Longrightarrow> sublist l (a @ b @ x @ y @ c)"
proof -
  assume "prefix l y"
  then obtain r where "y = l @ r" by (auto simp: prefix_def)
  then have "a @ b @ x @ y @ c = (a @ b @ x) @ l @ (r @ c)" by simp
  then show ?thesis by (simp only: sublist_appendI)
qed

text \<open>
  Claim C9. Let \<open>t\<close> be the type of the chart, \<open>chart.type || 'scatter'\<close>. The chart XML is
  the prolog, the chart-type element for \<open>t\<close>, the X axis generated at position \<open>b\<close> and
  the Y axis generated at position \<open>l\<close>, both for the type \<open>t\<close>, then the secondary axes
  and the epilog; secondary axes that are visible are generated at the positions \<open>t\<close> and
  \<open>r\<close>, for the type \<open>t\<close> as well. For every type other than \<open>scatter\<close>, an axis at
  position \<open>b\<close> or \<open>t\<close> is a \<open>c:catAx\<close> element whose \<open>c:scaling\<close> holds the orientation
  only, whatever \<open>logBase\<close>, \<open>maximum\<close> and \<open>minimum\<close> the axis carries. For the type
  \<open>scatter\<close>, and at the other positions for every type, the axis is a \<open>c:valAx\<close> element
  whose \<open>c:scaling\<close> holds \<open>c:logBase\<close> when the \<open>logBase\<close> of the axis is a number above 1,
  and \<open>c:max\<close> and \<open>c:min\<close> when \<open>maximum\<close> and \<open>minimum\<close> are set and not \<open>NaN\<close>.
\<close>

theorem axis_kind_by_chart_type:
  assumes "t = (case chart_type ch of Some s \<Rightarrow> if s \<noteq> [] then s else ''scatter'' | None \<Rightarrow> ''scatter'')"
  shows
    \<open>generateChartXML ns nanText ch sheetName dio
       = chartPrologXML ch @ generateChartTypeXML ns nanText ch t sheetName dio @
         generateAxisXML ns (chart_xAxis ch) ''b'' (axis_id (chart_yAxis ch)) t @
         generateAxisXML ns (chart_yAxis ch) ''l'' (axis_id (chart_xAxis ch)) t @
         secondaryAxesXML ns ch @ chartEpilogXML ns ch
     \<and> (\<forall>y2. chart_y2Axis ch = Some y2 \<and> axis_visible y2 \<longrightarrow>
           secondaryAxesXML ns ch
           = generateAxisXML ns (chart_x2Axis ch) ''t'' (axis_id y2) t @
             generateAxisXML ns y2 ''r'' (axis_id (chart_x2Axis ch)) t)
     \<and> (t \<noteq> ''scatter'' \<and> (position = ''b'' \<or> position = ''t'') \<longrightarrow>
           prefix (''<c:catAx><c:axId val="'' @ natToString (axis_id ax) @
                   ''"/><c:scaling><c:orientation val="minMax"/></c:scaling><c:delete val="0"/>'')
             (generateAxisXML ns ax position crossAxisId t)
           \<and> suffix ''</c:catAx>'' (generateAxisXML ns ax position crossAxisId t))
     \<and> (t = ''scatter'' \<or> \<not> (position = ''b'' \<or> position = ''t'') \<longrightarrow>
           prefix (''<c:valAx><c:axId val="'' @ natToString (axis_id ax) @ ''"/><c:scaling>'' @
                   (case axis_logBase ax of
                      Some (Fin b) \<Rightarrow>
                        if 1 < b then ''<c:logBase val="'' @ numberToString ns b @ ''"/>'' else []
                    | Some PosInf \<Rightarrow> ''<c:logBase val="Infinity"/>''
                    | _ \<Rightarrow> []) @
                   ''<c:orientation val="minMax"/>'' @
                   (case axis_maximum ax of
                      None \<Rightarrow> [] | Some NaN \<Rightarrow> []
                    | Some n \<Rightarrow> ''<c:max val="'' @ jsnumToString ns n @ ''"/>'') @
                   (case axis_minimum ax of
                      None \<Rightarrow> [] | Some NaN \<Rightarrow> []
                    | Some n \<Rightarrow> ''<c:min val="'' @ jsnumToString ns n @ ''"/>'') @
                   ''</c:scaling><c:delete val="0"/>'')
             (generateAxisXML ns ax position crossAxisId t)
           \<and> suffix ''</c:valAx>'' (generateAxisXML ns ax position crossAxisId t))\<close>
  using generateChartXML_by_type [OF assms]
        generateAxisXML_category [of t position ax ns crossAxisId]
        generateAxisXML_value [of t position ax ns crossAxisId]
  by blast

theorem axis_kind_by_chart_type_witness:
  \<open>sublist ''<c:catAx><c:axId val="111"/><c:scaling><c:orientation val="minMax"/></c:scaling><c:delete val="0"/>''
      (generateChartXML sentinelText nanTextDigits
         ((getDefaultChart 111 222 333 444)
            \<lparr>chart_type := Some ''line'',
             chart_xAxis := (getDefaultAxis 111)
               \<lparr>axis_logBase := Some (Fin 10), axis_maximum := Some (Fin 100),
                axis_minimum := Some (Fin 1)\<rparr>\<rparr>)
         ''Sheet1'' None)
   \<and> sublist ''<c:valAx><c:axId val="111"/><c:scaling><c:logBase val="10"/><c:orientation val="minMax"/><c:max val="100"/><c:min val="1"/></c:scaling><c:delete val="0"/>''
      (generateChartXML sentinelText nanTextDigits
         ((getDefaultChart 111 222 333 444)
            \<lparr>chart_type := Some ''scatter'',
             chart_xAxis := (getDefaultAxis 111)
               \<lparr>axis_logBase := Some (Fin 10), axis_maximum := Some (Fin 100),
                axis_minimum := Some (Fin 1)\<rparr>\<rparr>)
         ''Sheet1'' None)
   \<and> sublist ''<c:valAx><c:axId val="222"/><c:scaling><c:logBase val="2"/><c:orientation val="minMax"/><c:max val="8"/></c:scaling><c:delete val="0"/>''
      (generateChartXML sentinelText nanTextDigits
         ((getDefaultChart 111 222 333 444)
            \<lparr>chart_type := Some ''line'',
             chart_yAxis := (getDefaultAxis 222)
               \<lparr>axis_logBase := Some (Fin 2), axis_maximum := Some (Fin 8)\<rparr>\<rparr>)
         ''Sheet1'' None)\<close>
proof -
  let ?ax = "(getDefaultAxis 111)
               \<lparr>axis_logBase := Some (Fin 10), axis_maximum := Some (Fin 100),
                axis_minimum := Some (Fin 1)\<rparr>"
  let ?ay = "(getDefaultAxis 222)\<lparr>axis_logBase := Some (Fin 2), axis_maximum := Some (Fin 8)\<rparr>"
  let ?lc = "(getDefaultChart 111 222 333 444)\<lparr>chart_type := Some ''line'', chart_xAxis := ?ax\<rparr>"
  let ?sc = "(getDefaultChart 111 222 333 444)\<lparr>chart_type := Some ''scatter'', chart_xAxis := ?ax\<rparr>"
  let ?ly = "(getDefaultChart 111 222 333 444)\<lparr>chart_type := Some ''line'', chart_yAxis := ?ay\<rparr>"
  have tl: "''line'' = (case chart_type ?lc of Some s \<Rightarrow> if s \<noteq> [] then s else ''scatter''
                        | None \<Rightarrow> ''scatter'')"
    by simp
  have ts: "''scatter'' = (case chart_type ?sc of Some s \<Rightarrow> if s \<noteq> [] then s else ''scatter''
                           | None \<Rightarrow> ''scatter'')"
    by simp
  have ty: "''line'' = (case chart_type ?ly of Some s \<Rightarrow> if s \<noteq> [] then s else ''scatter''
                        | None \<Rightarrow> ''scatter'')"
    by simp
  have n1: "natToString (axis_id ?ax) = ''111''" by code_simp
  have n2: "natToString (axis_id ?ay) = ''222''" by code_simp
  have v1: "numberToString sentinelText 10 = ''10''" by code_simp
  have v2: "jsnumToString sentinelText (Fin 100) = ''100''" by code_simp
  have v3: "jsnumToString sentinelText (Fin 1) = ''1''" by code_simp
  have v4: "numberToString sentinelText 2 = ''2''" by code_simp
  have v5: "jsnumToString sentinelText (Fin 8) = ''8''" by code_simp
  have x: "chart_xAxis ?lc = ?ax" "chart_xAxis ?sc = ?ax" "chart_yAxis ?ly = ?ay" by simp_all
  note a = axis_kind_by_chart_type [OF tl, where ns = sentinelText and nanText = nanTextDigits
             and sheetName = "''Sheet1''" and dio = None and position = "''b''" and ax = ?ax
             and crossAxisId = "axis_id (chart_yAxis ?lc)"]
  note b = axis_kind_by_chart_type [OF ts, where ns = sentinelText and nanText = nanTextDigits
             and sheetName = "''Sheet1''" and dio = None and position = "''b''" and ax = ?ax
             and crossAxisId = "axis_id (chart_yAxis ?sc)"]
  note c = axis_kind_by_chart_type [OF ty, where ns = sentinelText and nanText = nanTextDigits
             and sheetName = "''Sheet1''" and dio = None and position = "''l''" and ax = ?ay
             and crossAxisId = "axis_id (chart_xAxis ?ly)"]
  have pa: \<open>prefix ''<c:catAx><c:axId val="111"/><c:scaling><c:orientation val="minMax"/></c:scaling><c:delete val="0"/>''
             (generateAxisXML sentinelText ?ax ''b'' (axis_id (chart_yAxis ?lc)) ''line'')\<close>
    using a n1 by simp
  have pb: \<open>prefix ''<c:valAx><c:axId val="111"/><c:scaling><c:logBase val="10"/><c:orientation val="minMax"/><c:max val="100"/><c:min val="1"/></c:scaling><c:delete val="0"/>''
             (generateAxisXML sentinelText ?ax ''b'' (axis_id (chart_yAxis ?sc)) ''scatter'')\<close>
    using b n1 v1 v2 v3 by simp
  have pc: \<open>prefix ''<c:valAx><c:axId val="222"/><c:scaling><c:logBase val="2"/><c:orientation val="minMax"/><c:max val="8"/></c:scaling><c:delete val="0"/>''
             (generateAxisXML sentinelText ?ay ''l'' (axis_id (chart_xAxis ?ly)) ''line'')\<close>
    using c n2 v4 v5 by (simp add: getDefaultAxis_def)
  have ea: "generateChartXML sentinelText nanTextDigits ?lc ''Sheet1'' None
       = chartPrologXML ?lc @ generateChartTypeXML sentinelText nanTextDigits ?lc ''line'' ''Sheet1'' None @
         generateAxisXML sentinelText ?ax ''b'' (axis_id (chart_yAxis ?lc)) ''line'' @
         (generateAxisXML sentinelText (chart_yAxis ?lc) ''l'' (axis_id (chart_xAxis ?lc)) ''line'' @
          secondaryAxesXML sentinelText ?lc @ chartEpilogXML sentinelText ?lc)"
    using a unfolding x by blast
  have eb: "generateChartXML sentinelText nanTextDigits ?sc ''Sheet1'' None
       = chartPrologXML ?sc @ generateChartTypeXML sentinelText nanTextDigits ?sc ''scatter'' ''Sheet1'' None @
         generateAxisXML sentinelText ?ax ''b'' (axis_id (chart_yAxis ?sc)) ''scatter'' @
         (generateAxisXML sentinelText (chart_yAxis ?sc) ''l'' (axis_id (chart_xAxis ?sc)) ''scatter'' @
          secondaryAxesXML sentinelText ?sc @ chartEpilogXML sentinelText ?sc)"
    using b unfolding x by blast
  have ec: "generateChartXML sentinelText nanTextDigits ?ly ''Sheet1'' None
       = chartPrologXML ?ly @ generateChartTypeXML sentinelText nanTextDigits ?ly ''line'' ''Sheet1'' None @
         generateAxisXML sentinelText (chart_xAxis ?ly) ''b'' (axis_id (chart_yAxis ?ly)) ''line'' @
         generateAxisXML sentinelText ?ay ''l'' (axis_id (chart_xAxis ?ly)) ''line'' @
         (secondaryAxesXML sentinelText ?ly @ chartEpilogXML sentinelText ?ly)"
    using c unfolding x by blast
  show ?thesis
    unfolding ea eb ec
    using prefix_sublist_3 [OF pa] prefix_sublist_3 [OF pb] prefix_sublist_4 [OF pc] by blast
qed

end
